theory Spec2Isabelle
  imports Main "HOL-Library.Word" "HOL-Library.AList"
begin

section \<open>Go values: results, machine integers, strings\<close>

text \<open>
  A Go function of the supervisor either panics, returns an error, or returns normally.
  The error sites of \<^verbatim>\<open>container_store.go\<close> are the constructors of \<open>error\<close>.
\<close>

datatype error =
    ErrListingContainers
  | ErrInspect
  | ErrParseInspection
  | ErrNoInspectionData
  | ErrStopKill
  | ErrRemove
  | ErrCreate
  | ErrComposeConfig
  | ErrParseCompose
  | ErrNoServices
  | ErrReadCompose

datatype 'a result = Panicked | Failed error | Returned 'a

text \<open>Sequencing: a panic or an error of the first step is the outcome of the whole.\<close>

definition and_then :: "'a result \<Rightarrow> ('a \<Rightarrow> 'b result) \<Rightarrow> 'b result" where
  "and_then r f = (case r of Returned x \<Rightarrow> f x | Panicked \<Rightarrow> Panicked | Failed e \<Rightarrow> Failed e)"

text \<open>Go's \<^verbatim>\<open>int\<close> on the build target (GOARCH=amd64) is a signed 64-bit integer.\<close>

type_synonym goint = "64 word"

definition int_lt :: "goint \<Rightarrow> goint \<Rightarrow> bool" where
  "int_lt a b = (sint a < sint b)"

definition int_le :: "goint \<Rightarrow> goint \<Rightarrow> bool" where
  "int_le a b = (sint a \<le> sint b)"

definition is_digit :: "char \<Rightarrow> bool" where
  "is_digit c = (c \<in> set ''0123456789'')"

definition digit_val :: "char \<Rightarrow> nat" where
  "digit_val c = of_char c - 48"

definition digits_val :: "string \<Rightarrow> nat" where
  "digits_val s = foldl (\<lambda>n c. n * 10 + digit_val c) 0 s"

text \<open>
  \<^verbatim>\<open>strconv.Atoi\<close>: an optional sign and at least one decimal digit; a value outside the
  64-bit range is an error that still returns the nearest bound; a syntax error returns 0.
  The second component is \<open>err == nil\<close>.
\<close>

definition Atoi :: "string \<Rightarrow> goint \<times> bool" where
  "Atoi s =
     (let neg = (case s of [] \<Rightarrow> False | c # _ \<Rightarrow> c = CHR ''-'');
          body = (case s of [] \<Rightarrow> [] | c # r \<Rightarrow> if c = CHR ''-'' \<or> c = CHR ''+'' then r else s)
      in if body = [] \<or> \<not> list_all is_digit body then (0, False)
         else (let v = int (digits_val body); sv = (if neg then - v else v)
               in if sv > 2 ^ 63 - 1 then (word_of_int (2 ^ 63 - 1), False)
                  else if sv < - (2 ^ 63) then (word_of_int (- (2 ^ 63)), False)
                  else (word_of_int sv, True)))"

definition digit_char :: "nat \<Rightarrow> char" where
  "digit_char n = ''0123456789'' ! n"

text \<open>
  \<^verbatim>\<open>strconv.Itoa\<close>: the decimal digits of the absolute value without leading zeros, after
  a minus sign for a negative number. A 64-bit value has at most 20 digits.
\<close>

definition decimal :: "nat \<Rightarrow> string" where
  "decimal n =
     (case dropWhile (\<lambda>c. c = CHR ''0'')
             (map (\<lambda>p. digit_char (n div p mod 10))
                [10000000000000000000, 1000000000000000000, 100000000000000000,
                 10000000000000000, 1000000000000000, 100000000000000, 10000000000000,
                 1000000000000, 100000000000, 10000000000, 1000000000, 100000000, 10000000,
                 1000000, 100000, 10000, 1000, 100, 10, 1]) of
        [] \<Rightarrow> ''0''
      | ds \<Rightarrow> ds)"

definition Itoa :: "goint \<Rightarrow> string" where
  "Itoa w = (let i = sint w in if i < 0 then CHR ''-'' # decimal (nat (- i)) else decimal (nat i))"

text \<open>\<^verbatim>\<open>strings.Split\<close> with a one-byte separator, \<^verbatim>\<open>strings.HasPrefix\<close>, \<^verbatim>\<open>strings.TrimPrefix\<close>.\<close>

fun Split :: "string \<Rightarrow> char \<Rightarrow> string list" where
  "Split [] sep = [[]]"
| "Split (x # xs) sep =
     (if x = sep then [] # Split xs sep
      else (case Split xs sep of [] \<Rightarrow> [[x]] | h # t \<Rightarrow> (x # h) # t))"

definition HasPrefix :: "string \<Rightarrow> string \<Rightarrow> bool" where
  "HasPrefix s p = (take (length p) s = p)"

definition TrimPrefix :: "string \<Rightarrow> string \<Rightarrow> string" where
  "TrimPrefix s p = (if HasPrefix s p then drop (length p) s else s)"

section \<open>The data model of \<^verbatim>\<open>main.go\<close> and \<^verbatim>\<open>container_store.go\<close>\<close>

record PortMapping =
  ContainerPort :: string
  HostPort :: string
  Protocol :: string
  OriginalPort :: string

record Container =
  ID :: string
  Image :: string
  Command :: string
  Created :: string
  Status :: string
  Ports :: string
  Names :: string
  ComposeProject :: string
  ComposeService :: string
  PortMappings :: "PortMapping list"
  DynamicPorts :: bool

text \<open>
  Go maps are association lists with distinct keys: \<open>map_of\<close> reads, \<open>AList.update\<close>
  assigns, \<open>AList.delete\<close> deletes. Go iterates a map in an unspecified order; the
  order of the list stands for it.
\<close>

record ContainerStore =
  containers :: "(string \<times> Container) list"
  portMappings :: "(string \<times> (string \<times> string) list) list"
  processedContainers :: "(string \<times> bool) list"
  portRangeMin :: goint
  portRangeMax :: goint

section \<open>The container runtime and the host, as the supervisor sees them\<close>

text \<open>
  The supervisor reaches the runtime through \<^verbatim>\<open>docker\<close> commands, the host through
  \<^verbatim>\<open>net.Listen\<close> and the global generator of \<^verbatim>\<open>math/rand\<close>. None of them is code of the
  repository: each is a field of \<open>runtime\<close>, a function of the outside world \<open>'w\<close>, and the
  theorems hold for every such record. A command that can change the runtime returns the
  new world. Text outputs are given after \<^verbatim>\<open>strings.TrimSpace\<close>, JSON and YAML outputs by the
  value they decode to.
\<close>

datatype json =
    JNull
  | JBool bool
  | JNum int
  | JStr string
  | JArr "json list"
  | JObj "(string \<times> json) list"

datatype json_text = NotJSON | JSON json

datatype yaml =
    YNull
  | YBool bool
  | YInt goint
  | YStr string
  | YSeq "yaml list"
  | YMap "(string \<times> yaml) list"

datatype yaml_text = NotYAML | YAML yaml

text \<open>One line of \<^verbatim>\<open>docker ps --format {{json .}}\<close>, decoded into the anonymous struct.\<close>

record dockerContainer =
  dc_ID :: string
  dc_Image :: string
  dc_Command :: string
  dc_RunningFor :: string
  dc_Status :: string
  dc_Ports :: string
  dc_Names :: string

datatype ps_line = BadLine | Line dockerContainer

record 'w runtime =
  rand_next :: "'w \<Rightarrow> nat \<times> 'w"
  net_listen :: "'w \<Rightarrow> goint \<Rightarrow> bool"
  docker_ps :: "'w \<Rightarrow> ps_line list option"
  docker_inspect_id :: "'w \<Rightarrow> string \<Rightarrow> bool"
  docker_inspect_label_index :: "'w \<Rightarrow> string \<Rightarrow> string \<Rightarrow> string option"
  docker_inspect_label_field :: "'w \<Rightarrow> string \<Rightarrow> string \<Rightarrow> string option"
  docker_inspect :: "'w \<Rightarrow> string \<Rightarrow> json_text option"
  docker_inspect_json :: "'w \<Rightarrow> string \<Rightarrow> json_text option"
  docker_update_label :: "'w \<Rightarrow> string \<Rightarrow> bool \<times> 'w"
  docker_label :: "'w \<Rightarrow> string \<Rightarrow> bool \<times> 'w"
  docker_stop :: "'w \<Rightarrow> string \<Rightarrow> bool \<times> 'w"
  docker_kill :: "'w \<Rightarrow> string \<Rightarrow> bool \<times> 'w"
  docker_rm :: "'w \<Rightarrow> string \<Rightarrow> bool \<times> 'w"
  docker_run :: "'w \<Rightarrow> string list \<Rightarrow> string option \<times> 'w"
  compose_config :: "'w \<Rightarrow> string \<Rightarrow> yaml_text option"
  read_file :: "'w \<Rightarrow> string \<Rightarrow> yaml_text option"

text \<open>
  What the supervisor does that others can see: the commands that change the runtime, and
  the contents of the Store at the end of each critical section under the exclusive lock
  (\<^verbatim>\<open>s.mu.Lock()\<close> ... \<^verbatim>\<open>s.mu.Unlock()\<close>).
\<close>

datatype event =
    DockerUpdateLabel string bool
  | DockerLabel string bool
  | DockerStop string bool
  | DockerKill string bool
  | DockerRm string bool
  | DockerRun "string list" "string option"
  | Unlock ContainerStore

record 'w machine =
  store :: ContainerStore
  world :: 'w
  trace :: "event list"

definition emit :: "event \<Rightarrow> 'w machine \<Rightarrow> 'w machine" where
  "emit e m = m\<lparr>trace := trace m @ [e]\<rparr>"

text \<open>A critical section: the Store is rewritten and the lock released.\<close>

definition locked :: "(ContainerStore \<Rightarrow> ContainerStore) \<Rightarrow> 'w machine \<Rightarrow> 'w machine" where
  "locked f m = (let s' = f (store m) in m\<lparr>store := s', trace := trace m @ [Unlock s']\<rparr>)"

section \<open>Port allocator\<close>

text \<open>\<^verbatim>\<open>rand.Intn(n)\<close> panics if \<open>n \<le> 0\<close> and otherwise returns a number in \<open>[0, n)\<close>.\<close>

definition rand_Intn :: "'w runtime \<Rightarrow> goint \<Rightarrow> 'w machine \<Rightarrow> goint result \<times> 'w machine" where
  "rand_Intn D n m =
     (if sint n \<le> 0 then (Panicked, m)
      else (case rand_next D (world m) of
              (r, w') \<Rightarrow> (Returned (word_of_nat (r mod nat (sint n))), m\<lparr>world := w'\<rparr>)))"

definition port_tracked :: "ContainerStore \<Rightarrow> goint \<Rightarrow> bool" where
  "port_tracked s port =
     list_ex (\<lambda>(id, c). list_ex (\<lambda>pm. fst (Atoi (HostPort pm)) = port) (PortMappings c))
       (containers s)"

definition isPortAvailable :: "'w runtime \<Rightarrow> 'w machine \<Rightarrow> goint \<Rightarrow> bool" where
  "isPortAvailable D m port =
     (if port_tracked (store m) port then False else net_listen D (world m) port)"

fun allocate_attempts :: "'w runtime \<Rightarrow> nat \<Rightarrow> 'w machine \<Rightarrow> goint result \<times> 'w machine" where
  "allocate_attempts D 0 m =
     (case rand_Intn D (portRangeMax (store m) - portRangeMin (store m)) m of
        (Returned r, m') \<Rightarrow> (Returned (r + portRangeMin (store m)), m')
      | (Panicked, m') \<Rightarrow> (Panicked, m')
      | (Failed e, m') \<Rightarrow> (Failed e, m'))"
| "allocate_attempts D (Suc k) m =
     (case rand_Intn D (portRangeMax (store m) - portRangeMin (store m)) m of
        (Returned r, m') \<Rightarrow>
          (let port = r + portRangeMin (store m)
           in if isPortAvailable D m' port then (Returned port, m')
              else allocate_attempts D k m')
      | (Panicked, m') \<Rightarrow> (Panicked, m')
      | (Failed e, m') \<Rightarrow> (Failed e, m'))"

definition allocateRandomPort :: "'w runtime \<Rightarrow> 'w machine \<Rightarrow> goint result \<times> 'w machine" where
  "allocateRandomPort D m = allocate_attempts D 100 m"

text \<open>\<^verbatim>\<open>main\<close> copies the \<^verbatim>\<open>-min\<close> and \<^verbatim>\<open>-max\<close> flags into the Store as they are.\<close>

definition set_port_range :: "goint \<Rightarrow> goint \<Rightarrow> ContainerStore \<Rightarrow> ContainerStore" where
  "set_port_range minPort maxPort s = s\<lparr>portRangeMin := minPort, portRangeMax := maxPort\<rparr>"

section \<open>Binding parser\<close>

text \<open>
  \<^verbatim>\<open>portRegex\<close> is \<^verbatim>\<open>(?:(\d+\.\d+\.\d+\.\d+):)?(\d+)->(\d+)\/(\w+)\<close>. Every \<^verbatim>\<open>\d+\<close> is followed
  by a literal that is not a digit, so a match at a position takes the whole run of digits
  there. \<open>digits_then lit s\<close> reads such a run and the literal after it.
\<close>

definition is_word_char :: "char \<Rightarrow> bool" where
  "is_word_char c =
     (is_digit c \<or> c = CHR ''_'' \<or> c \<in> set ''abcdefghijklmnopqrstuvwxyz''
      \<or> c \<in> set ''ABCDEFGHIJKLMNOPQRSTUVWXYZ'')"

definition digits_then :: "string \<Rightarrow> string \<Rightarrow> (string \<times> string) option" where
  "digits_then lit s =
     (let ds = takeWhile is_digit s; r = dropWhile is_digit s
      in if ds \<noteq> [] \<and> HasPrefix r lit then Some (ds, drop (length lit) r) else None)"

text \<open>The groups 2, 3 and 4 of a match, and what is left of the input after it.\<close>

record port_match =
  m_host :: string
  m_cport :: string
  m_proto :: string

definition match_mapping :: "string \<Rightarrow> (port_match \<times> string) option" where
  "match_mapping s =
     (case digits_then ''->'' s of
        None \<Rightarrow> None
      | Some (h, r1) \<Rightarrow>
          (case digits_then ''/'' r1 of
             None \<Rightarrow> None
           | Some (c, r2) \<Rightarrow>
               (let p = takeWhile is_word_char r2
                in if p = [] then None
                   else Some (\<lparr>m_host = h, m_cport = c, m_proto = p\<rparr>, dropWhile is_word_char r2))))"

definition match_ip :: "string \<Rightarrow> string option" where
  "match_ip s =
     (case digits_then ''.'' s of
        None \<Rightarrow> None
      | Some (a, r1) \<Rightarrow>
          (case digits_then ''.'' r1 of
             None \<Rightarrow> None
           | Some (b, r2) \<Rightarrow>
               (case digits_then ''.'' r2 of
                  None \<Rightarrow> None
                | Some (c, r3) \<Rightarrow>
                    (case digits_then '':'' r3 of
                       None \<Rightarrow> None
                     | Some (d, r4) \<Rightarrow> Some r4))))"

text \<open>A match that starts at the head of the input: first with the address, then without.\<close>

definition match_at :: "string \<Rightarrow> (port_match \<times> string) option" where
  "match_at s =
     (case (case match_ip s of None \<Rightarrow> None | Some r \<Rightarrow> match_mapping r) of
        Some res \<Rightarrow> Some res
      | None \<Rightarrow> match_mapping s)"

text \<open>
  \<^verbatim>\<open>FindAllStringSubmatch(portsStr, -1)\<close>: the leftmost match, then the search goes on after
  it. \<open>skip\<close> counts the bytes of the last match still to pass.
\<close>

fun find_all_from :: "nat \<Rightarrow> string \<Rightarrow> port_match list" where
  "find_all_from skip [] = []"
| "find_all_from skip (x # xs) =
     (if 0 < skip then find_all_from (skip - 1) xs
      else (case match_at (x # xs) of
              None \<Rightarrow> find_all_from 0 xs
            | Some (pm, rest) \<Rightarrow> pm # find_all_from (length xs - length rest) xs))"

definition portRegex_FindAll :: "string \<Rightarrow> port_match list" where
  "portRegex_FindAll s = find_all_from 0 s"

section \<open>Container Store\<close>

definition dynamic_label :: string where
  "dynamic_label = ''com.dynamic-port-mapper.has-dynamic-ports''"

definition extractLabel :: "'w runtime \<Rightarrow> 'w \<Rightarrow> string \<Rightarrow> string \<Rightarrow> string" where
  "extractLabel D w containerID label =
     (let fallback =
            (case docker_inspect_label_field D w containerID label of
               None \<Rightarrow> []
             | Some v \<Rightarrow> if v = ''<no value>'' \<or> v = [] then [] else v)
      in case docker_inspect_label_index D w containerID label of
           None \<Rightarrow> fallback
         | Some v \<Rightarrow> if v \<noteq> ''<no value>'' \<and> v \<noteq> [] then v else fallback)"

definition mark_processed :: "string \<Rightarrow> ContainerStore \<Rightarrow> ContainerStore" where
  "mark_processed containerID s =
     s\<lparr>processedContainers := AList.update containerID True (processedContainers s)\<rparr>"

definition addDynamicPortLabel :: "'w runtime \<Rightarrow> 'w machine \<Rightarrow> string \<Rightarrow> 'w machine" where
  "addDynamicPortLabel D m containerID =
     (let m1 = locked (mark_processed containerID) m
      in if \<not> docker_inspect_id D (world m1) containerID then m1
         else (case docker_update_label D (world m1) containerID of
                 (True, w2) \<Rightarrow> emit (DockerUpdateLabel containerID True) (m1\<lparr>world := w2\<rparr>)
               | (False, w2) \<Rightarrow>
                   (case docker_label D w2 containerID of
                      (ok, w3) \<Rightarrow>
                        emit (DockerLabel containerID ok)
                          (emit (DockerUpdateLabel containerID False) (m1\<lparr>world := w3\<rparr>)))))"

definition in_memory_processed :: "ContainerStore \<Rightarrow> string \<Rightarrow> bool" where
  "in_memory_processed s containerID = (map_of (processedContainers s) containerID = Some True)"

definition isContainerProcessed :: "'w runtime \<Rightarrow> 'w machine \<Rightarrow> string \<Rightarrow> bool \<times> 'w machine" where
  "isContainerProcessed D m containerID =
     (if in_memory_processed (store m) containerID then (True, m)
      else if extractLabel D (world m) containerID dynamic_label = ''true''
           then (True, locked (mark_processed containerID) m)
           else (False, m))"

definition port_key :: "string \<Rightarrow> string \<Rightarrow> string" where
  "port_key containerPort protocol = containerPort @ ''/'' @ protocol"

definition restore_one :: "(string \<times> string) list \<Rightarrow> port_match \<Rightarrow> PortMapping" where
  "restore_one storedMappings mt =
     (case map_of storedMappings (port_key (m_cport mt) (m_proto mt)) of
        Some storedPort \<Rightarrow>
          (if storedPort \<noteq> m_host mt
           then \<lparr>ContainerPort = m_cport mt, HostPort = storedPort, Protocol = m_proto mt,
                 OriginalPort = m_host mt\<rparr>
           else \<lparr>ContainerPort = m_cport mt, HostPort = m_host mt, Protocol = m_proto mt,
                 OriginalPort = m_host mt\<rparr>)
      | None \<Rightarrow>
          \<lparr>ContainerPort = m_cport mt, HostPort = m_host mt, Protocol = m_proto mt,
           OriginalPort = m_host mt\<rparr>)"

definition was_remapped :: "(string \<times> string) list \<Rightarrow> port_match \<Rightarrow> bool" where
  "was_remapped storedMappings mt =
     (case map_of storedMappings (port_key (m_cport mt) (m_proto mt)) of
        Some storedPort \<Rightarrow> storedPort \<noteq> m_host mt
      | None \<Rightarrow> False)"

definition restorePortMappings :: "string \<Rightarrow> (string \<times> string) list \<Rightarrow> PortMapping list \<times> bool" where
  "restorePortMappings portsStr storedMappings =
     (let matches = portRegex_FindAll portsStr
      in (map (restore_one storedMappings) matches, list_ex (was_remapped storedMappings) matches))"

definition unmapped :: "port_match \<Rightarrow> PortMapping" where
  "unmapped mt =
     \<lparr>ContainerPort = m_cport mt, HostPort = m_host mt, Protocol = m_proto mt,
      OriginalPort = m_host mt\<rparr>"

definition host_in_range :: "ContainerStore \<Rightarrow> string \<Rightarrow> bool" where
  "host_in_range s hostPort =
     (case Atoi hostPort of
        (portInt, ok) \<Rightarrow>
          \<not> (\<not> ok \<or> int_lt portInt (portRangeMin s) \<or> int_lt (portRangeMax s) portInt))"

definition parsePortsWithoutRemapping ::
  "'w runtime \<Rightarrow> 'w machine \<Rightarrow> string \<Rightarrow> string \<Rightarrow> (string \<times> (string \<times> string) list) list
   \<Rightarrow> (PortMapping list \<times> bool) \<times> 'w machine" where
  "parsePortsWithoutRemapping D m containerID portsStr existingMappings =
     (case map_of existingMappings containerID of
        Some mappings \<Rightarrow> (restorePortMappings portsStr mappings, m)
      | None \<Rightarrow>
          (case isContainerProcessed D m containerID of
             (processed, m1) \<Rightarrow>
               (let matches = portRegex_FindAll portsStr;
                    mappings = map unmapped matches
                in if processed then ((mappings, True), m1)
                   else if matches \<noteq> []
                           \<and> list_all (\<lambda>mt. host_in_range (store m1) (m_host mt)) matches
                        then ((mappings, True), addDynamicPortLabel D m1 containerID)
                        else ((mappings, False), m1))))"

text \<open>The project and service of a container: labels first, then the container's name.\<close>

fun first_label :: "'w runtime \<Rightarrow> 'w \<Rightarrow> string \<Rightarrow> string list \<Rightarrow> string" where
  "first_label D w containerID [] = []"
| "first_label D w containerID (l # ls) =
     (let v = extractLabel D w containerID l
      in if v \<noteq> [] then v else first_label D w containerID ls)"

definition project_from_name :: "string \<Rightarrow> string" where
  "project_from_name names =
     (let containerName = TrimPrefix names ''/'';
          parts = Split containerName (CHR ''_'')
      in if 2 \<le> length parts \<and> hd parts \<noteq> [] then hd parts
         else (let parts2 = Split containerName (CHR ''-'')
               in if 3 \<le> length parts2 \<and> hd parts2 \<noteq> [] then hd parts2 else []))"

definition compose_project_of :: "'w runtime \<Rightarrow> 'w \<Rightarrow> dockerContainer \<Rightarrow> string" where
  "compose_project_of D w dc =
     (let p = extractLabel D w (dc_ID dc) ''com.docker.compose.project''
      in if p \<noteq> [] then p
         else (let p2 = first_label D w (dc_ID dc)
                          [''docker-compose.project'', ''io.compose.project'',
                           ''com.docker.project'', ''project'']
               in if p2 \<noteq> [] then p2 else project_from_name (dc_Names dc)))"

definition compose_service_of :: "'w runtime \<Rightarrow> 'w \<Rightarrow> dockerContainer \<Rightarrow> string \<Rightarrow> string" where
  "compose_service_of D w dc composeProject =
     (let sv = extractLabel D w (dc_ID dc) ''com.docker.compose.service''
      in if sv = [] \<and> composeProject \<noteq> []
         then (let s2 = first_label D w (dc_ID dc)
                          [''docker-compose.service'', ''io.compose.service'',
                           ''com.docker.service'', ''service'']
               in if s2 \<noteq> [] then s2
                  else (let parts = Split (dc_Names dc) (CHR ''_'')
                        in if 2 \<le> length parts then parts ! 1 else []))
         else sv)"

definition mappings_index :: "PortMapping list \<Rightarrow> (string \<times> string) list" where
  "mappings_index pms =
     foldl (\<lambda>mp pm. AList.update (port_key (ContainerPort pm) (Protocol pm)) (HostPort pm) mp) [] pms"

text \<open>The three maps that a refresh builds before it swaps them in.\<close>

record new_state =
  newContainers :: "(string \<times> Container) list"
  newPortMappings :: "(string \<times> (string \<times> string) list) list"
  newProcessedContainers :: "(string \<times> bool) list"

definition refresh_line ::
  "'w runtime \<Rightarrow> (string \<times> (string \<times> string) list) list \<Rightarrow> (string \<times> bool) list \<Rightarrow> ps_line
   \<Rightarrow> new_state \<times> 'w machine \<Rightarrow> new_state \<times> 'w machine" where
  "refresh_line D currentPortMappings processedSnapshot line acc =
     (case acc of
        (ns, m) \<Rightarrow>
          (case line of
             BadLine \<Rightarrow> (ns, m)
           | Line dc \<Rightarrow>
               (if \<not> docker_inspect_id D (world m) (dc_ID dc) then (ns, m)
                else (let composeProject = compose_project_of D (world m) dc;
                          composeService = compose_service_of D (world m) dc composeProject
                      in case parsePortsWithoutRemapping D m (dc_ID dc) (dc_Ports dc)
                                currentPortMappings of
                           ((pms, dyn), m1) \<Rightarrow>
                             (let container =
                                    \<lparr>ID = dc_ID dc, Image = dc_Image dc, Command = dc_Command dc,
                                     Created = dc_RunningFor dc, Status = dc_Status dc,
                                     Ports = dc_Ports dc, Names = dc_Names dc,
                                     ComposeProject = composeProject,
                                     ComposeService = composeService,
                                     PortMappings = pms, DynamicPorts = dyn\<rparr>
                              in (\<lparr>newContainers = AList.update (dc_ID dc) container (newContainers ns),
                                   newPortMappings =
                                     (if pms \<noteq> []
                                      then AList.update (dc_ID dc) (mappings_index pms)
                                             (newPortMappings ns)
                                      else newPortMappings ns),
                                   newProcessedContainers =
                                     (if map_of processedSnapshot (dc_ID dc) = Some True
                                      then AList.update (dc_ID dc) True (newProcessedContainers ns)
                                      else newProcessedContainers ns)\<rparr>,
                                  m1))))))"

definition refresh_build :: "'w runtime \<Rightarrow> ps_line list \<Rightarrow> 'w machine \<Rightarrow> new_state \<times> 'w machine" where
  "refresh_build D lines m =
     foldl (\<lambda>acc line. refresh_line D (portMappings (store m)) (processedContainers (store m)) line acc)
       (\<lparr>newContainers = [], newPortMappings = [], newProcessedContainers = []\<rparr>, m) lines"

definition swap_in :: "new_state \<Rightarrow> ContainerStore \<Rightarrow> ContainerStore" where
  "swap_in ns s =
     s\<lparr>containers := newContainers ns, portMappings := newPortMappings ns,
       processedContainers := newProcessedContainers ns\<rparr>"

definition refreshContainers :: "'w runtime \<Rightarrow> 'w machine \<Rightarrow> unit result \<times> 'w machine" where
  "refreshContainers D m =
     (case docker_ps D (world m) of
        None \<Rightarrow> (Failed ErrListingContainers, m)
      | Some lines \<Rightarrow>
          (case refresh_build D lines m of
             (ns, m1) \<Rightarrow> (Returned (), locked (swap_in ns) m1)))"

section \<open>Collision detector\<close>

definition isPortUsedByOtherContainer :: "ContainerStore \<Rightarrow> string \<Rightarrow> goint \<Rightarrow> string \<Rightarrow> bool" where
  "isPortUsedByOtherContainer s containerID port protocol =
     list_ex (\<lambda>(id, c). id \<noteq> containerID
                \<and> list_ex (\<lambda>pm. fst (Atoi (HostPort pm)) = port \<and> Protocol pm = protocol)
                      (PortMappings c))
       (containers s)"

definition allocate_string :: "'w runtime \<Rightarrow> 'w machine \<Rightarrow> (bool \<times> string) result \<times> 'w machine" where
  "allocate_string D m =
     (case allocateRandomPort D m of
        (Returned newPort, m') \<Rightarrow> (Returned (True, Itoa newPort), m')
      | (Panicked, m') \<Rightarrow> (Panicked, m')
      | (Failed e, m') \<Rightarrow> (Failed e, m'))"

definition checkPortCollision ::
  "'w runtime \<Rightarrow> 'w machine \<Rightarrow> string \<Rightarrow> string \<Rightarrow> string \<Rightarrow> (bool \<times> string) result \<times> 'w machine" where
  "checkPortCollision D m containerID hostPort protocol =
     (case Atoi hostPort of
        (portInt, ok) \<Rightarrow>
          (if \<not> ok then (Returned (False, hostPort), m)
           else if int_le (portRangeMin (store m)) portInt \<and> int_le portInt (portRangeMax (store m))
           then (if isPortUsedByOtherContainer (store m) containerID portInt protocol
                 then allocate_string D m
                 else (Returned (False, hostPort), m))
           else allocate_string D m))"

section \<open>Recreator\<close>

text \<open>
  Type assertions on the decoded inspect output. The one-result form \<^verbatim>\<open>x.(T)\<close> panics when
  the value is absent or of another type; the two-result form with \<^verbatim>\<open>ok\<close> does not.
\<close>

definition must_string :: "json option \<Rightarrow> string result" where
  "must_string v = (case v of Some (JStr x) \<Rightarrow> Returned x | _ \<Rightarrow> Panicked)"

definition must_object :: "json option \<Rightarrow> (string \<times> json) list result" where
  "must_object v = (case v of Some (JObj x) \<Rightarrow> Returned x | _ \<Rightarrow> Panicked)"

definition must_array :: "json option \<Rightarrow> json list result" where
  "must_array v = (case v of Some (JArr x) \<Rightarrow> Returned x | _ \<Rightarrow> Panicked)"

fun must_strings :: "json list \<Rightarrow> string list result" where
  "must_strings [] = Returned []"
| "must_strings (e # es) =
     and_then (must_string (Some e)) (\<lambda>x. and_then (must_strings es) (\<lambda>xs. Returned (x # xs)))"

fun mount_args :: "json list \<Rightarrow> string list result" where
  "mount_args [] = Returned []"
| "mount_args (mt # ms) =
     and_then (must_object (Some mt)) (\<lambda>mount.
     and_then (must_string (map_of mount ''Source'')) (\<lambda>src.
     and_then (must_string (map_of mount ''Destination'')) (\<lambda>dst.
     and_then (mount_args ms) (\<lambda>rest. Returned ([''-v'', src @ '':'' @ dst] @ rest)))))"

text \<open>One existing binding: \<^verbatim>\<open>HostIp\<close> and \<^verbatim>\<open>HostPort\<close>, each empty when the key is absent.\<close>

definition binding_field :: "(string \<times> json) list \<Rightarrow> string \<Rightarrow> string result" where
  "binding_field binding k =
     (case map_of binding k of None \<Rightarrow> Returned [] | Some v \<Rightarrow> must_string (Some v))"

fun copy_bindings :: "json list \<Rightarrow> (string \<times> string) list result" where
  "copy_bindings [] = Returned []"
| "copy_bindings (b # bs) =
     and_then (must_object (Some b)) (\<lambda>binding.
     and_then (binding_field binding ''HostIp'') (\<lambda>hostIP.
     and_then (binding_field binding ''HostPort'') (\<lambda>hostPort.
     and_then (copy_bindings bs) (\<lambda>rest. Returned ((hostIP, hostPort) # rest)))))"

text \<open>The bindings kept from \<^verbatim>\<open>HostConfig.PortBindings\<close>: all but the port being remapped.\<close>

fun existing_bindings ::
  "string \<Rightarrow> (string \<times> json) list \<Rightarrow> (string \<times> (string \<times> string) list) list
   \<Rightarrow> (string \<times> (string \<times> string) list) list result" where
  "existing_bindings portToRemap [] acc = Returned acc"
| "existing_bindings portToRemap ((port, bindings) # rest) acc =
     (if port = portToRemap then existing_bindings portToRemap rest acc
      else and_then (must_array (Some bindings)) (\<lambda>bindingsArray.
           and_then (copy_bindings bindingsArray) (\<lambda>bs.
           existing_bindings portToRemap rest (AList.update port bs acc))))"

definition port_bindings_of ::
  "(string \<times> json) list \<Rightarrow> string \<Rightarrow> string \<Rightarrow> (string \<times> (string \<times> string) list) list result" where
  "port_bindings_of hostConfig portToRemap newHostPort =
     and_then (case map_of hostConfig ''PortBindings'' of
                 Some (JObj pb) \<Rightarrow> existing_bindings portToRemap pb []
               | _ \<Rightarrow> Returned [])
       (\<lambda>kept. Returned (AList.update portToRemap [([], newHostPort)] kept))"

text \<open>
  \<^verbatim>\<open>int(x)\<close> of a \<^verbatim>\<open>float64\<close> whose value is a whole number: outside the range of \<^verbatim>\<open>int\<close> the
  conversion gives the least \<^verbatim>\<open>int\<close>, as the 64-bit targets do.
\<close>

definition float_to_int :: "int \<Rightarrow> goint" where
  "float_to_int x =
     (if - (2 ^ 63) \<le> x \<and> x < 2 ^ 63 then word_of_int x else word_of_int (- (2 ^ 63)))"

definition restart_policy_of :: "(string \<times> json) list \<Rightarrow> string" where
  "restart_policy_of hostConfig =
     (case map_of hostConfig ''RestartPolicy'' of
        Some (JObj policy) \<Rightarrow>
          (case map_of policy ''Name'' of
             Some (JStr name) \<Rightarrow>
               (if name = [] then []
                else if name = ''on-failure''
                     then (case map_of policy ''MaximumRetryCount'' of
                             Some (JNum maxRetry) \<Rightarrow> name @ '':'' @ Itoa (float_to_int maxRetry)
                           | _ \<Rightarrow> name)
                     else name)
           | _ \<Rightarrow> [])
      | _ \<Rightarrow> [])"

fun label_args :: "(string \<times> json) list \<Rightarrow> string list result" where
  "label_args [] = Returned []"
| "label_args ((k, v) # rest) =
     and_then (must_string (Some v)) (\<lambda>x.
     and_then (label_args rest) (\<lambda>others. Returned ([''--label'', k @ ''='' @ x] @ others)))"

text \<open>What \<^verbatim>\<open>remapContainerPort\<close> reads from the inspect output before it stops the container.\<close>

record run_spec =
  rs_name :: string
  rs_image :: string
  rs_networkMode :: string
  rs_envVars :: "string list"
  rs_volumeArgs :: "string list"
  rs_portBindings :: "(string \<times> (string \<times> string) list) list"
  rs_restartPolicy :: string
  rs_labelArgs :: "string list"

definition strip_slash :: "string \<Rightarrow> string result" where
  "strip_slash containerName =
     (case containerName of
        [] \<Rightarrow> Panicked
      | c # r \<Rightarrow> Returned (if c = CHR ''/'' then r else containerName))"

definition collect_attributes ::
  "(string \<times> json) list \<Rightarrow> string \<Rightarrow> string \<Rightarrow> string \<Rightarrow> run_spec result" where
  "collect_attributes containerInfo newHostPort containerPort protocol =
     and_then (must_string (map_of containerInfo ''Name'')) (\<lambda>name0.
     and_then (strip_slash name0) (\<lambda>containerName.
     and_then (must_object (map_of containerInfo ''Config'')) (\<lambda>config.
     and_then (must_string (map_of config ''Image'')) (\<lambda>image.
     and_then (must_object (map_of containerInfo ''HostConfig'')) (\<lambda>hostConfig.
     and_then (must_string (map_of hostConfig ''NetworkMode'')) (\<lambda>networkMode.
     and_then (must_array (map_of config ''Env'')) (\<lambda>env.
     and_then (must_strings env) (\<lambda>envVars.
     and_then (case map_of containerInfo ''Mounts'' of
                 Some (JArr mounts) \<Rightarrow> mount_args mounts
               | _ \<Rightarrow> Returned []) (\<lambda>volumeArgs.
     and_then (port_bindings_of hostConfig (port_key containerPort protocol) newHostPort)
       (\<lambda>portBindings.
     and_then (must_object (map_of config ''Labels'')) (\<lambda>labels.
     and_then (label_args (AList.update dynamic_label (JStr ''true'') labels)) (\<lambda>labelArgs.
       Returned \<lparr>rs_name = containerName, rs_image = image, rs_networkMode = networkMode,
                 rs_envVars = envVars, rs_volumeArgs = volumeArgs,
                 rs_portBindings = portBindings,
                 rs_restartPolicy = restart_policy_of hostConfig,
                 rs_labelArgs = labelArgs\<rparr>))))))))))))"

definition port_args :: "(string \<times> (string \<times> string) list) list \<Rightarrow> string list" where
  "port_args portBindings =
     concat (map (\<lambda>(port, bindings).
                    concat (map (\<lambda>(hostIP, hostPort).
                                   if hostIP \<noteq> [] \<and> hostIP \<noteq> ''0.0.0.0''
                                   then [''-p'', hostIP @ '':'' @ hostPort @ '':'' @ port]
                                   else [''-p'', hostPort @ '':'' @ port]) bindings))
               portBindings)"

definition create_args :: "run_spec \<Rightarrow> string list" where
  "create_args sp =
     [''run'', ''-d'', ''--name'', rs_name sp]
     @ (if rs_networkMode sp \<noteq> [] \<and> rs_networkMode sp \<noteq> ''default''
        then [''--network'', rs_networkMode sp] else [])
     @ (if rs_restartPolicy sp \<noteq> [] then [''--restart'', rs_restartPolicy sp] else [])
     @ rs_volumeArgs sp
     @ port_args (rs_portBindings sp)
     @ concat (map (\<lambda>e. [''-e'', e]) (rs_envVars sp))
     @ rs_labelArgs sp
     @ [rs_image sp]"

text \<open>
  \<^verbatim>\<open>json.Unmarshal\<close> into \<^verbatim>\<open>[]map[string]interface{}\<close>, the length check, and
  \<^verbatim>\<open>containerData[0]\<close>; a \<^verbatim>\<open>null\<close> element is a nil map, where every key is absent.
\<close>

definition is_object_or_null :: "json \<Rightarrow> bool" where
  "is_object_or_null j = (case j of JObj _ \<Rightarrow> True | JNull \<Rightarrow> True | _ \<Rightarrow> False)"

definition decode_inspect :: "json \<Rightarrow> (string \<times> json) list result" where
  "decode_inspect j =
     (case j of
        JNull \<Rightarrow> Failed ErrNoInspectionData
      | JArr xs \<Rightarrow>
          (if \<not> list_all is_object_or_null xs then Failed ErrParseInspection
           else (case xs of
                   [] \<Rightarrow> Failed ErrNoInspectionData
                 | JObj containerInfo # _ \<Rightarrow> Returned containerInfo
                 | _ # _ \<Rightarrow> Returned []))
      | _ \<Rightarrow> Failed ErrParseInspection)"

text \<open>Steps 3 to 7: stop (or kill), remove, run, mark the new container.\<close>

definition stop_or_kill :: "'w runtime \<Rightarrow> 'w machine \<Rightarrow> string \<Rightarrow> bool \<times> 'w machine" where
  "stop_or_kill D m containerID =
     (case docker_stop D (world m) containerID of
        (True, w2) \<Rightarrow> (True, emit (DockerStop containerID True) (m\<lparr>world := w2\<rparr>))
      | (False, w2) \<Rightarrow>
          (case docker_kill D w2 containerID of
             (killed, w3) \<Rightarrow>
               (killed, emit (DockerKill containerID killed)
                          (emit (DockerStop containerID False) (m\<lparr>world := w3\<rparr>)))))"

definition recreate :: "'w runtime \<Rightarrow> 'w machine \<Rightarrow> string \<Rightarrow> run_spec \<Rightarrow> unit result \<times> 'w machine" where
  "recreate D m containerID sp =
     (case stop_or_kill D m containerID of
        (False, m2) \<Rightarrow> (Failed ErrStopKill, m2)
      | (True, m2) \<Rightarrow>
          (case docker_rm D (world m2) containerID of
             (False, w3) \<Rightarrow> (Failed ErrRemove, emit (DockerRm containerID False) (m2\<lparr>world := w3\<rparr>))
           | (True, w3) \<Rightarrow>
               (let m3 = emit (DockerRm containerID True) (m2\<lparr>world := w3\<rparr>);
                    createArgs = create_args sp
                in case docker_run D (world m3) createArgs of
                     (None, w4) \<Rightarrow> (Failed ErrCreate, emit (DockerRun createArgs None) (m3\<lparr>world := w4\<rparr>))
                   | (Some newContainerID, w4) \<Rightarrow>
                       (Returned (),
                        locked (mark_processed newContainerID)
                          (emit (DockerRun createArgs (Some newContainerID)) (m3\<lparr>world := w4\<rparr>))))))"

definition remapContainerPort ::
  "'w runtime \<Rightarrow> 'w machine \<Rightarrow> string \<Rightarrow> string \<Rightarrow> string \<Rightarrow> string \<Rightarrow> string
   \<Rightarrow> unit result \<times> 'w machine" where
  "remapContainerPort D m containerID oldHostPort newHostPort containerPort protocol =
     (let m1 = addDynamicPortLabel D m containerID
      in case docker_inspect D (world m1) containerID of
           None \<Rightarrow> (Failed ErrInspect, m1)
         | Some NotJSON \<Rightarrow> (Failed ErrParseInspection, m1)
         | Some (JSON j) \<Rightarrow>
             (case and_then (decode_inspect j)
                     (\<lambda>containerInfo. collect_attributes containerInfo newHostPort containerPort protocol) of
                Panicked \<Rightarrow> (Panicked, m1)
              | Failed e \<Rightarrow> (Failed e, m1)
              | Returned sp \<Rightarrow> recreate D m1 containerID sp))"

section \<open>Reconciler\<close>

text \<open>
  The host port that the start handler looks at for one container port: \<^verbatim>\<open>HostPort\<close> of
  \<^verbatim>\<open>bindingsArray[0]\<close>. \<open>None\<close> stands for \<^verbatim>\<open>continue\<close>.
\<close>

definition first_host_port :: "json \<Rightarrow> string option result" where
  "first_host_port bindings =
     (case bindings of
        JArr (b # _) \<Rightarrow>
          and_then (must_object (Some b)) (\<lambda>binding.
            (case map_of binding ''HostPort'' of
               Some (JStr hostPort) \<Rightarrow> Returned (if hostPort = [] then None else Some hostPort)
             | _ \<Rightarrow> Returned None))
      | _ \<Rightarrow> Returned None)"

fun all_in_dynamic_range :: "ContainerStore \<Rightarrow> (string \<times> json) list \<Rightarrow> bool result" where
  "all_in_dynamic_range s [] = Returned True"
| "all_in_dynamic_range s ((k, bindings) # rest) =
     and_then (first_host_port bindings) (\<lambda>h.
       (case h of
          None \<Rightarrow> all_in_dynamic_range s rest
        | Some hostPort \<Rightarrow>
            if host_in_range s hostPort then all_in_dynamic_range s rest else Returned False))"

text \<open>The second loop: \<^verbatim>\<open>portsToRemap\<close>, from container port and protocol to the new host port.\<close>

fun collect_remaps ::
  "'w runtime \<Rightarrow> string \<Rightarrow> (string \<times> json) list \<Rightarrow> (string \<times> string) list \<Rightarrow> 'w machine
   \<Rightarrow> (string \<times> string) list result \<times> 'w machine" where
  "collect_remaps D containerID [] portsToRemap m = (Returned portsToRemap, m)"
| "collect_remaps D containerID ((containerPortProto, bindings) # rest) portsToRemap m =
     (case first_host_port bindings of
        Panicked \<Rightarrow> (Panicked, m)
      | Failed e \<Rightarrow> (Failed e, m)
      | Returned None \<Rightarrow> collect_remaps D containerID rest portsToRemap m
      | Returned (Some hostPort) \<Rightarrow>
          (let parts = Split containerPortProto (CHR ''/'')
           in if length parts \<noteq> 2 then collect_remaps D containerID rest portsToRemap m
              else (case checkPortCollision D m containerID hostPort (parts ! 1) of
                      (Returned (needsRemap, newPort), m') \<Rightarrow>
                        collect_remaps D containerID rest
                          (if needsRemap then AList.update containerPortProto newPort portsToRemap
                           else portsToRemap) m'
                    | (Panicked, m') \<Rightarrow> (Panicked, m')
                    | (Failed e, m') \<Rightarrow> (Failed e, m'))))"

definition old_host_port :: "(string \<times> json) list \<Rightarrow> string \<Rightarrow> string result" where
  "old_host_port portBindings containerPortProto =
     and_then (must_array (map_of portBindings containerPortProto)) (\<lambda>bindings.
       (case bindings of
          [] \<Rightarrow> Panicked
        | b # _ \<Rightarrow> and_then (must_object (Some b)) (\<lambda>binding. must_string (map_of binding ''HostPort''))))"

text \<open>The third loop: one call of the Recreator per scheduled port; its error is only logged.\<close>

fun remap_all ::
  "'w runtime \<Rightarrow> string \<Rightarrow> (string \<times> json) list \<Rightarrow> (string \<times> string) list \<Rightarrow> 'w machine
   \<Rightarrow> unit result \<times> 'w machine" where
  "remap_all D containerID portBindings [] m = (Returned (), m)"
| "remap_all D containerID portBindings ((containerPortProto, newHostPort) # rest) m =
     (let parts = Split containerPortProto (CHR ''/'')
      in case old_host_port portBindings containerPortProto of
           Returned oldHostPort \<Rightarrow>
             (case remapContainerPort D m containerID oldHostPort newHostPort (parts ! 0) (parts ! 1) of
                (Panicked, m') \<Rightarrow> (Panicked, m')
              | (_, m') \<Rightarrow> remap_all D containerID portBindings rest m')
         | _ \<Rightarrow> (Panicked, m))"

definition refresh_after :: "'w runtime \<Rightarrow> 'w machine \<Rightarrow> unit result \<times> 'w machine" where
  "refresh_after D m = (Returned (), snd (refreshContainers D m))"

definition handle_bindings ::
  "'w runtime \<Rightarrow> 'w machine \<Rightarrow> string \<Rightarrow> (string \<times> json) list \<Rightarrow> unit result \<times> 'w machine" where
  "handle_bindings D m containerID portBindings =
     (case all_in_dynamic_range (store m) portBindings of
        Panicked \<Rightarrow> (Panicked, m)
      | Failed e \<Rightarrow> (Failed e, m)
      | Returned True \<Rightarrow> refresh_after D (addDynamicPortLabel D m containerID)
      | Returned False \<Rightarrow>
          (case collect_remaps D containerID portBindings [] m of
             (Returned portsToRemap, m2) \<Rightarrow>
               (if portsToRemap \<noteq> []
                then (case remap_all D containerID portBindings portsToRemap m2 of
                        (Returned u, m3) \<Rightarrow> refresh_after D m3
                      | (r, m3) \<Rightarrow> (r, m3))
                else refresh_after D (addDynamicPortLabel D m2 containerID))
           | (Panicked, m2) \<Rightarrow> (Panicked, m2)
           | (Failed e, m2) \<Rightarrow> (Failed e, m2)))"

definition handleContainerStart :: "'w runtime \<Rightarrow> 'w machine \<Rightarrow> string \<Rightarrow> unit result \<times> 'w machine" where
  "handleContainerStart D m containerID =
     (case isContainerProcessed D m containerID of
        (True, m1) \<Rightarrow> refresh_after D m1
      | (False, m1) \<Rightarrow>
          (case docker_inspect_json D (world m1) containerID of
             Some (JSON (JObj containerData)) \<Rightarrow>
               (case map_of containerData ''HostConfig'' of
                  Some (JObj hostConfig) \<Rightarrow>
                    (case map_of hostConfig ''PortBindings'' of
                       Some (JObj portBindings) \<Rightarrow>
                         (if portBindings = [] then (Returned (), m1)
                          else handle_bindings D m1 containerID portBindings)
                     | _ \<Rightarrow> (Returned (), m1))
                | _ \<Rightarrow> (Returned (), m1))
           | _ \<Rightarrow> (Returned (), m1)))"

definition forget :: "string \<Rightarrow> ContainerStore \<Rightarrow> ContainerStore" where
  "forget containerID s =
     s\<lparr>portMappings := AList.delete containerID (portMappings s),
       containers := AList.delete containerID (containers s),
       processedContainers := AList.delete containerID (processedContainers s)\<rparr>"

definition handleContainerStop :: "'w runtime \<Rightarrow> 'w machine \<Rightarrow> string \<Rightarrow> unit result \<times> 'w machine" where
  "handleContainerStop D m containerID = refresh_after D (locked (forget containerID) m)"

section \<open>Group pre-planner\<close>

text \<open>
  One entry of a service's \<^verbatim>\<open>ports\<close> list: host port, container port and protocol, from the
  string form or the table form; all empty for any other entry.
\<close>

definition parse_port_entry :: "yaml \<Rightarrow> string \<times> string \<times> string" where
  "parse_port_entry portMapping =
     (case portMapping of
        YStr pm \<Rightarrow>
          (let parts = Split pm (CHR '':'')
           in if length parts = 2
              then (let containerPortProto = Split (parts ! 1) (CHR ''/'')
                    in (parts ! 0, containerPortProto ! 0,
                        if 1 < length containerPortProto then containerPortProto ! 1 else ''tcp''))
              else ([], [], []))
      | YMap pm \<Rightarrow>
          ((case map_of pm ''published'' of
              Some (YStr published) \<Rightarrow> published
            | Some (YInt published) \<Rightarrow> Itoa published
            | _ \<Rightarrow> []),
           (case map_of pm ''target'' of
              Some (YStr target) \<Rightarrow> target
            | Some (YInt target) \<Rightarrow> Itoa target
            | _ \<Rightarrow> []),
           (case map_of pm ''protocol'' of Some (YStr proto) \<Rightarrow> proto | _ \<Rightarrow> ''tcp''))
      | _ \<Rightarrow> ([], [], []))"

definition binding_tracked :: "ContainerStore \<Rightarrow> goint \<Rightarrow> string \<Rightarrow> bool" where
  "binding_tracked s portInt protocol =
     list_ex (\<lambda>(id, c). list_ex (\<lambda>pm. fst (Atoi (HostPort pm)) = portInt \<and> Protocol pm = protocol)
                           (PortMappings c))
       (containers s)"

definition port_in_use :: "'w runtime \<Rightarrow> 'w machine \<Rightarrow> goint \<Rightarrow> string \<Rightarrow> bool" where
  "port_in_use D m portInt protocol =
     (let inUse = binding_tracked (store m) portInt protocol
      in if \<not> inUse \<and> \<not> isPortAvailable D m portInt then True else inUse)"

definition check_entry ::
  "'w runtime \<Rightarrow> string \<Rightarrow> yaml \<Rightarrow> (string \<times> string) list \<Rightarrow> 'w machine
   \<Rightarrow> (string \<times> string) list result \<times> 'w machine" where
  "check_entry D serviceName portMapping portRemappings m =
     (case parse_port_entry portMapping of
        (hostPort, containerPort, protocol) \<Rightarrow>
          (if hostPort = [] \<or> containerPort = [] then (Returned portRemappings, m)
           else (case Atoi hostPort of
                   (portInt, ok) \<Rightarrow>
                     (if \<not> ok then (Returned portRemappings, m)
                      else if port_in_use D m portInt protocol
                      then (case allocateRandomPort D m of
                              (Returned newPort, m') \<Rightarrow>
                                (Returned (AList.update (serviceName @ '':'' @ hostPort)
                                             (Itoa newPort) portRemappings), m')
                            | (Panicked, m') \<Rightarrow> (Panicked, m')
                            | (Failed e, m') \<Rightarrow> (Failed e, m'))
                      else (Returned portRemappings, m)))))"

fun check_ports ::
  "'w runtime \<Rightarrow> string \<Rightarrow> yaml list \<Rightarrow> (string \<times> string) list \<Rightarrow> 'w machine
   \<Rightarrow> (string \<times> string) list result \<times> 'w machine" where
  "check_ports D serviceName [] portRemappings m = (Returned portRemappings, m)"
| "check_ports D serviceName (portMapping # rest) portRemappings m =
     (case check_entry D serviceName portMapping portRemappings m of
        (Returned acc, m') \<Rightarrow> check_ports D serviceName rest acc m'
      | (Panicked, m') \<Rightarrow> (Panicked, m')
      | (Failed e, m') \<Rightarrow> (Failed e, m'))"

definition service_ports :: "yaml \<Rightarrow> yaml list option" where
  "service_ports serviceConfig =
     (case serviceConfig of
        YMap serviceMap \<Rightarrow>
          (case map_of serviceMap ''ports'' of Some (YSeq ports) \<Rightarrow> Some ports | _ \<Rightarrow> None)
      | _ \<Rightarrow> None)"

fun check_services ::
  "'w runtime \<Rightarrow> (string \<times> yaml) list \<Rightarrow> (string \<times> string) list \<Rightarrow> 'w machine
   \<Rightarrow> (string \<times> string) list result \<times> 'w machine" where
  "check_services D [] portRemappings m = (Returned portRemappings, m)"
| "check_services D ((serviceName, serviceConfig) # rest) portRemappings m =
     (case service_ports serviceConfig of
        None \<Rightarrow> check_services D rest portRemappings m
      | Some ports \<Rightarrow>
          (case check_ports D serviceName ports portRemappings m of
             (Returned acc, m') \<Rightarrow> check_services D rest acc m'
           | (Panicked, m') \<Rightarrow> (Panicked, m')
           | (Failed e, m') \<Rightarrow> (Failed e, m')))"

text \<open>\<^verbatim>\<open>yaml.Unmarshal\<close> into \<^verbatim>\<open>map[string]interface{}\<close>, then the \<^verbatim>\<open>services\<close> table.\<close>

definition services_of :: "yaml \<Rightarrow> ((string \<times> yaml) list \<times> (string \<times> yaml) list) result" where
  "services_of y =
     (case y of
        YMap composeConfig \<Rightarrow>
          (case map_of composeConfig ''services'' of
             Some (YMap services) \<Rightarrow> Returned (composeConfig, services)
           | _ \<Rightarrow> Failed ErrNoServices)
      | YNull \<Rightarrow> Failed ErrNoServices
      | _ \<Rightarrow> Failed ErrParseCompose)"

definition CheckComposePortConflicts ::
  "'w runtime \<Rightarrow> 'w machine \<Rightarrow> string \<Rightarrow> (string \<times> string) list result \<times> 'w machine" where
  "CheckComposePortConflicts D m composeFile =
     (case compose_config D (world m) composeFile of
        None \<Rightarrow> (Failed ErrComposeConfig, m)
      | Some NotYAML \<Rightarrow> (Failed ErrParseCompose, m)
      | Some (YAML y) \<Rightarrow>
          (case services_of y of
             Returned (composeConfig, services) \<Rightarrow> check_services D services [] m
           | Panicked \<Rightarrow> (Panicked, m)
           | Failed e \<Rightarrow> (Failed e, m)))"

definition remap_entry :: "string \<Rightarrow> string \<Rightarrow> yaml \<Rightarrow> yaml" where
  "remap_entry oldPort newPort portMapping =
     (case portMapping of
        YStr pm \<Rightarrow>
          (if HasPrefix pm (oldPort @ '':'')
           then (let parts = Split pm (CHR '':'')
                 in if length parts = 2 then YStr (newPort @ '':'' @ parts ! 1) else portMapping)
           else portMapping)
      | YMap pm \<Rightarrow>
          (let pm1 = (case map_of pm ''published'' of
                        Some (YStr publishedStr) \<Rightarrow>
                          if publishedStr = oldPort
                          then AList.update ''published'' (YStr newPort) pm else pm
                      | _ \<Rightarrow> pm);
               pm2 = (case map_of pm1 ''published'' of
                        Some (YInt publishedInt) \<Rightarrow>
                          if Itoa publishedInt = oldPort
                          then AList.update ''published'' (YInt (fst (Atoi newPort))) pm1 else pm1
                      | _ \<Rightarrow> pm1)
           in YMap pm2)
      | _ \<Rightarrow> portMapping)"

definition apply_remapping :: "(string \<times> yaml) list \<Rightarrow> string \<times> string \<Rightarrow> (string \<times> yaml) list" where
  "apply_remapping services remapping =
     (case remapping of
        (servicePortKey, newPort) \<Rightarrow>
          (let parts = Split servicePortKey (CHR '':'')
           in if length parts \<noteq> 2 then services
              else (case map_of services (parts ! 0) of
                      Some (YMap serviceConfig) \<Rightarrow>
                        (case map_of serviceConfig ''ports'' of
                           Some (YSeq ports) \<Rightarrow>
                             AList.update (parts ! 0)
                               (YMap (AList.update ''ports''
                                        (YSeq (map (remap_entry (parts ! 1) newPort) ports))
                                        serviceConfig))
                               services
                         | _ \<Rightarrow> services)
                    | _ \<Rightarrow> services)))"

text \<open>
  The document that \<^verbatim>\<open>GenerateRemappedComposeFile\<close> marshals into the temporary file.
\<close>

definition GenerateRemappedComposeFile ::
  "'w runtime \<Rightarrow> 'w machine \<Rightarrow> string \<Rightarrow> (string \<times> string) list \<Rightarrow> yaml result" where
  "GenerateRemappedComposeFile D m originalFile remappings =
     (case read_file D (world m) originalFile of
        None \<Rightarrow> Failed ErrReadCompose
      | Some NotYAML \<Rightarrow> Failed ErrParseCompose
      | Some (YAML y) \<Rightarrow>
          and_then (services_of y) (\<lambda>(composeConfig, services).
            Returned (YMap (AList.update ''services''
                              (YMap (foldl apply_remapping services remappings))
                              composeConfig))))"

section \<open>A small runtime for running scenarios\<close>

text \<open>
  The closed examples below run the supervisor against \<open>scripted\<close>, a runtime with a list of
  running containers, their inspect data and labels, a list of random draws, and the host
  ports already taken by other processes. \<^verbatim>\<open>docker run\<close> starts a container with the name,
  image and published ports of its arguments and prints \<open>sc_next_id\<close>; \<^verbatim>\<open>docker rm\<close> forgets a
  container; the two label commands fail, as labels of an existing container cannot be
  changed.
\<close>

record script =
  sc_draws :: "nat list"
  sc_busy :: "goint list"
  sc_ps_fails :: bool
  sc_running :: "dockerContainer list"
  sc_details :: "(string \<times> json) list"
  sc_labels :: "((string \<times> string) \<times> string) list"
  sc_next_id :: string
  sc_files :: "(string \<times> yaml) list"

fun arg_after :: "string \<Rightarrow> string list \<Rightarrow> string" where
  "arg_after flag (a # b # rest) = (if a = flag then b else arg_after flag (b # rest))"
| "arg_after flag _ = []"

definition published :: "string \<Rightarrow> string" where
  "published v =
     (let parts = Split v (CHR '':'')
      in if length parts = 3 then parts ! 0 @ '':'' @ parts ! 1 @ ''->'' @ parts ! 2
         else if length parts = 2 then ''0.0.0.0:'' @ parts ! 0 @ ''->'' @ parts ! 1
         else [])"

fun published_ports :: "string list \<Rightarrow> string list" where
  "published_ports (a # b # rest) =
     (if a = ''-p'' then published b # published_ports rest else published_ports (b # rest))"
| "published_ports _ = []"

fun join_ports :: "string list \<Rightarrow> string" where
  "join_ports [] = []"
| "join_ports [p] = p"
| "join_ports (p # q # rest) = p @ '', '' @ join_ports (q # rest)"

definition started :: "string \<Rightarrow> string list \<Rightarrow> dockerContainer" where
  "started newID args =
     \<lparr>dc_ID = newID, dc_Image = last args, dc_Command = [], dc_RunningFor = ''1 second ago'',
      dc_Status = ''Up 1 second'', dc_Ports = join_ports (published_ports args),
      dc_Names = arg_after ''--name'' args\<rparr>"

definition halt :: "string \<Rightarrow> script \<Rightarrow> script" where
  "halt containerID w = w\<lparr>sc_running := filter (\<lambda>c. dc_ID c \<noteq> containerID) (sc_running w)\<rparr>"

definition scripted :: "script runtime" where
  "scripted =
     \<lparr>rand_next = (\<lambda>w. case sc_draws w of [] \<Rightarrow> (0, w) | x # xs \<Rightarrow> (x, w\<lparr>sc_draws := xs\<rparr>)),
      net_listen = (\<lambda>w p. 0 \<le> sint p \<and> sint p \<le> 65535 \<and> p \<notin> set (sc_busy w)),
      docker_ps = (\<lambda>w. if sc_ps_fails w then None else Some (map Line (sc_running w))),
      docker_inspect_id = (\<lambda>w containerID. map_of (sc_details w) containerID \<noteq> None),
      docker_inspect_label_index =
        (\<lambda>w containerID label.
           if map_of (sc_details w) containerID = None then None
           else (case map_of (sc_labels w) (containerID, label) of
                   None \<Rightarrow> Some [] | Some v \<Rightarrow> Some v)),
      docker_inspect_label_field =
        (\<lambda>w containerID label.
           if map_of (sc_details w) containerID = None then None
           else (case map_of (sc_labels w) (containerID, label) of
                   None \<Rightarrow> Some ''<no value>'' | Some v \<Rightarrow> Some v)),
      docker_inspect =
        (\<lambda>w containerID. map_option (\<lambda>j. JSON (JArr [j])) (map_of (sc_details w) containerID)),
      docker_inspect_json =
        (\<lambda>w containerID. map_option JSON (map_of (sc_details w) containerID)),
      docker_update_label = (\<lambda>w containerID. (False, w)),
      docker_label = (\<lambda>w containerID. (False, w)),
      docker_stop =
        (\<lambda>w containerID. (map_of (sc_details w) containerID \<noteq> None, halt containerID w)),
      docker_kill =
        (\<lambda>w containerID. (map_of (sc_details w) containerID \<noteq> None, halt containerID w)),
      docker_rm =
        (\<lambda>w containerID.
           (map_of (sc_details w) containerID \<noteq> None,
            (halt containerID w)\<lparr>sc_details := AList.delete containerID (sc_details w)\<rparr>)),
      docker_run =
        (\<lambda>w args.
           (Some (sc_next_id w),
            w\<lparr>sc_running := sc_running w @ [started (sc_next_id w) args],
              sc_details := sc_details w @ [(sc_next_id w, JObj [(''Id'', JStr (sc_next_id w))])]\<rparr>)),
      compose_config = (\<lambda>w file. map_option YAML (map_of (sc_files w) file)),
      read_file = (\<lambda>w file. map_option YAML (map_of (sc_files w) file))\<rparr>"

definition empty_store :: ContainerStore where
  "empty_store =
     \<lparr>containers = [], portMappings = [], processedContainers = [],
      portRangeMin = 10000, portRangeMax = 65000\<rparr>"

definition boot :: "script \<Rightarrow> script machine" where
  "boot w = \<lparr>store = empty_store, world = w, trace = []\<rparr>"

text \<open>A host with nothing running and one random draw left.\<close>

definition quiet :: script where
  "quiet =
     \<lparr>sc_draws = [2345], sc_busy = [], sc_ps_fails = False, sc_running = [],
      sc_details = [], sc_labels = [], sc_next_id = ''new'', sc_files = []\<rparr>"

section \<open>Notions used in the statements\<close>




definition web :: "string \<Rightarrow> string \<Rightarrow> dockerContainer" where
  "web containerID ports =
     \<lparr>dc_ID = containerID, dc_Image = ''nginx'', dc_Command = [], dc_RunningFor = [],
      dc_Status = ''Up'', dc_Ports = ports, dc_Names = containerID\<rparr>"





text \<open>
  Two running containers that publish the same host port on two host addresses.
\<close>

definition two_addresses :: script where
  "two_addresses =
     quiet\<lparr>sc_running := [web ''a1'' ''127.0.0.1:8080->80/tcp'', web ''a2'' ''127.0.0.2:8080->80/tcp''],
           sc_details := [(''a1'', JObj []), (''a2'', JObj [])]\<rparr>"

text \<open>
  The bindings a refresh computes for a listed container, from its \<^verbatim>\<open>Ports\<close> string and the
  port-mapping index of before the refresh.
\<close>

definition listed_bindings ::
  "(string \<times> (string \<times> string) list) list \<Rightarrow> string \<Rightarrow> string \<Rightarrow> PortMapping list" where
  "listed_bindings existing containerID portsStr =
     (case map_of existing containerID of
        Some stored \<Rightarrow> map (restore_one stored) (portRegex_FindAll portsStr)
      | None \<Rightarrow> map unmapped (portRegex_FindAll portsStr))"

text \<open>
  The well-formed lines of a listing.
\<close>

definition listed :: "ps_line list \<Rightarrow> dockerContainer list" where
  "listed lines = concat (map (\<lambda>l. case l of Line dc \<Rightarrow> [dc] | BadLine \<Rightarrow> []) lines)"

definition host_proto :: "PortMapping \<Rightarrow> string \<times> string" where
  "host_proto pm = (HostPort pm, Protocol pm)"

text \<open>
  The pairs (host port, protocol) of all tracked bindings, and of all bindings of a listing.
\<close>

definition store_pairs :: "ContainerStore \<Rightarrow> (string \<times> string) list" where
  "store_pairs s = concat (map (\<lambda>(id, c). map host_proto (PortMappings c)) (containers s))"

definition listing_pairs ::
  "(string \<times> (string \<times> string) list) list \<Rightarrow> ps_line list \<Rightarrow> (string \<times> string) list" where
  "listing_pairs existing lines =
     concat (map (\<lambda>dc. map host_proto (listed_bindings existing (dc_ID dc) (dc_Ports dc))) (listed lines))"



definition bindings_of :: "(string \<times> Container) list \<Rightarrow> (string \<times> PortMapping list) list" where
  "bindings_of cs = map (\<lambda>(id, c). (id, PortMappings c)) cs"

definition listed_entry ::
  "(string \<times> (string \<times> string) list) list \<Rightarrow> dockerContainer \<Rightarrow> string \<times> PortMapping list" where
  "listed_entry cur dc = (dc_ID dc, listed_bindings cur (dc_ID dc) (dc_Ports dc))"

text \<open>
  Inspect data of a container named \<open>b\<close>: the fields that the Recreator and the start
  handler read, with the given environment and port bindings.
\<close>

definition inspected :: "json \<Rightarrow> json \<Rightarrow> (string \<times> json) list" where
  "inspected env portBindings =
     [(''Name'', JStr ''/b''),
      (''Config'', JObj [(''Image'', JStr ''nginx''), (''Env'', env), (''Labels'', JObj [])]),
      (''HostConfig'', JObj [(''NetworkMode'', JStr ''default''), (''PortBindings'', portBindings)])]"

definition one_binding :: "string \<Rightarrow> json" where
  "one_binding hostPort = JObj [(''80/tcp'', JArr [JObj [(''HostIp'', JStr []), (''HostPort'', JStr hostPort)]])]"

text \<open>
  A container without environment variables: the runtime prints \<^verbatim>\<open>"Env": null\<close>.
\<close>

definition no_env :: script where
  "no_env =
     quiet\<lparr>sc_running := [web ''bbb'' ''0.0.0.0:8080->80/tcp''],
           sc_details := [(''bbb'', JObj (inspected JNull (one_binding ''8080'')))]\<rparr>"

text \<open>
  What \<^verbatim>\<open>remapContainerPort\<close> takes for granted in the inspect output: \<^verbatim>\<open>Name\<close>,
  \<^verbatim>\<open>Config.Image\<close> and \<^verbatim>\<open>HostConfig.NetworkMode\<close> are strings, \<^verbatim>\<open>Config.Env\<close> is an array of
  strings, \<^verbatim>\<open>Config.Labels\<close> is an object whose values are strings. The value of the sentinel
  label is overwritten before the labels are read.
\<close>

definition is_string :: "json option \<Rightarrow> bool" where
  "is_string v = (case v of Some (JStr x) \<Rightarrow> True | _ \<Rightarrow> False)"

definition is_strings :: "json option \<Rightarrow> bool" where
  "is_strings v = (case v of Some (JArr xs) \<Rightarrow> list_all (\<lambda>x. is_string (Some x)) xs | _ \<Rightarrow> False)"

definition bad_labels :: "json option \<Rightarrow> bool" where
  "bad_labels v =
     (case v of
        Some (JObj labels) \<Rightarrow> list_ex (\<lambda>(k, x). k \<noteq> dynamic_label \<and> \<not> is_string (Some x)) labels
      | _ \<Rightarrow> True)"

definition missing_or_mistyped :: "(string \<times> json) list \<Rightarrow> bool" where
  "missing_or_mistyped containerInfo =
     (\<not> is_string (map_of containerInfo ''Name'')
      \<or> (case map_of containerInfo ''Config'' of
            Some (JObj config) \<Rightarrow>
              \<not> is_string (map_of config ''Image'') \<or> \<not> is_strings (map_of config ''Env'')
              \<or> bad_labels (map_of config ''Labels'')
          | _ \<Rightarrow> True)
      \<or> (case map_of containerInfo ''HostConfig'' of
            Some (JObj hostConfig) \<Rightarrow> \<not> is_string (map_of hostConfig ''NetworkMode'')
          | _ \<Rightarrow> True))"

text \<open>
  Claim C4 speaks of every bound host port: the \<^verbatim>\<open>HostPort\<close> of every binding of every
  container port in \<^verbatim>\<open>HostConfig.PortBindings\<close>.
\<close>

definition bound_host_ports :: "(string \<times> json) list \<Rightarrow> string list" where
  "bound_host_ports portBindings =
     concat (map (\<lambda>(containerPortProto, bindings).
                    case bindings of
                      JArr bs \<Rightarrow>
                        concat (map (\<lambda>b. case b of
                                           JObj binding \<Rightarrow>
                                             (case map_of binding ''HostPort'' of
                                                Some (JStr hostPort) \<Rightarrow> [hostPort]
                                              | _ \<Rightarrow> [])
                                         | _ \<Rightarrow> []) bs)
                    | _ \<Rightarrow> []) portBindings)"

definition spec_every_bound_port_in_range :: "ContainerStore \<Rightarrow> (string \<times> json) list \<Rightarrow> bool" where
  "spec_every_bound_port_in_range s portBindings = list_all (host_in_range s) (bound_host_ports portBindings)"

text \<open>
  A container with two bindings of its port 80, the second outside the dynamic range, and a
  container newly started on host port 8080.
\<close>

definition binding :: "string \<Rightarrow> json" where
  "binding hostPort = JObj [(''HostIp'', JStr []), (''HostPort'', JStr hostPort)]"

definition two_bindings :: script where
  "two_bindings =
     quiet\<lparr>sc_running := [web ''ccc'' ''0.0.0.0:12000->80/tcp, 0.0.0.0:8081->80/tcp''],
           sc_details := [(''ccc'', JObj (inspected (JArr [])
                                      (JObj [(''80/tcp'', JArr [binding ''12000'', binding ''8081''])])))]\<rparr>"

definition newcomer :: script where
  "newcomer =
     quiet\<lparr>sc_running := [web ''bbb'' ''0.0.0.0:8080->80/tcp''],
           sc_details := [(''bbb'', JObj (inspected (JArr []) (one_binding ''8080'')))]\<rparr>"

text \<open>
  The bindings that the start handler looks at: for each container port, the host port of
  its first binding, unless it is absent or empty. \<open>well_shaped\<close> excludes the tables on
  which the handler panics (a first binding that is not an object).
\<close>

definition considered :: "(string \<times> json) list \<Rightarrow> (string \<times> string) list" where
  "considered portBindings =
     concat (map (\<lambda>(containerPortProto, bindings).
                    case first_host_port bindings of
                      Returned (Some hostPort) \<Rightarrow> [(containerPortProto, hostPort)]
                    | _ \<Rightarrow> []) portBindings)"

definition well_shaped :: "(string \<times> json) list \<Rightarrow> bool" where
  "well_shaped portBindings =
     list_all (\<lambda>(containerPortProto, bindings). first_host_port bindings \<noteq> Panicked) portBindings"

text \<open>
  The condition of claim C4 for one binding with host port \<open>p\<close> (the number that \<^verbatim>\<open>Atoi\<close>
  reads) and protocol \<open>q\<close>, and the container ports scheduled under it.
\<close>

definition in_dynamic_range :: "ContainerStore \<Rightarrow> goint \<Rightarrow> bool" where
  "in_dynamic_range s p = (int_le (portRangeMin s) p \<and> int_le p (portRangeMax s))"

definition held_by_other :: "ContainerStore \<Rightarrow> string \<Rightarrow> goint \<Rightarrow> string \<Rightarrow> bool" where
  "held_by_other s containerID p q =
     (\<exists>other c pm. (other, c) \<in> set (containers s) \<and> other \<noteq> containerID
        \<and> pm \<in> set (PortMappings c) \<and> fst (Atoi (HostPort pm)) = p \<and> Protocol pm = q)"

definition needs_relocation :: "ContainerStore \<Rightarrow> string \<Rightarrow> string \<Rightarrow> string \<Rightarrow> bool" where
  "needs_relocation s containerID hostPort q =
     (snd (Atoi hostPort)
      \<and> (in_dynamic_range s (fst (Atoi hostPort)) \<and> held_by_other s containerID (fst (Atoi hostPort)) q
         \<or> \<not> in_dynamic_range s (fst (Atoi hostPort))))"

text \<open>
  Events that are not part of a relocation, and a run of the supervisor from \<open>m0\<close> to \<open>m\<close>
  that issued no stop, kill, remove or run.
\<close>

definition harmless :: "event \<Rightarrow> bool" where
  "harmless e =
     (case e of
        DockerStop _ _ \<Rightarrow> False
      | DockerKill _ _ \<Rightarrow> False
      | DockerRm _ _ \<Rightarrow> False
      | DockerRun _ _ \<Rightarrow> False
      | _ \<Rightarrow> True)"

definition calm :: "'w machine \<Rightarrow> 'w machine \<Rightarrow> bool" where
  "calm m0 m = (\<exists>evs. trace m = trace m0 @ evs \<and> list_all harmless evs)"

definition scheduled :: "ContainerStore \<Rightarrow> string \<Rightarrow> (string \<times> json) list \<Rightarrow> string \<Rightarrow> bool" where
  "scheduled s containerID portBindings containerPortProto =
     (\<exists>hostPort containerPort q.
        (containerPortProto, hostPort) \<in> set (considered portBindings)
        \<and> Split containerPortProto (CHR ''/'') = [containerPort, q]
        \<and> needs_relocation s containerID hostPort q)"

text \<open>
  The containers that the supervisor created: the identifiers printed by its successful
  \<^verbatim>\<open>docker run\<close> commands, in a trace or between two states.
\<close>

definition created :: "event list \<Rightarrow> string list" where
  "created evs =
     concat (map (\<lambda>e. case e of DockerRun args (Some newContainerID) \<Rightarrow> [newContainerID] | _ \<Rightarrow> []) evs)"

definition since :: "'w machine \<Rightarrow> 'w machine \<Rightarrow> event list" where
  "since m0 m = drop (length (trace m0)) (trace m)"

text \<open>
  Every container created since \<open>m0\<close> is in the processed set of \<open>m\<close>; \<open>settled\<close> asks it
  of the created containers that the Store tracks.
\<close>

definition covered :: "'w machine \<Rightarrow> 'w machine \<Rightarrow> bool" where
  "covered m0 m =
     (\<exists>evs. trace m = trace m0 @ evs
        \<and> list_all (in_memory_processed (store m)) (created evs))"

definition tracked :: "ContainerStore \<Rightarrow> string \<Rightarrow> bool" where
  "tracked s containerID = (map_of (containers s) containerID \<noteq> None)"

text \<open>
  While a refresh collects the new maps: a listed container that was processed before the
  refresh is processed in the new set.
\<close>

definition sticky :: "(string \<times> bool) list \<Rightarrow> new_state \<Rightarrow> bool" where
  "sticky processedSnapshot ns =
     (\<forall>containerID. map_of (newContainers ns) containerID \<noteq> None
        \<longrightarrow> map_of processedSnapshot containerID = Some True
        \<longrightarrow> map_of (newProcessedContainers ns) containerID = Some True)"

definition settled :: "'w machine \<Rightarrow> 'w machine \<Rightarrow> bool" where
  "settled m0 m =
     (\<exists>evs. trace m = trace m0 @ evs
        \<and> list_all (\<lambda>nid. tracked (store m) nid \<longrightarrow> in_memory_processed (store m) nid) (created evs))"

text \<open>
  The scenario S6 on the scripted runtime: container \<open>bbb\<close> starts on host port 8080, the
  allocator draws 12345, the Recreator replaces \<open>bbb\<close> by \<open>new\<close>. \<open>after_remap\<close> is the state
  when the Recreator returns, \<open>after_start\<close> the state when the start handler returns.
\<close>

definition drawn :: "script \<Rightarrow> script" where
  "drawn w = w\<lparr>sc_draws := []\<rparr>"

definition run_b :: "string list" where
  "run_b = [''run'', ''-d'', ''--name'', ''b'', ''-p'', ''12345:80/tcp'',
            ''--label'', ''com.dynamic-port-mapper.has-dynamic-ports=true'', ''nginx'']"

definition replaced :: script where
  "replaced =
     quiet\<lparr>sc_draws := [],
           sc_running := [\<lparr>dc_ID = ''new'', dc_Image = ''nginx'', dc_Command = [],
                            dc_RunningFor = ''1 second ago'', dc_Status = ''Up 1 second'',
                            dc_Ports = ''0.0.0.0:12345->80/tcp'', dc_Names =  ''b''\<rparr>],
           sc_details := [(''new'', JObj [(''Id'', JStr ''new'')])]\<rparr>"

definition after_remap :: "script machine" where
  "after_remap =
     \<lparr>store = mark_processed ''new'' (mark_processed ''bbb'' empty_store),
      world = replaced,
      trace = [Unlock (mark_processed ''bbb'' empty_store),
               DockerUpdateLabel ''bbb'' False, DockerLabel ''bbb'' False,
               DockerStop ''bbb'' True, DockerRm ''bbb'' True,
               DockerRun run_b (Some ''new''),
               Unlock (mark_processed ''new'' (mark_processed ''bbb'' empty_store))]\<rparr>"

definition relocated :: Container where
  "relocated =
     \<lparr>ID = ''new'', Image = ''nginx'', Command = [], Created = ''1 second ago'',
      Status = ''Up 1 second'', Ports = ''0.0.0.0:12345->80/tcp'', Names = ''b'',
      ComposeProject = [], ComposeService = [],
      PortMappings = [\<lparr>ContainerPort = ''80'', HostPort = ''12345'', Protocol = ''tcp'',
                       OriginalPort = ''12345''\<rparr>],
      DynamicPorts = True\<rparr>"

definition after_start :: "script machine" where
  "after_start =
     \<lparr>store = \<lparr>containers = [(''new'', relocated)],
               portMappings = [(''new'', [(''80/tcp'', ''12345'')])],
               processedContainers = [(''new'', True)],
               portRangeMin = 10000, portRangeMax = 65000\<rparr>,
      world = replaced,
      trace = trace after_remap
              @ [Unlock \<lparr>containers = [(''new'', relocated)],
                        portMappings = [(''new'', [(''80/tcp'', ''12345'')])],
                        processedContainers = [(''new'', True)],
                        portRangeMin = 10000, portRangeMax = 65000\<rparr>]\<rparr>"

text \<open>
  The scenario S2: \<open>aaa\<close> is tracked on host port 8080 when \<open>bbb\<close> starts on the same port.
\<close>

definition contested :: script where
  "contested =
     quiet\<lparr>sc_running := [web ''aaa'' ''0.0.0.0:8080->80/tcp'', web ''bbb'' ''0.0.0.0:8080->80/tcp''],
           sc_details := [(''aaa'', JObj []), (''bbb'', JObj (inspected (JArr []) (one_binding ''8080'')))]\<rparr>"

definition holder :: Container where
  "holder =
     \<lparr>ID = ''aaa'', Image = ''nginx'', Command = [], Created = [], Status = ''Up'',
      Ports = ''0.0.0.0:8080->80/tcp'', Names = ''aaa'', ComposeProject = [], ComposeService = [],
      PortMappings = [\<lparr>ContainerPort = ''80'', HostPort = ''8080'', Protocol = ''tcp'',
                       OriginalPort = ''8080''\<rparr>],
      DynamicPorts = False\<rparr>"

definition tracking_a :: ContainerStore where
  "tracking_a =
     \<lparr>containers = [(''aaa'', holder)], portMappings = [(''aaa'', [(''80/tcp'', ''8080'')])],
      processedContainers = [], portRangeMin = 10000, portRangeMax = 65000\<rparr>"

definition conflict :: "script machine" where
  "conflict = \<lparr>store = tracking_a, world = contested, trace = []\<rparr>"

definition resolved :: "script machine" where
  "resolved = snd (handleContainerStart scripted conflict ''bbb'')"

definition after_conflict_remap :: "script machine" where
  "after_conflict_remap =
     \<lparr>store = mark_processed ''new'' (mark_processed ''bbb'' tracking_a),
      world = replaced\<lparr>sc_running := [web ''aaa'' ''0.0.0.0:8080->80/tcp''] @ sc_running replaced,
                       sc_details := (''aaa'', JObj []) # sc_details replaced\<rparr>,
      trace = [Unlock (mark_processed ''bbb'' tracking_a),
               DockerUpdateLabel ''bbb'' False, DockerLabel ''bbb'' False,
               DockerStop ''bbb'' True, DockerRm ''bbb'' True,
               DockerRun run_b (Some ''new''),
               Unlock (mark_processed ''new'' (mark_processed ''bbb'' tracking_a))]\<rparr>"

text \<open>
  A rewritten port entry keeps the form of the entry it replaces: a string stays a string, a
  table stays a table, and every other value is returned as it is.
\<close>

definition same_form :: "yaml \<Rightarrow> yaml \<Rightarrow> bool" where
  "same_form x y =
     (case x of
        YStr _ \<Rightarrow> (case y of YStr _ \<Rightarrow> True | _ \<Rightarrow> False)
      | YMap _ \<Rightarrow> (case y of YMap _ \<Rightarrow> True | _ \<Rightarrow> False)
      | _ \<Rightarrow> y = x)"

text \<open>
  The host port that the conflict check reads from a port entry.
\<close>

definition entry_host :: "yaml \<Rightarrow> string" where
  "entry_host e = fst (parse_port_entry e)"

text \<open>
  The scenario S5: the descriptor declares \<open>web\<close> on 8080 and \<open>db\<close> on 5432 while the Store tracks
  \<open>aaa\<close> on 8080/tcp. In \<open>preflight_udp\<close> the tracked binding of \<open>aaa\<close> is 8080/udp instead.
\<close>

definition app1 :: yaml where
  "app1 =
     YMap [(''version'', YStr ''3''),
           (''services'',
            YMap [(''web'', YMap [(''image'', YStr ''nginx''), (''ports'', YSeq [YStr ''8080:80''])]),
                  (''db'', YMap [(''image'', YStr ''postgres:13''),
                                 (''ports'', YSeq [YStr ''5432:5432''])])])]"

definition app1_remapped :: yaml where
  "app1_remapped =
     YMap [(''version'', YStr ''3''),
           (''services'',
            YMap [(''web'', YMap [(''image'', YStr ''nginx''), (''ports'', YSeq [YStr ''12345:80''])]),
                  (''db'', YMap [(''image'', YStr ''postgres:13''),
                                 (''ports'', YSeq [YStr ''5432:5432''])])])]"

definition deploying :: script where
  "deploying =
     quiet\<lparr>sc_running := [web ''aaa'' ''0.0.0.0:8080->80/tcp''], sc_details := [(''aaa'', JObj [])],
           sc_files := [(''app1.yml'', app1)]\<rparr>"

definition preflight :: "script machine" where
  "preflight = \<lparr>store = tracking_a, world = deploying, trace = []\<rparr>"

definition udp_holder :: Container where
  "udp_holder =
     holder\<lparr>Ports := ''0.0.0.0:8080->80/udp'',
            PortMappings := [\<lparr>ContainerPort = ''80'', HostPort = ''8080'', Protocol = ''udp'',
                              OriginalPort = ''8080''\<rparr>]\<rparr>"

definition preflight_udp :: "script machine" where
  "preflight_udp =
     \<lparr>store = tracking_a\<lparr>containers := [(''aaa'', udp_holder)]\<rparr>,
      world = deploying\<lparr>sc_running := [web ''aaa'' ''0.0.0.0:8080->80/udp'']\<rparr>, trace = []\<rparr>"

text \<open>
  Two listed containers with two bindings each, on a Store that remembers host port 32768
  for port 80 of \<open>w1\<close>.
\<close>

definition w1_before :: Container where
  "w1_before =
     \<lparr>ID = ''w1'', Image = ''nginx'', Command = [], Created = [], Status = ''Up'',
      Ports = ''0.0.0.0:32768->80/tcp, 0.0.0.0:8443->443/tcp'', Names = ''w1'',
      ComposeProject = [], ComposeService = [],
      PortMappings = [\<lparr>ContainerPort = ''80'', HostPort = ''32768'', Protocol = ''tcp'',
                       OriginalPort = ''32768''\<rparr>,
                      \<lparr>ContainerPort = ''443'', HostPort = ''8443'', Protocol = ''tcp'',
                       OriginalPort = ''8443''\<rparr>],
      DynamicPorts = False\<rparr>"

definition shared :: script where
  "shared =
     quiet\<lparr>sc_running := [web ''w1'' ''0.0.0.0:32769->80/tcp, 0.0.0.0:8443->443/tcp'',
                          web ''w2'' ''0.0.0.0:8080->80/tcp, 0.0.0.0:8080->80/udp''],
           sc_details := [(''w1'', JObj []), (''w2'', JObj [])]\<rparr>"

definition sharing :: "script machine" where
  "sharing =
     \<lparr>store = empty_store\<lparr>containers := [(''w1'', w1_before)],
                             portMappings := [(''w1'', [(''80/tcp'', ''32768''), (''443/tcp'', ''8443'')])]\<rparr>,
      world = shared, trace = []\<rparr>"


section \<open>Verified properties\<close>

subsection \<open>Port allocator\<close>

lemma rand_Intn_panics: "sint n \<le> 0 \<Longrightarrow> rand_Intn D n m = (Panicked, m)"
  by (simp add: rand_Intn_def)

lemma sint_sub_no_wrap:
  fixes a b :: goint
  assumes "- (2 ^ 63) \<le> sint a - sint b" "sint a - sint b < 2 ^ 63"
  shows "sint (a - b) = sint a - sint b"
  using assms by (simp add: sint_word_ariths signed_take_bit_int_eq_self)

lemma allocate_attempts_panics:
  "sint (portRangeMax (store m) - portRangeMin (store m)) \<le> 0 \<Longrightarrow>
   allocate_attempts D k m = (Panicked, m)"
  by (cases k) (simp_all add: rand_Intn_def)

lemma rand_Intn_range:
  assumes "rand_Intn D n m = (Returned r, m')"
  shows "0 \<le> sint r \<and> sint r < sint n \<and> store m' = store m"
proof -
  from assms have pos: "0 < sint n" by (auto simp: rand_Intn_def split: if_splits)
  obtain x w' where x: "rand_next D (world m) = (x, w')" by (cases "rand_next D (world m)")
  from assms pos x have r: "r = word_of_nat (x mod nat (sint n))" and m': "m' = m\<lparr>world := w'\<rparr>"
    by (auto simp: rand_Intn_def)
  have lt: "x mod nat (sint n) < nat (sint n)" using pos by simp
  have "sint n < 2 ^ 63" using sint_lt [of n] by simp
  with lt have b: "int (x mod nat (sint n)) < 2 ^ 63" by linarith
  have "sint (word_of_nat (x mod nat (sint n)) :: goint) = int (x mod nat (sint n))"
    using b by (simp add: signed_of_nat signed_take_bit_int_eq_self)
  moreover have "int (x mod nat (sint n)) < sint n" using lt pos by linarith
  ultimately show ?thesis using r m' by simp
qed

lemma allocate_attempts_range:
  assumes "0 < sint (portRangeMax (store m)) - sint (portRangeMin (store m))"
      and "sint (portRangeMax (store m)) - sint (portRangeMin (store m)) < 2 ^ 63"
      and "allocate_attempts D k m = (Returned p, m')"
  shows "sint (portRangeMin (store m)) \<le> sint p \<and> sint p < sint (portRangeMax (store m))
         \<and> store m' = store m"
  using assms
proof (induction k arbitrary: m)
  case 0
  let ?mn = "portRangeMin (store m)" and ?mx = "portRangeMax (store m)"
  from 0 obtain r where r: "rand_Intn D (?mx - ?mn) m = (Returned r, m')" and p: "p = r + ?mn"
    by (auto split: prod.splits result.splits)
  have d: "sint (?mx - ?mn) = sint ?mx - sint ?mn"
    using 0 by (intro sint_sub_no_wrap) simp_all
  from rand_Intn_range [OF r] d have rr: "0 \<le> sint r" "sint r < sint ?mx - sint ?mn" "store m' = store m"
    by simp_all
  have "sint (r + ?mn) = sint r + sint ?mn"
    using rr sint_lt [of ?mx] sint_ge [of ?mn]
    by (simp add: sint_word_ariths signed_take_bit_int_eq_self)
  with rr p show ?case by simp
next
  case (Suc k)
  let ?mn = "portRangeMin (store m)" and ?mx = "portRangeMax (store m)"
  from Suc.prems(3) obtain r m1 where r: "rand_Intn D (?mx - ?mn) m = (Returned r, m1)"
    by (auto split: prod.splits result.splits)
  have d: "sint (?mx - ?mn) = sint ?mx - sint ?mn"
    using Suc.prems by (intro sint_sub_no_wrap) simp_all
  from rand_Intn_range [OF r] d have rr: "0 \<le> sint r" "sint r < sint ?mx - sint ?mn" "store m1 = store m"
    by simp_all
  have s: "sint (r + ?mn) = sint r + sint ?mn"
    using rr sint_lt [of ?mx] sint_ge [of ?mn]
    by (simp add: sint_word_ariths signed_take_bit_int_eq_self)
  show ?case
  proof (cases "isPortAvailable D m1 (r + ?mn)")
    case True
    with Suc.prems(3) r have "p = r + ?mn" "m' = m1" by (simp_all add: Let_def)
    with s rr show ?thesis by simp
  next
    case False
    with Suc.prems(3) r have "allocate_attempts D k m1 = (Returned p, m')" by (simp add: Let_def)
    from Suc.IH [OF _ _ this] Suc.prems(1,2) rr show ?thesis by simp
  qed
qed

lemma allocate_attempts_returns:
  assumes "0 < sint (portRangeMax (store m) - portRangeMin (store m))"
  shows "\<exists>p m'. allocate_attempts D k m = (Returned p, m')"
  using assms
proof (induction k arbitrary: m)
  case 0
  then show ?case by (auto simp: rand_Intn_def split: prod.splits)
next
  case (Suc k)
  obtain x w' where x: "rand_next D (world m) = (x, w')" by (cases "rand_next D (world m)")
  let ?m1 = "m\<lparr>world := w'\<rparr>"
  have "\<exists>p m'. allocate_attempts D k ?m1 = (Returned p, m')"
    using Suc.prems by (intro Suc.IH) simp
  with Suc.prems x show ?case by (auto simp: rand_Intn_def Let_def)
qed

lemma allocate_attempts_unit_range:
  assumes "portRangeMax (store m) - portRangeMin (store m) = 1"
      and "allocate_attempts D k m = (Returned p, m')"
  shows "p = portRangeMin (store m)"
  using assms
proof (induction k arbitrary: m)
  case 0
  then obtain r where r: "rand_Intn D 1 m = (Returned r, m')" and p: "p = r + portRangeMin (store m)"
    by (auto split: prod.splits result.splits)
  from rand_Intn_range [OF r] have "sint r = 0" by simp
  then have "r = 0" by (simp add: signed_eq_0_iff)
  with p show ?case by simp
next
  case (Suc k)
  then obtain r m1 where r: "rand_Intn D 1 m = (Returned r, m1)"
    by (auto split: prod.splits result.splits)
  from rand_Intn_range [OF r] have z: "sint r = 0" and st: "store m1 = store m" by simp_all
  from z have r0: "r = 0" by (simp add: signed_eq_0_iff)
  show ?case
  proof (cases "isPortAvailable D m1 (r + portRangeMin (store m))")
    case True
    with Suc.prems r r0 show ?thesis by (simp add: Let_def)
  next
    case False
    with Suc.prems r have "allocate_attempts D k m1 = (Returned p, m')" by (simp add: Let_def)
    from Suc.IH [OF _ this] Suc.prems(1) st show ?thesis by simp
  qed
qed

text \<open>
  Claim C10, as stated, fails: with \<^verbatim>\<open>-min 9223372036854775807 -max -9223372036854775808\<close>
  the maximum is below the minimum, yet \<^verbatim>\<open>max - min\<close> wraps around to 1, \<^verbatim>\<open>rand.Intn(1)\<close> does
  not panic, and the allocator returns a port.
\<close>

theorem C10_counterexample:
  "int_le (- 9223372036854775808) 9223372036854775807 \<and>
   fst (allocateRandomPort scripted
          ((boot quiet)\<lparr>store := set_port_range 9223372036854775807 (- 9223372036854775808) empty_store\<rparr>))
     = Returned 9223372036854775807"
proof -
  let ?m = "(boot quiet)\<lparr>store := set_port_range 9223372036854775807 (- 9223372036854775808) empty_store\<rparr>"
  have d: "portRangeMax (store ?m) - portRangeMin (store ?m) = 1"
    by (simp add: set_port_range_def)
  then have "0 < sint (portRangeMax (store ?m) - portRangeMin (store ?m))" by simp
  from allocate_attempts_returns [OF this, of scripted 100]
  obtain p m' where r: "allocate_attempts scripted 100 ?m = (Returned p, m')" by blast
  from allocate_attempts_unit_range [OF d r] have "p = 9223372036854775807"
    by (simp add: set_port_range_def)
  with r have "fst (allocateRandomPort scripted ?m) = Returned 9223372036854775807"
    by (simp add: allocateRandomPort_def)
  moreover have "int_le (- 9223372036854775808) 9223372036854775807"
    by (simp add: int_le_def)
  ultimately show ?thesis by blast
qed

text \<open>
  Claim C10, amended: \<^verbatim>\<open>main\<close> stores the flags unchecked, and for every configuration with
  \<open>max \<le> min\<close> whose difference \<open>min - max\<close> is at most \<open>2^63\<close> (so that \<^verbatim>\<open>max - min\<close> does
  not wrap around) every call of \<^verbatim>\<open>allocateRandomPort\<close> panics in \<^verbatim>\<open>rand.Intn\<close>, before any
  draw and without changing the state.
\<close>

theorem C10_allocate_panics_unless_wrapped:
  assumes "int_le maxPort minPort" and "sint minPort - sint maxPort \<le> 2 ^ 63"
  shows "allocateRandomPort D (m\<lparr>store := set_port_range minPort maxPort (store m)\<rparr>)
         = (Panicked, m\<lparr>store := set_port_range minPort maxPort (store m)\<rparr>)"
proof -
  have "sint (maxPort - minPort) = sint maxPort - sint minPort"
    using assms sint_lt [of maxPort] sint_ge [of minPort]
    by (intro sint_sub_no_wrap) (simp_all add: int_le_def)
  with assms(1) have "sint (maxPort - minPort) \<le> 0" by (simp add: int_le_def)
  then show ?thesis
    by (simp add: allocateRandomPort_def allocate_attempts_panics set_port_range_def)
qed

theorem C10_allocate_panics_unless_wrapped_witness:
  "int_le 10000 65000 \<and> sint (65000 :: goint) - sint (10000 :: goint) \<le> 2 ^ 63 \<and>
   allocateRandomPort scripted ((boot quiet)\<lparr>store := set_port_range 65000 10000 (store (boot quiet))\<rparr>)
     = (Panicked, (boot quiet)\<lparr>store := set_port_range 65000 10000 (store (boot quiet))\<rparr>)"
proof -
  have h1: "int_le 10000 65000" by (simp add: int_le_def)
  have h2: "sint (65000 :: goint) - sint (10000 :: goint) \<le> 2 ^ 63" by simp
  from C10_allocate_panics_unless_wrapped [OF h1 h2, of scripted "boot quiet"] h1 h2
  show ?thesis by blast
qed

text \<open>
  Claim C5 against the code: \<^verbatim>\<open>rand.Intn(max - min) + min\<close> lies in \<open>[min, max)\<close>, so whenever
  the range does not wrap around, the port returned by \<^verbatim>\<open>allocateRandomPort\<close> (an accepted
  candidate or the unchecked last draw) is never \<open>max\<close>, although \<open>max\<close> belongs to the
  dynamic range that \<^verbatim>\<open>checkPortCollision\<close> tests with \<open>min \<le> p \<le> max\<close>.
\<close>

theorem C5_allocate_never_draws_max:
  assumes "int_lt (portRangeMin (store m)) (portRangeMax (store m))"
      and "sint (portRangeMax (store m)) - sint (portRangeMin (store m)) < 2 ^ 63"
      and "allocateRandomPort D m = (Returned p, m')"
  shows "int_le (portRangeMin (store m)) p \<and> int_lt p (portRangeMax (store m))
         \<and> p \<noteq> portRangeMax (store m)"
proof -
  from assms(1) have "0 < sint (portRangeMax (store m)) - sint (portRangeMin (store m))"
    by (simp add: int_lt_def)
  from allocate_attempts_range [OF this assms(2)] assms(3)
  have "sint (portRangeMin (store m)) \<le> sint p \<and> sint p < sint (portRangeMax (store m))"
    by (simp add: allocateRandomPort_def)
  then show ?thesis by (auto simp: int_le_def int_lt_def)
qed

lemma allocate_quiet:
  "allocateRandomPort scripted (boot quiet) = (Returned 12345, (boot quiet)\<lparr>world := quiet\<lparr>sc_draws := []\<rparr>\<rparr>)"
proof -
  have r: "rand_Intn scripted (portRangeMax (store (boot quiet)) - portRangeMin (store (boot quiet))) (boot quiet)
           = (Returned 2345, (boot quiet)\<lparr>world := quiet\<lparr>sc_draws := []\<rparr>\<rparr>)"
    by (simp add: rand_Intn_def scripted_def boot_def quiet_def empty_store_def)
  have a: "isPortAvailable scripted ((boot quiet)\<lparr>world := quiet\<lparr>sc_draws := []\<rparr>\<rparr>) 12345"
    by (simp add: isPortAvailable_def port_tracked_def scripted_def boot_def quiet_def empty_store_def)
  have p: "(2345 :: goint) + portRangeMin (store (boot quiet)) = 12345"
    by (simp add: boot_def empty_store_def)
  have "allocate_attempts scripted (Suc 99) (boot quiet)
        = (Returned 12345, (boot quiet)\<lparr>world := quiet\<lparr>sc_draws := []\<rparr>\<rparr>)"
    unfolding allocate_attempts.simps r using a p by (simp add: Let_def)
  then show ?thesis by (simp add: allocateRandomPort_def)
qed

theorem C5_allocate_never_draws_max_witness:
  "int_lt (portRangeMin (store (boot quiet))) (portRangeMax (store (boot quiet))) \<and>
   sint (portRangeMax (store (boot quiet))) - sint (portRangeMin (store (boot quiet))) < 2 ^ 63 \<and>
   allocateRandomPort scripted (boot quiet) = (Returned 12345, (boot quiet)\<lparr>world := quiet\<lparr>sc_draws := []\<rparr>\<rparr>) \<and>
   int_le (portRangeMin (store (boot quiet))) 12345 \<and> int_lt 12345 (portRangeMax (store (boot quiet)))
   \<and> 12345 \<noteq> portRangeMax (store (boot quiet))"
proof -
  have h1: "int_lt (portRangeMin (store (boot quiet))) (portRangeMax (store (boot quiet)))"
    by (simp add: boot_def empty_store_def int_lt_def)
  have h2: "sint (portRangeMax (store (boot quiet))) - sint (portRangeMin (store (boot quiet))) < 2 ^ 63"
    by (simp add: boot_def empty_store_def)
  from C5_allocate_never_draws_max [OF h1 h2 allocate_quiet] h1 h2 allocate_quiet
  show ?thesis by blast
qed

subsection \<open>Refresh\<close>











lemma parsePorts_bindings:
  "fst (fst (parsePortsWithoutRemapping D m containerID portsStr existing))
   = listed_bindings existing containerID portsStr"
  by (simp add: parsePortsWithoutRemapping_def listed_bindings_def restorePortMappings_def Let_def
      split: option.splits prod.splits)

text \<open>What one line of the listing does to the containers being collected.\<close>

lemma refresh_line_cases:
  assumes "refresh_line D cur proc line (ns, m) = (ns', m')"
  shows "newContainers ns' = newContainers ns
         \<or> (\<exists>dc c. line = Line dc \<and> ID c = dc_ID dc \<and> Ports c = dc_Ports dc
               \<and> PortMappings c = listed_bindings cur (dc_ID dc) (dc_Ports dc)
               \<and> newContainers ns' = AList.update (dc_ID dc) c (newContainers ns))"
proof (cases line)
  case BadLine
  with assms show ?thesis by (simp add: refresh_line_def)
next
  case (Line dc)
  show ?thesis
  proof (cases "docker_inspect_id D (world m) (dc_ID dc)")
    case False
    with Line assms show ?thesis by (simp add: refresh_line_def)
  next
    case True
    obtain pms dyn m1 where p: "parsePortsWithoutRemapping D m (dc_ID dc) (dc_Ports dc) cur = ((pms, dyn), m1)"
      by (metis prod.exhaust)
    from parsePorts_bindings [of D m "dc_ID dc" "dc_Ports dc" cur] p
    have pms: "pms = listed_bindings cur (dc_ID dc) (dc_Ports dc)" by simp
    let ?c = "\<lparr>ID = dc_ID dc, Image = dc_Image dc, Command = dc_Command dc,
               Created = dc_RunningFor dc, Status = dc_Status dc,
               Ports = dc_Ports dc, Names = dc_Names dc,
               ComposeProject = compose_project_of D (world m) dc,
               ComposeService = compose_service_of D (world m) dc (compose_project_of D (world m) dc),
               PortMappings = pms, DynamicPorts = dyn\<rparr>"
    from Line True p assms have "newContainers ns' = AList.update (dc_ID dc) ?c (newContainers ns)"
      by (auto simp: refresh_line_def Let_def)
    moreover have "ID ?c = dc_ID dc" "Ports ?c = dc_Ports dc"
      "PortMappings ?c = listed_bindings cur (dc_ID dc) (dc_Ports dc)"
      using pms by simp_all
    ultimately show ?thesis using Line by blast
  qed
qed








lemmas regex_defs = portRegex_FindAll_def match_at_def match_ip_def match_mapping_def digits_then_def
  is_digit_def is_word_char_def HasPrefix_def Let_def

lemmas atoi_defs = Atoi_def is_digit_def digits_val_def digit_val_def

lemmas refresh_defs = refreshContainers_def refresh_build_def refresh_line_def
  parsePortsWithoutRemapping_def restorePortMappings_def restore_one_def was_remapped_def
  isContainerProcessed_def in_memory_processed_def extractLabel_def
  compose_project_of_def compose_service_of_def project_from_name_def TrimPrefix_def HasPrefix_def
  dynamic_label_def locked_def emit_def swap_in_def unmapped_def host_in_range_def int_lt_def
  addDynamicPortLabel_def mark_processed_def mappings_index_def port_key_def Let_def

lemmas scripted_defs = scripted_def quiet_def boot_def empty_store_def web_def







lemma update_fresh: "k \<notin> fst ` set xs \<Longrightarrow> AList.update k v xs = xs @ [(k, v)]"
  by (induction xs) auto

lemma distinct_concat_filter:
  "distinct (concat (map g xs)) \<Longrightarrow> distinct (concat (map g (filter P xs)))"
  by (induction xs) auto

lemma listed_snoc:
  "listed (xs @ [x]) = listed xs @ (case x of Line dc \<Rightarrow> [dc] | BadLine \<Rightarrow> [])"
  by (simp add: listed_def)

lemma refresh_fold_selects:
  assumes "distinct (map dc_ID (listed lines))"
  shows "\<exists>A. A \<subseteq> dc_ID ` set (listed lines) \<and>
           bindings_of (newContainers (fst (foldl (\<lambda>a line. refresh_line D cur proc line a)
               (\<lparr>newContainers = [], newPortMappings = [], newProcessedContainers = []\<rparr>, m) lines)))
           = map (listed_entry cur) (filter (\<lambda>dc. dc_ID dc \<in> A) (listed lines))"
  using assms
proof (induction lines rule: rev_induct)
  case Nil
  show ?case by (simp add: listed_def bindings_of_def)
next
  case (snoc x xs)
  let ?f = "\<lambda>a line. refresh_line D cur proc line a"
  let ?acc0 = "(\<lparr>newContainers = [], newPortMappings = [], newProcessedContainers = []\<rparr>, m)"
  obtain ns m1 where acc: "foldl ?f ?acc0 xs = (ns, m1)" by (metis prod.exhaust)
  obtain ns' m' where r: "refresh_line D cur proc x (ns, m1) = (ns', m')" by (metis prod.exhaust)
  from snoc.prems have dxs: "distinct (map dc_ID (listed xs))" by (simp add: listed_snoc)
  from snoc.IH [OF dxs] acc obtain A where A: "A \<subseteq> dc_ID ` set (listed xs)"
    and b: "bindings_of (newContainers ns) = map (listed_entry cur) (filter (\<lambda>dc. dc_ID dc \<in> A) (listed xs))"
    by auto
  have res: "fst (foldl ?f ?acc0 (xs @ [x])) = ns'" using acc r by simp
  show ?case
  proof (cases x)
    case BadLine
    with r have "ns' = ns" by (simp add: refresh_line_def)
    with A b BadLine res show ?thesis by (auto simp: listed_snoc)
  next
    case (Line dc)
    from snoc.prems Line have fresh: "dc_ID dc \<notin> dc_ID ` set (listed xs)"
      by (simp add: listed_snoc)
    with A have notA: "dc_ID dc \<notin> A" by auto
    from refresh_line_cases [OF r] show ?thesis
    proof
      assume same: "newContainers ns' = newContainers ns"
      have "filter (\<lambda>d. dc_ID d \<in> A) (listed (xs @ [x])) = filter (\<lambda>d. dc_ID d \<in> A) (listed xs)"
        using Line notA by (simp add: listed_snoc)
      with same b A res Line show ?thesis
        by (intro exI [of _ A]) (auto simp: listed_snoc)
    next
      assume "\<exists>dc c. x = Line dc \<and> ID c = dc_ID dc \<and> Ports c = dc_Ports dc
               \<and> PortMappings c = listed_bindings cur (dc_ID dc) (dc_Ports dc)
               \<and> newContainers ns' = AList.update (dc_ID dc) c (newContainers ns)"
      with Line obtain c where c: "PortMappings c = listed_bindings cur (dc_ID dc) (dc_Ports dc)"
          "newContainers ns' = AList.update (dc_ID dc) c (newContainers ns)"
        by auto
      have "fst ` set (newContainers ns) = fst ` set (bindings_of (newContainers ns))"
        by (force simp: bindings_of_def)
      also have "\<dots> \<subseteq> dc_ID ` set (listed xs)"
        unfolding b by (auto simp: listed_entry_def)
      finally have "dc_ID dc \<notin> fst ` set (newContainers ns)" using fresh by auto
      from update_fresh [OF this] c(2)
      have app: "newContainers ns' = newContainers ns @ [(dc_ID dc, c)]" by simp
      let ?A = "insert (dc_ID dc) A"
      have keep: "filter (\<lambda>d. dc_ID d \<in> ?A) (listed xs) = filter (\<lambda>d. dc_ID d \<in> A) (listed xs)"
      proof (intro filter_cong refl)
        fix d assume "d \<in> set (listed xs)"
        then have "dc_ID d \<in> dc_ID ` set (listed xs)" by (rule imageI)
        with fresh have "dc_ID d \<noteq> dc_ID dc" by metis
        then show "(dc_ID d \<in> ?A) = (dc_ID d \<in> A)" by simp
      qed
      have "bindings_of (newContainers ns')
            = map (listed_entry cur) (filter (\<lambda>d. dc_ID d \<in> ?A) (listed (xs @ [x])))"
        using app b c(1) Line keep by (simp add: listed_snoc bindings_of_def listed_entry_def)
      moreover have "?A \<subseteq> dc_ID ` set (listed (xs @ [x]))"
        using A Line by (auto simp: listed_snoc)
      ultimately show ?thesis using res by (intro exI [of _ ?A]) simp
    qed
  qed
qed

lemma store_pairs_bindings:
  "store_pairs s = concat (map (\<lambda>(id, pms). map host_proto pms) (bindings_of (containers s)))"
  by (simp add: store_pairs_def bindings_of_def comp_def case_prod_unfold)

text \<open>
  Claim C6, amended: a refresh tracks what the runtime lists and enforces nothing. If the
  listing has no repeated container id and the pairs (host port, protocol) of its bindings,
  without the host addresses and with the retained host ports, are pairwise different, then
  so are the pairs of the Store after the refresh.
\<close>

theorem C6_unique_when_listing_unique:
  assumes "docker_ps D (world m) = Some lines"
      and "distinct (map dc_ID (listed lines))"
      and "distinct (listing_pairs (portMappings (store m)) lines)"
  shows "distinct (store_pairs (store (snd (refreshContainers D m))))"
proof -
  let ?cur = "portMappings (store m)"
  obtain ns m1 where bld: "refresh_build D lines m = (ns, m1)" by (metis prod.exhaust)
  from refresh_fold_selects [OF assms(2), of D ?cur "processedContainers (store m)" m] bld
  obtain A where sel: "bindings_of (newContainers ns)
      = map (listed_entry ?cur) (filter (\<lambda>dc. dc_ID dc \<in> A) (listed lines))"
    by (auto simp: refresh_build_def)
  from assms(1) bld have st: "containers (store (snd (refreshContainers D m))) = newContainers ns"
    by (simp add: refreshContainers_def locked_def swap_in_def Let_def)
  have "store_pairs (store (snd (refreshContainers D m)))
        = concat (map (\<lambda>dc. map host_proto (listed_bindings ?cur (dc_ID dc) (dc_Ports dc)))
            (filter (\<lambda>dc. dc_ID dc \<in> A) (listed lines)))"
    by (simp add: store_pairs_bindings st sel comp_def listed_entry_def)
  with distinct_concat_filter [OF assms(3) [unfolded listing_pairs_def]] show ?thesis by simp
qed

lemma find_a1:
  "portRegex_FindAll ''127.0.0.1:8080->80/tcp'' = [\<lparr>m_host = ''8080'', m_cport = ''80'', m_proto = ''tcp''\<rparr>]"
  by (simp add: regex_defs)

lemma find_a2:
  "portRegex_FindAll ''127.0.0.2:8080->80/tcp'' = [\<lparr>m_host = ''8080'', m_cport = ''80'', m_proto = ''tcp''\<rparr>]"
  by (simp add: regex_defs)

text \<open>
  Claim C6, as stated, fails: two containers that both run, and publish port 8080/tcp on
  two host addresses, are both tracked with the pair (8080, tcp).
\<close>

theorem C6_counterexample:
  "store_pairs (store (snd (refreshContainers scripted (boot two_addresses))))
     = [(''8080'', ''tcp''), (''8080'', ''tcp'')] \<and>
   map fst (containers (store (snd (refreshContainers scripted (boot two_addresses))))) = [''a1'', ''a2''] \<and>
   map dc_ID (sc_running (world (snd (refreshContainers scripted (boot two_addresses))))) = [''a1'', ''a2'']"
  by (simp add: refresh_defs scripted_defs two_addresses_def find_a1 find_a2 atoi_defs store_pairs_def
      host_proto_def)

lemma find_w1:
  "portRegex_FindAll ''0.0.0.0:32769->80/tcp, 0.0.0.0:8443->443/tcp''
   = [\<lparr>m_host = ''32769'', m_cport = ''80'', m_proto = ''tcp''\<rparr>,
      \<lparr>m_host = ''8443'', m_cport = ''443'', m_proto = ''tcp''\<rparr>]"
  by (simp add: regex_defs)

lemma find_w2:
  "portRegex_FindAll ''0.0.0.0:8080->80/tcp, 0.0.0.0:8080->80/udp''
   = [\<lparr>m_host = ''8080'', m_cport = ''80'', m_proto = ''tcp''\<rparr>,
      \<lparr>m_host = ''8080'', m_cport = ''80'', m_proto = ''udp''\<rparr>]"
  by (simp add: regex_defs)

lemma sharing_listing_pairs:
  "listing_pairs (portMappings (store sharing))
     [Line (web ''w1'' ''0.0.0.0:32769->80/tcp, 0.0.0.0:8443->443/tcp''),
      Line (web ''w2'' ''0.0.0.0:8080->80/tcp, 0.0.0.0:8080->80/udp'')]
   = [(''32768'', ''tcp''), (''8443'', ''tcp''), (''8080'', ''tcp''), (''8080'', ''udp'')]"
  by (simp add: listing_pairs_def listed_def listed_bindings_def sharing_def empty_store_def web_def
      find_w1 find_w2 unmapped_def restore_one_def port_key_def host_proto_def)

lemma sharing_store_pairs:
  "store_pairs (store (snd (refreshContainers scripted sharing)))
   = [(''32768'', ''tcp''), (''8443'', ''tcp''), (''8080'', ''tcp''), (''8080'', ''udp'')]"
  by (simp add: refresh_defs scripted_defs sharing_def shared_def find_w1 find_w2 atoi_defs
      store_pairs_def host_proto_def)

text \<open>
  The amended C6 on a listing of two containers with two bindings each. \<open>w1\<close> is listed on host
  port 32769 for its port 80 and keeps the stored 32768; \<open>w2\<close> publishes its port 80 on host
  port 8080 under both protocols.
\<close>

theorem C6_unique_when_listing_unique_witness:
  "docker_ps scripted (world sharing)
   = Some [Line (web ''w1'' ''0.0.0.0:32769->80/tcp, 0.0.0.0:8443->443/tcp''),
           Line (web ''w2'' ''0.0.0.0:8080->80/tcp, 0.0.0.0:8080->80/udp'')] \<and>
   map dc_ID (listed [Line (web ''w1'' ''0.0.0.0:32769->80/tcp, 0.0.0.0:8443->443/tcp''),
                      Line (web ''w2'' ''0.0.0.0:8080->80/tcp, 0.0.0.0:8080->80/udp'')])
   = [''w1'', ''w2''] \<and>
   listing_pairs (portMappings (store sharing))
     [Line (web ''w1'' ''0.0.0.0:32769->80/tcp, 0.0.0.0:8443->443/tcp''),
      Line (web ''w2'' ''0.0.0.0:8080->80/tcp, 0.0.0.0:8080->80/udp'')]
   = [(''32768'', ''tcp''), (''8443'', ''tcp''), (''8080'', ''tcp''), (''8080'', ''udp'')] \<and>
   store_pairs (store (snd (refreshContainers scripted sharing)))
   = [(''32768'', ''tcp''), (''8443'', ''tcp''), (''8080'', ''tcp''), (''8080'', ''udp'')] \<and>
   distinct (store_pairs (store (snd (refreshContainers scripted sharing))))"
proof -
  let ?lines = "[Line (web ''w1'' ''0.0.0.0:32769->80/tcp, 0.0.0.0:8443->443/tcp''),
                 Line (web ''w2'' ''0.0.0.0:8080->80/tcp, 0.0.0.0:8080->80/udp'')]"
  have h1: "docker_ps scripted (world sharing) = Some ?lines"
    by (simp add: scripted_def sharing_def shared_def quiet_def)
  have i: "map dc_ID (listed ?lines) = [''w1'', ''w2'']"
    by (simp add: listed_def web_def)
  have h2: "distinct (map dc_ID (listed ?lines))"
    unfolding i by simp
  have h3: "distinct (listing_pairs (portMappings (store sharing)) ?lines)"
    unfolding sharing_listing_pairs by simp
  from C6_unique_when_listing_unique [OF h1 h2 h3]
  have c: "distinct (store_pairs (store (snd (refreshContainers scripted sharing))))" .
  from h1 i sharing_listing_pairs sharing_store_pairs c show ?thesis
    by (intro conjI)
qed

subsection \<open>Recreator\<close>

lemma and_then_Returned:
  "and_then r f = Returned y \<Longrightarrow> \<exists>x. r = Returned x \<and> f x = Returned y"
  by (cases r) (simp_all add: and_then_def)

lemma and_then_Failed:
  "and_then r f = Failed e \<Longrightarrow> r = Failed e \<or> (\<exists>x. r = Returned x \<and> f x = Failed e)"
  by (cases r) (simp_all add: and_then_def)

lemma must_string_not_Failed [simp]: "must_string v \<noteq> Failed e"
  by (simp add: must_string_def split: option.splits json.splits)

lemma must_object_not_Failed [simp]: "must_object v \<noteq> Failed e"
  by (simp add: must_object_def split: option.splits json.splits)

lemma must_array_not_Failed [simp]: "must_array v \<noteq> Failed e"
  by (simp add: must_array_def split: option.splits json.splits)

lemma strip_slash_not_Failed [simp]: "strip_slash n \<noteq> Failed e"
  by (simp add: strip_slash_def split: list.splits)

lemma binding_field_not_Failed [simp]: "binding_field b k \<noteq> Failed e"
  by (simp add: binding_field_def split: option.splits)

lemma must_strings_not_Failed [simp]: "must_strings xs \<noteq> Failed e"
  by (induction xs) (auto dest!: and_then_Failed)

lemma mount_args_not_Failed [simp]: "mount_args xs \<noteq> Failed e"
  by (induction xs) (auto dest!: and_then_Failed)

lemma copy_bindings_not_Failed [simp]: "copy_bindings xs \<noteq> Failed e"
  by (induction xs) (auto dest!: and_then_Failed)

lemma existing_bindings_not_Failed [simp]: "existing_bindings p xs acc \<noteq> Failed e"
  by (induction xs arbitrary: acc) (auto dest!: and_then_Failed split: if_splits)

lemma label_args_not_Failed [simp]: "label_args xs \<noteq> Failed e"
  by (induction xs) (auto dest!: and_then_Failed)

lemma port_bindings_of_not_Failed [simp]: "port_bindings_of hc p n \<noteq> Failed e"
  by (auto simp: port_bindings_of_def dest!: and_then_Failed split: option.splits json.splits)

lemma collect_attributes_not_Failed: "collect_attributes ci nh cp pr \<noteq> Failed e"
  unfolding collect_attributes_def
  by (auto dest!: and_then_Failed split: option.splits json.splits)

lemma must_string_Returned: "must_string v = Returned x \<Longrightarrow> is_string v"
  by (auto simp: must_string_def is_string_def split: option.splits json.splits)

lemma must_object_Returned: "must_object v = Returned x \<Longrightarrow> v = Some (JObj x)"
  by (auto simp: must_object_def split: option.splits json.splits)

lemma must_array_Returned: "must_array v = Returned x \<Longrightarrow> v = Some (JArr x)"
  by (auto simp: must_array_def split: option.splits json.splits)

lemma must_strings_Returned: "must_strings xs = Returned ys \<Longrightarrow> list_all (\<lambda>x. is_string (Some x)) xs"
  by (induction xs arbitrary: ys) (auto dest!: and_then_Returned must_string_Returned)

lemma label_args_Returned:
  "label_args xs = Returned ys \<Longrightarrow> list_all (\<lambda>(k, x). is_string (Some x)) xs"
  by (induction xs arbitrary: ys) (auto dest!: and_then_Returned must_string_Returned)

lemma update_keeps_others:
  "(k, x) \<in> set xs \<Longrightarrow> k \<noteq> k' \<Longrightarrow> (k, x) \<in> set (AList.update k' v xs)"
  by (induction xs) auto

lemma label_args_update_Returned:
  assumes "label_args (AList.update dynamic_label (JStr t) labels) = Returned ys"
  shows "\<not> bad_labels (Some (JObj labels))"
proof -
  from label_args_Returned [OF assms]
  have all: "\<forall>(k, x) \<in> set (AList.update dynamic_label (JStr t) labels). is_string (Some x)"
    by (simp add: list_all_iff)
  show ?thesis
    unfolding bad_labels_def using all update_keeps_others
    by (fastforce simp: list_ex_iff)
qed

lemma collect_attributes_Returned:
  assumes "collect_attributes ci nh cp pr = Returned sp"
  shows "\<not> missing_or_mistyped ci"
proof -
  from assms obtain name0 config image hostConfig networkMode env envVars labels labelArgs where
    n: "must_string (map_of ci ''Name'') = Returned name0"
    and c: "must_object (map_of ci ''Config'') = Returned config"
    and i: "must_string (map_of config ''Image'') = Returned image"
    and h: "must_object (map_of ci ''HostConfig'') = Returned hostConfig"
    and nm: "must_string (map_of hostConfig ''NetworkMode'') = Returned networkMode"
    and e: "must_array (map_of config ''Env'') = Returned env"
    and es: "must_strings env = Returned envVars"
    and l: "must_object (map_of config ''Labels'') = Returned labels"
    and la: "label_args (AList.update dynamic_label (JStr ''true'') labels) = Returned labelArgs"
    unfolding collect_attributes_def
    by (auto dest!: and_then_Returned)
  from e es have "is_strings (map_of config ''Env'')"
    by (auto simp: is_strings_def dest!: must_array_Returned must_strings_Returned)
  moreover from l la have "\<not> bad_labels (map_of config ''Labels'')"
    by (auto dest!: must_object_Returned label_args_update_Returned)
  ultimately show ?thesis
    using n c i h nm
    by (auto simp: missing_or_mistyped_def dest!: must_string_Returned must_object_Returned)
qed

lemma collect_attributes_panics:
  "missing_or_mistyped ci \<Longrightarrow> collect_attributes ci nh cp pr = Panicked"
  using collect_attributes_Returned [of ci nh cp pr] collect_attributes_not_Failed [of ci nh cp pr]
  by (cases "collect_attributes ci nh cp pr") auto

text \<open>
  Claim C9. Once the inspect output has been decoded, \<^verbatim>\<open>remapContainerPort\<close> panics on a
  failed type assertion, and returns no error, whenever one of \<^verbatim>\<open>Name\<close>, \<^verbatim>\<open>Config.Image\<close>,
  \<^verbatim>\<open>Config.Env\<close>, \<^verbatim>\<open>Config.Labels\<close>, \<^verbatim>\<open>HostConfig.NetworkMode\<close> is missing or has another
  type than expected, or a label other than the sentinel has a value that is not a string.
  The container has been marked processed by then; nothing else has been done.
\<close>

theorem C9_remap_panics_on_unexpected_inspect:
  assumes "docker_inspect D (world (addDynamicPortLabel D m containerID)) containerID = Some (JSON j)"
      and "decode_inspect j = Returned containerInfo"
      and "missing_or_mistyped containerInfo"
  shows "remapContainerPort D m containerID oldHostPort newHostPort containerPort protocol
         = (Panicked, addDynamicPortLabel D m containerID)"
  using assms
  by (simp add: remapContainerPort_def Let_def and_then_def collect_attributes_panics)

text \<open>
  C9 on a container whose inspect output has \<^verbatim>\<open>"Env": null\<close>.
\<close>

theorem C9_remap_panics_on_unexpected_inspect_witness:
  "docker_inspect scripted (world (addDynamicPortLabel scripted (boot no_env) ''bbb'')) ''bbb''
     = Some (JSON (JArr [JObj (inspected JNull (one_binding ''8080''))])) \<and>
   decode_inspect (JArr [JObj (inspected JNull (one_binding ''8080''))])
     = Returned (inspected JNull (one_binding ''8080'')) \<and>
   missing_or_mistyped (inspected JNull (one_binding ''8080'')) \<and>
   remapContainerPort scripted (boot no_env) ''bbb'' ''8080'' ''12345'' ''80'' ''tcp''
     = (Panicked, addDynamicPortLabel scripted (boot no_env) ''bbb'')"
proof -
  have h1: "docker_inspect scripted (world (addDynamicPortLabel scripted (boot no_env) ''bbb'')) ''bbb''
     = Some (JSON (JArr [JObj (inspected JNull (one_binding ''8080''))]))"
    by (simp add: addDynamicPortLabel_def locked_def emit_def Let_def scripted_def boot_def no_env_def
        quiet_def)
  have h2: "decode_inspect (JArr [JObj (inspected JNull (one_binding ''8080''))])
     = Returned (inspected JNull (one_binding ''8080''))"
    by (simp add: decode_inspect_def is_object_or_null_def)
  have h3: "missing_or_mistyped (inspected JNull (one_binding ''8080''))"
    by (simp add: missing_or_mistyped_def inspected_def is_string_def is_strings_def)
  from C9_remap_panics_on_unexpected_inspect [OF h1 h2 h3] h1 h2 h3 show ?thesis by blast
qed

subsection \<open>Reconciler\<close>

lemma calm_refl: "calm m m"
  by (simp add: calm_def)

lemma calm_trans: "calm m0 m1 \<Longrightarrow> calm m1 m2 \<Longrightarrow> calm m0 m2"
  by (auto simp: calm_def)

lemma calm_world: "calm m0 m \<Longrightarrow> calm m0 (m\<lparr>world := w\<rparr>)"
  by (simp add: calm_def)

lemma calm_locked: "calm m0 m \<Longrightarrow> calm m0 (locked f m)"
  by (auto simp: calm_def locked_def Let_def harmless_def)

lemma calm_emit: "calm m0 m \<Longrightarrow> harmless e \<Longrightarrow> calm m0 (emit e m)"
  by (auto simp: calm_def emit_def)

lemma calm_addDynamicPortLabel: "calm m0 m \<Longrightarrow> calm m0 (addDynamicPortLabel D m containerID)"
  unfolding addDynamicPortLabel_def Let_def
  by (auto split: prod.splits bool.splits intro!: calm_emit calm_world calm_locked simp: harmless_def)

lemma calm_isContainerProcessed: "calm m0 m \<Longrightarrow> calm m0 (snd (isContainerProcessed D m containerID))"
  by (simp add: isContainerProcessed_def calm_locked)

lemma calm_parsePorts:
  assumes "calm m0 m"
  shows "calm m0 (snd (parsePortsWithoutRemapping D m containerID portsStr existing))"
proof (cases "map_of existing containerID")
  case (Some a)
  with assms show ?thesis by (simp add: parsePortsWithoutRemapping_def)
next
  case None
  obtain b m1 where i: "isContainerProcessed D m containerID = (b, m1)" by (metis prod.exhaust)
  with calm_isContainerProcessed [OF assms, of D containerID] have "calm m0 m1" by simp
  with None i show ?thesis
    by (simp add: parsePortsWithoutRemapping_def Let_def calm_addDynamicPortLabel)
qed

lemma calm_refresh_line:
  assumes "calm m0 (snd acc)"
  shows "calm m0 (snd (refresh_line D cur proc line acc))"
proof -
  obtain ns m where a: "acc = (ns, m)" by (cases acc)
  with assms have m: "calm m0 m" by simp
  show ?thesis
  proof (cases line)
    case BadLine
    with a m show ?thesis by (simp add: refresh_line_def)
  next
    case (Line dc)
    obtain r m1 where p: "parsePortsWithoutRemapping D m (dc_ID dc) (dc_Ports dc) cur = (r, m1)"
      by (metis prod.exhaust)
    with calm_parsePorts [OF m, of D "dc_ID dc" "dc_Ports dc" cur] have "calm m0 m1" by simp
    with a Line p m show ?thesis
      by (simp add: refresh_line_def Let_def split: prod.splits)
  qed
qed

lemma calm_foldl:
  "calm m0 (snd acc) \<Longrightarrow> calm m0 (snd (foldl (\<lambda>a line. refresh_line D cur proc line a) acc lines))"
  by (induction lines arbitrary: acc) (simp_all add: calm_refresh_line)

lemma calm_refreshContainers: "calm m0 m \<Longrightarrow> calm m0 (snd (refreshContainers D m))"
proof -
  assume m: "calm m0 m"
  show ?thesis
  proof (cases "docker_ps D (world m)")
    case None
    with m show ?thesis by (simp add: refreshContainers_def)
  next
    case (Some lines)
    have "calm m0 (snd (refresh_build D lines m))"
      unfolding refresh_build_def by (rule calm_foldl) (simp add: m)
    moreover obtain ns m1 where "refresh_build D lines m = (ns, m1)" by (metis prod.exhaust)
    ultimately show ?thesis using Some
      by (simp add: refreshContainers_def calm_locked)
  qed
qed

lemma calm_refresh_after: "calm m0 m \<Longrightarrow> calm m0 (snd (refresh_after D m))"
  by (simp add: refresh_after_def calm_refreshContainers)

lemma all_in_dynamic_range_considered:
  "well_shaped pb \<Longrightarrow>
   all_in_dynamic_range s pb = Returned (list_all (\<lambda>(k, hp). host_in_range s hp) (considered pb))"
proof (induction pb)
  case Nil
  show ?case by (simp add: considered_def)
next
  case (Cons e pb)
  obtain k b where e: "e = (k, b)" by (cases e)
  from Cons.prems e have np: "first_host_port b \<noteq> Panicked" and ws: "well_shaped pb"
    by (simp_all add: well_shaped_def)
  have nf: "\<And>x. first_host_port b \<noteq> Failed x"
    by (auto simp: first_host_port_def and_then_def must_object_def
        split: json.splits list.splits option.splits)
  from np nf obtain h where h: "first_host_port b = Returned h" by (cases "first_host_port b") auto
  have c: "considered (e # pb) = (case h of Some hp \<Rightarrow> [(k, hp)] | None \<Rightarrow> []) @ considered pb"
    using e h by (simp add: considered_def split: option.splits)
  show ?case
    using Cons.IH [OF ws] e h c by (cases h) (simp_all add: and_then_def)
qed

lemma allocate_attempts_keeps:
  "allocate_attempts D k m = (r, m') \<Longrightarrow> store m' = store m \<and> trace m' = trace m"
proof (induction k arbitrary: m)
  case 0
  then show ?case
    by (auto simp: rand_Intn_def split: if_splits prod.splits result.splits)
next
  case (Suc k)
  show ?case
  proof (cases "sint (portRangeMax (store m) - portRangeMin (store m)) \<le> 0")
    case True
    with Suc.prems show ?thesis by (simp add: rand_Intn_def)
  next
    case False
    obtain x w' where x: "rand_next D (world m) = (x, w')" by (metis prod.exhaust)
    let ?m1 = "m\<lparr>world := w'\<rparr>"
    from False x have ri: "rand_Intn D (portRangeMax (store m) - portRangeMin (store m)) m
        = (Returned (word_of_nat (x mod nat (sint (portRangeMax (store m) - portRangeMin (store m))))), ?m1)"
      by (simp add: rand_Intn_def)
    show ?thesis
    proof (cases "isPortAvailable D ?m1 (word_of_nat (x mod nat (sint (portRangeMax (store m) - portRangeMin (store m)))) + portRangeMin (store m))")
      case True
      with Suc.prems ri show ?thesis by (auto simp: Let_def)
    next
      case False
      with Suc.prems ri have "allocate_attempts D k ?m1 = (r, m')" by (simp add: Let_def)
      from Suc.IH [OF this] show ?thesis by simp
    qed
  qed
qed

lemma used_by_other_iff:
  "isPortUsedByOtherContainer s containerID p q = held_by_other s containerID p q"
  unfolding isPortUsedByOtherContainer_def held_by_other_def list_ex_iff by fastforce

lemma checkPortCollision_decides:
  assumes "0 < sint (portRangeMax (store m) - portRangeMin (store m))"
  shows "\<exists>newPort m'. checkPortCollision D m containerID hostPort q
            = (Returned (needs_relocation (store m) containerID hostPort q, newPort), m')
          \<and> store m' = store m \<and> trace m' = trace m"
proof -
  from allocate_attempts_returns [OF assms, of D 100]
  obtain p m1 where a: "allocateRandomPort D m = (Returned p, m1)"
    by (auto simp: allocateRandomPort_def)
  with allocate_attempts_keeps [of D 100 m "Returned p" m1]
  have k: "store m1 = store m" "trace m1 = trace m" by (simp_all add: allocateRandomPort_def)
  obtain v ok where at: "Atoi hostPort = (v, ok)" by (metis prod.exhaust)
  show ?thesis
    using a k at
    by (auto simp: checkPortCollision_def allocate_string_def needs_relocation_def in_dynamic_range_def
        used_by_other_iff)
qed

lemma keys_update: "fst ` set (AList.update k v xs) = insert k (fst ` set xs)"
  by (induction xs) auto

lemma length_two: "length xs = 2 \<longleftrightarrow> (\<exists>a b. xs = [a, b])"
  by (cases xs; cases "tl xs") auto

lemma collect_remaps_plan:
  assumes "0 < sint (portRangeMax (store m) - portRangeMin (store m))" and "well_shaped pb"
  shows "\<exists>plan m2. collect_remaps D containerID pb acc m = (Returned plan, m2)
           \<and> store m2 = store m \<and> trace m2 = trace m
           \<and> (\<forall>k. k \<in> fst ` set plan \<longleftrightarrow> k \<in> fst ` set acc \<or> scheduled (store m) containerID pb k)"
  using assms
proof (induction pb arbitrary: acc m)
  case Nil
  show ?case by (simp add: scheduled_def considered_def)
next
  case (Cons e pb)
  obtain k b where e: "e = (k, b)" by (cases e)
  from Cons.prems e have np: "first_host_port b \<noteq> Panicked" and ws: "well_shaped pb"
    by (simp_all add: well_shaped_def)
  have nf: "\<And>x. first_host_port b \<noteq> Failed x"
    by (auto simp: first_host_port_def and_then_def must_object_def
        split: json.splits list.splits option.splits)
  from np nf obtain h where h: "first_host_port b = Returned h" by (cases "first_host_port b") auto
  have c: "considered (e # pb) = (case h of Some hp \<Rightarrow> [(k, hp)] | None \<Rightarrow> []) @ considered pb"
    using e h by (simp add: considered_def split: option.splits)
  show ?case
  proof (cases h)
    case None
    from Cons.IH [OF Cons.prems(1) ws, of acc] obtain plan m2 where
      r: "collect_remaps D containerID pb acc m = (Returned plan, m2)" "store m2 = store m" "trace m2 = trace m"
      "\<forall>k. k \<in> fst ` set plan \<longleftrightarrow> k \<in> fst ` set acc \<or> scheduled (store m) containerID pb k"
      by blast
    have "\<And>k'. scheduled (store m) containerID (e # pb) k' = scheduled (store m) containerID pb k'"
      using c None by (simp add: scheduled_def)
    with r e h None show ?thesis by simp
  next
    case (Some hp)
    show ?thesis
    proof (cases "length (Split k (CHR ''/'')) = 2")
      case False
      from Cons.IH [OF Cons.prems(1) ws, of acc] obtain plan m2 where
        r: "collect_remaps D containerID pb acc m = (Returned plan, m2)" "store m2 = store m" "trace m2 = trace m"
        "\<forall>k. k \<in> fst ` set plan \<longleftrightarrow> k \<in> fst ` set acc \<or> scheduled (store m) containerID pb k"
        by blast
      have "\<And>k'. scheduled (store m) containerID (e # pb) k' = scheduled (store m) containerID pb k'"
        using c Some False by (auto simp: scheduled_def)
      with r e h Some False show ?thesis by (simp add: Let_def)
    next
      case True
      then obtain cp q where sp: "Split k (CHR ''/'') = [cp, q]" by (auto simp: length_two)
      from checkPortCollision_decides [OF Cons.prems(1), of D containerID hp q]
      obtain newPort m1 where
        cc: "checkPortCollision D m containerID hp q
              = (Returned (needs_relocation (store m) containerID hp q, newPort), m1)"
        and k1: "store m1 = store m" "trace m1 = trace m"
        by blast
      let ?acc = "if needs_relocation (store m) containerID hp q then AList.update k newPort acc else acc"
      from Cons.prems(1) k1 have pos: "0 < sint (portRangeMax (store m1) - portRangeMin (store m1))" by simp
      from Cons.IH [OF pos ws, of ?acc] k1 obtain plan m2 where
        r: "collect_remaps D containerID pb ?acc m1 = (Returned plan, m2)" "store m2 = store m" "trace m2 = trace m"
        "\<forall>k'. k' \<in> fst ` set plan \<longleftrightarrow> k' \<in> fst ` set ?acc \<or> scheduled (store m) containerID pb k'"
        by auto
      have upd: "fst ` set (AList.update k newPort acc) = insert k (fst ` set acc)"
        by (rule keys_update)
      have sch: "\<And>k'. scheduled (store m) containerID (e # pb) k'
                  \<longleftrightarrow> (k' = k \<and> needs_relocation (store m) containerID hp q) \<or> scheduled (store m) containerID pb k'"
        using c Some sp by (auto simp: scheduled_def)
      have res: "collect_remaps D containerID (e # pb) acc m = (Returned plan, m2)"
        using e h Some sp cc r(1) by (simp add: Let_def)
      have "\<forall>k'. k' \<in> fst ` set plan \<longleftrightarrow> k' \<in> fst ` set acc \<or> scheduled (store m) containerID (e # pb) k'"
        using r(4) upd sch by auto
      with res r(2,3) show ?thesis by blast
    qed
  qed
qed

lemma addDynamicPortLabel_store:
  "store (addDynamicPortLabel D m containerID) = mark_processed containerID (store m)"
  by (simp add: addDynamicPortLabel_def locked_def emit_def Let_def split: prod.splits bool.splits)

lemma marked_is_processed: "in_memory_processed (mark_processed containerID s) containerID"
  by (simp add: in_memory_processed_def mark_processed_def update_conv')

lemma unprocessed_unchanged:
  "fst (isContainerProcessed D m containerID) = False \<Longrightarrow> isContainerProcessed D m containerID = (False, m)"
  by (simp add: isContainerProcessed_def split: if_splits)

text \<open>
  Claim C4 against the code. For a container that is not yet processed and whose inspect data
  has a non-empty table of port bindings, all three loops of the start handler read
  \<^verbatim>\<open>bindingsArray[0]\<close>: of each container port only the first binding is looked at, where the
  claim, the comment \<^verbatim>\<open>Check if all ports are in our dynamic range\<close> and the refresh path
  (\<^verbatim>\<open>parsePortsWithoutRemapping\<close>, which checks every binding) speak of all of them. If every
  first host port lies within \<open>[min, max]\<close>, the handler marks the container processed,
  refreshes and issues no relocation, whatever the other bindings are. Otherwise a container
  port is scheduled for relocation iff its first binding has a host port \<open>p\<close> such that either
  \<open>p\<close> is within \<open>[min, max]\<close> and another tracked container holds \<open>(p, q)\<close>, or \<open>p\<close> is outside
  \<open>[min, max]\<close>; the handler then calls the Recreator for each scheduled port, or marks the
  container processed if there is none, and refreshes.
\<close>

theorem C4_first_bindings_decide:
  assumes "fst (isContainerProcessed D m containerID) = False"
      and "docker_inspect_json D (world m) containerID = Some (JSON (JObj containerData))"
      and "map_of containerData ''HostConfig'' = Some (JObj hostConfig)"
      and "map_of hostConfig ''PortBindings'' = Some (JObj portBindings)"
      and "portBindings \<noteq> []"
      and "well_shaped portBindings"
      and "0 < sint (portRangeMax (store m) - portRangeMin (store m))"
  shows "(list_all (\<lambda>(k, hostPort). host_in_range (store m) hostPort) (considered portBindings) \<longrightarrow>
            handleContainerStart D m containerID = refresh_after D (addDynamicPortLabel D m containerID)
            \<and> in_memory_processed (store (addDynamicPortLabel D m containerID)) containerID
            \<and> calm m (snd (handleContainerStart D m containerID)))
       \<and> (\<not> list_all (\<lambda>(k, hostPort). host_in_range (store m) hostPort) (considered portBindings) \<longrightarrow>
            (\<exists>plan m2. collect_remaps D containerID portBindings [] m = (Returned plan, m2)
               \<and> store m2 = store m \<and> trace m2 = trace m
               \<and> (\<forall>k. k \<in> fst ` set plan \<longleftrightarrow> scheduled (store m) containerID portBindings k)
               \<and> handleContainerStart D m containerID
                  = (if plan \<noteq> []
                     then (case remap_all D containerID portBindings plan m2 of
                             (Returned u, m3) \<Rightarrow> refresh_after D m3
                           | (r, m3) \<Rightarrow> (r, m3))
                     else refresh_after D (addDynamicPortLabel D m2 containerID))))"
proof -
  let ?all = "list_all (\<lambda>(k, hostPort). host_in_range (store m) hostPort) (considered portBindings)"
  have h: "handleContainerStart D m containerID = handle_bindings D m containerID portBindings"
    using assms(2-5) unprocessed_unchanged [OF assms(1)] by (simp add: handleContainerStart_def)
  have a: "all_in_dynamic_range (store m) portBindings = Returned ?all"
    by (rule all_in_dynamic_range_considered [OF assms(6)])
  have first: "?all \<longrightarrow>
            handleContainerStart D m containerID = refresh_after D (addDynamicPortLabel D m containerID)
            \<and> in_memory_processed (store (addDynamicPortLabel D m containerID)) containerID
            \<and> calm m (snd (handleContainerStart D m containerID))"
  proof
    assume all: ?all
    with h a have eq: "handleContainerStart D m containerID = refresh_after D (addDynamicPortLabel D m containerID)"
      by (simp add: handle_bindings_def)
    moreover have "in_memory_processed (store (addDynamicPortLabel D m containerID)) containerID"
      by (simp add: addDynamicPortLabel_store marked_is_processed)
    moreover have "calm m (snd (refresh_after D (addDynamicPortLabel D m containerID)))"
      by (intro calm_refresh_after calm_addDynamicPortLabel calm_refl)
    ultimately show "handleContainerStart D m containerID = refresh_after D (addDynamicPortLabel D m containerID)
            \<and> in_memory_processed (store (addDynamicPortLabel D m containerID)) containerID
            \<and> calm m (snd (handleContainerStart D m containerID))"
      by simp
  qed
  have second: "\<not> ?all \<longrightarrow>
            (\<exists>plan m2. collect_remaps D containerID portBindings [] m = (Returned plan, m2)
               \<and> store m2 = store m \<and> trace m2 = trace m
               \<and> (\<forall>k. k \<in> fst ` set plan \<longleftrightarrow> scheduled (store m) containerID portBindings k)
               \<and> handleContainerStart D m containerID
                  = (if plan \<noteq> []
                     then (case remap_all D containerID portBindings plan m2 of
                             (Returned u, m3) \<Rightarrow> refresh_after D m3
                           | (r, m3) \<Rightarrow> (r, m3))
                     else refresh_after D (addDynamicPortLabel D m2 containerID)))"
  proof
    assume nall: "\<not> ?all"
    from collect_remaps_plan [OF assms(7) assms(6), of D containerID "[]"]
    obtain plan m2 where p: "collect_remaps D containerID portBindings [] m = (Returned plan, m2)"
      "store m2 = store m" "trace m2 = trace m"
      "\<forall>k. k \<in> fst ` set plan \<longleftrightarrow> scheduled (store m) containerID portBindings k"
      by auto
    from h a nall p(1) have "handleContainerStart D m containerID
                  = (if plan \<noteq> []
                     then (case remap_all D containerID portBindings plan m2 of
                             (Returned u, m3) \<Rightarrow> refresh_after D m3
                           | (r, m3) \<Rightarrow> (r, m3))
                     else refresh_after D (addDynamicPortLabel D m2 containerID))"
      by (simp add: handle_bindings_def)
    with p show "\<exists>plan m2. collect_remaps D containerID portBindings [] m = (Returned plan, m2)
               \<and> store m2 = store m \<and> trace m2 = trace m
               \<and> (\<forall>k. k \<in> fst ` set plan \<longleftrightarrow> scheduled (store m) containerID portBindings k)
               \<and> handleContainerStart D m containerID
                  = (if plan \<noteq> []
                     then (case remap_all D containerID portBindings plan m2 of
                             (Returned u, m3) \<Rightarrow> refresh_after D m3
                           | (r, m3) \<Rightarrow> (r, m3))
                     else refresh_after D (addDynamicPortLabel D m2 containerID))"
      by blast
  qed
  from first second show ?thesis by blast
qed

lemmas start_defs = handleContainerStart_def handle_bindings_def isContainerProcessed_def
  in_memory_processed_def extractLabel_def dynamic_label_def first_host_port_def must_object_def
  and_then_def host_in_range_def int_lt_def

lemmas world_defs = scripted_def quiet_def boot_def empty_store_def web_def inspected_def
  one_binding_def binding_def

text \<open>
  A container publishes its port 80 on host ports 12000 and 8081. Not every bound host port
  lies within \<open>[10000, 65000]\<close>, and the binding on 8081 is outside the range; the handler,
  which reads the first binding only, marks the container processed and issues no
  relocation.
\<close>

lemma two_bindings_marked:
  "\<not> spec_every_bound_port_in_range (store (boot two_bindings))
       [(''80/tcp'', JArr [binding ''12000'', binding ''8081''])] \<and>
   fst (isContainerProcessed scripted (boot two_bindings) ''ccc'') = False \<and>
   handleContainerStart scripted (boot two_bindings) ''ccc''
     = refresh_after scripted (addDynamicPortLabel scripted (boot two_bindings) ''ccc'') \<and>
   list_all harmless (trace (snd (handleContainerStart scripted (boot two_bindings) ''ccc'')))"
proof -
  have a: "\<not> spec_every_bound_port_in_range (store (boot two_bindings))
       [(''80/tcp'', JArr [binding ''12000'', binding ''8081''])]"
    by (simp add: spec_every_bound_port_in_range_def bound_host_ports_def binding_def host_in_range_def
        boot_def empty_store_def atoi_defs int_lt_def)
  have b: "fst (isContainerProcessed scripted (boot two_bindings) ''ccc'') = False"
    by (simp add: start_defs world_defs two_bindings_def)
  have c: "handleContainerStart scripted (boot two_bindings) ''ccc''
     = refresh_after scripted (addDynamicPortLabel scripted (boot two_bindings) ''ccc'')"
    by (simp add: start_defs world_defs two_bindings_def atoi_defs)
  have "calm (boot two_bindings) (snd (refresh_after scripted (addDynamicPortLabel scripted (boot two_bindings) ''ccc'')))"
    by (intro calm_refresh_after calm_addDynamicPortLabel calm_refl)
  then have d: "list_all harmless (trace (snd (handleContainerStart scripted (boot two_bindings) ''ccc'')))"
    unfolding c by (auto simp: calm_def boot_def)
  from a b c d show ?thesis by blast
qed

text \<open>
  Both branches on the scripted runtime. \<open>bbb\<close> on host port 8080 takes the second branch. \<open>ccc\<close>
  with the bindings 12000 and 8081 of its port 80 takes the first: its bound host ports are
  not all within \<open>[10000, 65000]\<close>, yet it is marked processed and nothing is relocated.
\<close>

theorem C4_first_bindings_decide_witness:
  "fst (isContainerProcessed scripted (boot newcomer) ''bbb'') = False \<and>
   docker_inspect_json scripted (world (boot newcomer)) ''bbb''
     = Some (JSON (JObj (inspected (JArr []) (one_binding ''8080'')))) \<and>
   map_of (inspected (JArr []) (one_binding ''8080'')) ''HostConfig''
     = Some (JObj [(''NetworkMode'', JStr ''default''), (''PortBindings'', one_binding ''8080'')]) \<and>
   map_of [(''NetworkMode'', JStr ''default''), (''PortBindings'', one_binding ''8080'')] ''PortBindings''
     = Some (JObj [(''80/tcp'', JArr [binding ''8080''])]) \<and>
   [(''80/tcp'', JArr [binding ''8080''])] \<noteq> [] \<and>
   well_shaped [(''80/tcp'', JArr [binding ''8080''])] \<and>
   0 < sint (portRangeMax (store (boot newcomer)) - portRangeMin (store (boot newcomer))) \<and>
   \<not> list_all (\<lambda>(k, hostPort). host_in_range (store (boot newcomer)) hostPort)
         (considered [(''80/tcp'', JArr [binding ''8080''])]) \<and>
   (\<exists>plan m2. collect_remaps scripted ''bbb'' [(''80/tcp'', JArr [binding ''8080''])] [] (boot newcomer)
                 = (Returned plan, m2)
      \<and> (\<forall>k. k \<in> fst ` set plan
              \<longleftrightarrow> scheduled (store (boot newcomer)) ''bbb'' [(''80/tcp'', JArr [binding ''8080''])] k)
      \<and> handleContainerStart scripted (boot newcomer) ''bbb''
         = (if plan \<noteq> []
            then (case remap_all scripted ''bbb'' [(''80/tcp'', JArr [binding ''8080''])] plan m2 of
                    (Returned u, m3) \<Rightarrow> refresh_after scripted m3
                  | (r, m3) \<Rightarrow> (r, m3))
            else refresh_after scripted (addDynamicPortLabel scripted m2 ''bbb''))) \<and>
   fst (isContainerProcessed scripted (boot two_bindings) ''ccc'') = False \<and>
   bound_host_ports [(''80/tcp'', JArr [binding ''12000'', binding ''8081''])] = [''12000'', ''8081''] \<and>
   \<not> spec_every_bound_port_in_range (store (boot two_bindings))
       [(''80/tcp'', JArr [binding ''12000'', binding ''8081''])] \<and>
   list_all (\<lambda>(k, hostPort). host_in_range (store (boot two_bindings)) hostPort)
     (considered [(''80/tcp'', JArr [binding ''12000'', binding ''8081''])]) \<and>
   handleContainerStart scripted (boot two_bindings) ''ccc''
     = refresh_after scripted (addDynamicPortLabel scripted (boot two_bindings) ''ccc'') \<and>
   in_memory_processed (store (addDynamicPortLabel scripted (boot two_bindings) ''ccc'')) ''ccc'' \<and>
   calm (boot two_bindings) (snd (handleContainerStart scripted (boot two_bindings) ''ccc''))"
proof -
  let ?pb = "[(''80/tcp'', JArr [binding ''8080''])]"
  have h1: "fst (isContainerProcessed scripted (boot newcomer) ''bbb'') = False"
    by (simp add: start_defs world_defs newcomer_def)
  have h2: "docker_inspect_json scripted (world (boot newcomer)) ''bbb''
     = Some (JSON (JObj (inspected (JArr []) (one_binding ''8080''))))"
    by (simp add: scripted_def boot_def newcomer_def quiet_def)
  have h3: "map_of (inspected (JArr []) (one_binding ''8080'')) ''HostConfig''
     = Some (JObj [(''NetworkMode'', JStr ''default''), (''PortBindings'', one_binding ''8080'')])"
    by (simp add: inspected_def)
  have h4: "map_of [(''NetworkMode'', JStr ''default''), (''PortBindings'', one_binding ''8080'')] ''PortBindings''
     = Some (JObj ?pb)"
    by (simp add: one_binding_def binding_def)
  have h5: "?pb \<noteq> []" by simp
  have h6: "well_shaped ?pb"
    by (simp add: well_shaped_def first_host_port_def binding_def and_then_def must_object_def)
  have h7: "0 < sint (portRangeMax (store (boot newcomer)) - portRangeMin (store (boot newcomer)))"
    by (simp add: boot_def empty_store_def)
  have n: "\<not> list_all (\<lambda>(k, hostPort). host_in_range (store (boot newcomer)) hostPort) (considered ?pb)"
    by (simp add: considered_def first_host_port_def binding_def and_then_def must_object_def
        host_in_range_def boot_def empty_store_def atoi_defs int_lt_def)
  let ?pb2 = "[(''80/tcp'', JArr [binding ''12000'', binding ''8081''])]"
  have g1: "fst (isContainerProcessed scripted (boot two_bindings) ''ccc'') = False"
    by (simp add: start_defs world_defs two_bindings_def)
  have g2: "docker_inspect_json scripted (world (boot two_bindings)) ''ccc''
     = Some (JSON (JObj (inspected (JArr []) (JObj ?pb2))))"
    by (simp add: scripted_def boot_def two_bindings_def quiet_def)
  have g3: "map_of (inspected (JArr []) (JObj ?pb2)) ''HostConfig''
     = Some (JObj [(''NetworkMode'', JStr ''default''), (''PortBindings'', JObj ?pb2)])"
    by (simp add: inspected_def)
  have g4: "map_of [(''NetworkMode'', JStr ''default''), (''PortBindings'', JObj ?pb2)] ''PortBindings''
     = Some (JObj ?pb2)"
    by simp
  have g5: "?pb2 \<noteq> []" by simp
  have g6: "well_shaped ?pb2"
    by (simp add: well_shaped_def first_host_port_def binding_def and_then_def must_object_def)
  have g7: "0 < sint (portRangeMax (store (boot two_bindings)) - portRangeMin (store (boot two_bindings)))"
    by (simp add: boot_def empty_store_def)
  have y: "list_all (\<lambda>(k, hostPort). host_in_range (store (boot two_bindings)) hostPort) (considered ?pb2)"
    by (simp add: considered_def first_host_port_def binding_def and_then_def must_object_def
        host_in_range_def boot_def empty_store_def atoi_defs int_lt_def)
  from C4_first_bindings_decide [OF h1 h2 h3 h4 h5 h6 h7] n
  have second: "\<exists>plan m2. collect_remaps scripted ''bbb'' ?pb [] (boot newcomer) = (Returned plan, m2)
      \<and> (\<forall>k. k \<in> fst ` set plan \<longleftrightarrow> scheduled (store (boot newcomer)) ''bbb'' ?pb k)
      \<and> handleContainerStart scripted (boot newcomer) ''bbb''
         = (if plan \<noteq> []
            then (case remap_all scripted ''bbb'' ?pb plan m2 of
                    (Returned u, m3) \<Rightarrow> refresh_after scripted m3
                  | (r, m3) \<Rightarrow> (r, m3))
            else refresh_after scripted (addDynamicPortLabel scripted m2 ''bbb''))"
    by blast
  have b: "bound_host_ports ?pb2 = [''12000'', ''8081'']"
    by (simp add: bound_host_ports_def binding_def)
  have s: "\<not> spec_every_bound_port_in_range (store (boot two_bindings)) ?pb2"
    using two_bindings_marked by blast
  from C4_first_bindings_decide [OF g1 g2 g3 g4 g5 g6 g7] y
  have first: "handleContainerStart scripted (boot two_bindings) ''ccc''
       = refresh_after scripted (addDynamicPortLabel scripted (boot two_bindings) ''ccc'') \<and>
     in_memory_processed (store (addDynamicPortLabel scripted (boot two_bindings) ''ccc'')) ''ccc'' \<and>
     calm (boot two_bindings) (snd (handleContainerStart scripted (boot two_bindings) ''ccc''))"
    by blast
  from h1 h2 h3 h4 h5 h6 h7 n second g1 b s y first show ?thesis by blast
qed

subsection \<open>Restart loops and relocation\<close>

lemma created_append [simp]: "created (xs @ ys) = created xs @ created ys"
  by (simp add: created_def)

lemma created_Nil [simp]: "created [] = []"
  by (simp add: created_def)

lemma created_harmless: "list_all harmless evs \<Longrightarrow> created evs = []"
  by (induction evs) (auto simp: created_def harmless_def split: event.splits)

lemma calm_since: "calm m0 m \<Longrightarrow> created (since m0 m) = []"
  by (auto simp: calm_def since_def created_harmless)

lemma calm_created: "calm m0 m \<Longrightarrow> created (trace m) = created (trace m0)"
  by (auto simp: calm_def created_harmless)

lemma processed_mark_mono:
  "in_memory_processed s x \<Longrightarrow> in_memory_processed (mark_processed containerID s) x"
  by (simp add: in_memory_processed_def mark_processed_def update_conv')

lemma recreate_effect:
  assumes "recreate D m containerID sp = (r, m')"
  shows "\<exists>evs. trace m' = trace m @ evs
           \<and> (case r of
                 Returned u \<Rightarrow> (\<exists>nid. created evs = [nid] \<and> store m' = mark_processed nid (store m))
               | _ \<Rightarrow> created evs = [] \<and> store m' = store m)"
  using assms
  by (auto simp: recreate_def stop_or_kill_def emit_def locked_def Let_def created_def
      split: prod.splits bool.splits option.splits if_splits)

lemma addDynamicPortLabel_effect:
  "\<exists>evs. trace (addDynamicPortLabel D m containerID) = trace m @ evs \<and> created evs = []"
  using calm_addDynamicPortLabel [where D = D and containerID = containerID, OF calm_refl [of m]]
  by (auto simp: calm_def created_harmless)

lemma remap_effect:
  assumes "remapContainerPort D m containerID oldHostPort newHostPort containerPort protocol = (r, m')"
  shows "\<exists>evs. trace m' = trace m @ evs
           \<and> (case r of
                 Returned u \<Rightarrow>
                   (\<exists>nid. created evs = [nid]
                      \<and> store m' = mark_processed nid (mark_processed containerID (store m)))
               | _ \<Rightarrow> created evs = [] \<and> store m' = mark_processed containerID (store m))"
proof -
  let ?m1 = "addDynamicPortLabel D m containerID"
  obtain evs1 where e1: "trace ?m1 = trace m @ evs1" "created evs1 = []"
    using addDynamicPortLabel_effect by blast
  have s1: "store ?m1 = mark_processed containerID (store m)" by (rule addDynamicPortLabel_store)
  have plain: ?thesis if "m' = ?m1" "r \<noteq> Returned ()"
    using that e1 s1 by (cases r) auto
  have viaRecreate: ?thesis if rc: "recreate D ?m1 containerID sp = (r, m')" for sp
  proof -
    from recreate_effect [OF rc] obtain evs2 where
      e2: "trace m' = trace ?m1 @ evs2"
      "case r of Returned u \<Rightarrow> (\<exists>nid. created evs2 = [nid] \<and> store m' = mark_processed nid (store ?m1))
               | _ \<Rightarrow> created evs2 = [] \<and> store m' = store ?m1"
      by blast
    have "trace m' = trace m @ (evs1 @ evs2)" using e1 e2 by simp
    moreover have "case r of
                 Returned u \<Rightarrow>
                   (\<exists>nid. created (evs1 @ evs2) = [nid]
                      \<and> store m' = mark_processed nid (mark_processed containerID (store m)))
               | _ \<Rightarrow> created (evs1 @ evs2) = [] \<and> store m' = mark_processed containerID (store m)"
      using e1 e2(2) s1 by (cases r) auto
    ultimately show ?thesis by blast
  qed
  show ?thesis
  proof (cases "docker_inspect D (world ?m1) containerID")
    case None
    with assms show ?thesis by (intro plain) (auto simp: remapContainerPort_def Let_def)
  next
    case (Some jt)
    show ?thesis
    proof (cases jt)
      case NotJSON
      with Some assms show ?thesis by (intro plain) (auto simp: remapContainerPort_def Let_def)
    next
      case (JSON j)
      show ?thesis
      proof (cases "and_then (decode_inspect j)
                     (\<lambda>containerInfo. collect_attributes containerInfo newHostPort containerPort protocol)")
        case Panicked
        with Some JSON assms show ?thesis by (intro plain) (auto simp: remapContainerPort_def Let_def)
      next
        case (Failed e)
        with Some JSON assms show ?thesis by (intro plain) (auto simp: remapContainerPort_def Let_def)
      next
        case (Returned sp)
        with Some JSON assms have "recreate D ?m1 containerID sp = (r, m')"
          by (simp add: remapContainerPort_def Let_def)
        then show ?thesis by (rule viaRecreate)
      qed
    qed
  qed
qed

lemma addDynamicPortLabel_first:
  "\<exists>evs. trace (addDynamicPortLabel D m containerID)
          = trace m @ Unlock (mark_processed containerID (store m)) # evs"
  by (simp add: addDynamicPortLabel_def locked_def emit_def Let_def split: prod.splits bool.splits)

lemma remap_from_label:
  assumes "remapContainerPort D m containerID oldHostPort newHostPort containerPort protocol = (r, m')"
  shows "\<exists>evs. trace m' = trace (addDynamicPortLabel D m containerID) @ evs"
proof -
  let ?m1 = "addDynamicPortLabel D m containerID"
  have "m' = ?m1 \<or> (\<exists>sp. recreate D ?m1 containerID sp = (r, m'))"
    using assms
    by (auto simp: remapContainerPort_def Let_def split: option.splits json_text.splits result.splits)
  then show ?thesis using recreate_effect by fastforce
qed

lemma covered_refl: "covered m m"
  by (simp add: covered_def)

lemma covered_remap:
  assumes "covered m0 m"
  shows "covered m0 (snd (remapContainerPort D m containerID oldHostPort newHostPort containerPort protocol))"
proof -
  obtain r m' where rm: "remapContainerPort D m containerID oldHostPort newHostPort containerPort protocol = (r, m')"
    by (metis prod.exhaust)
  from assms obtain evs0 where e0: "trace m = trace m0 @ evs0"
    "list_all (in_memory_processed (store m)) (created evs0)"
    by (auto simp: covered_def)
  from remap_effect [OF rm] obtain evs where e: "trace m' = trace m @ evs"
    and c: "case r of
                 Returned u \<Rightarrow>
                   (\<exists>nid. created evs = [nid]
                      \<and> store m' = mark_processed nid (mark_processed containerID (store m)))
               | _ \<Rightarrow> created evs = [] \<and> store m' = mark_processed containerID (store m)"
    by blast
  have old: "list_all (in_memory_processed (store m')) (created evs0)"
    using e0(2) c by (cases r) (auto simp: list_all_iff processed_mark_mono)
  have new: "list_all (in_memory_processed (store m')) (created evs)"
    using c by (cases r) (auto simp: marked_is_processed)
  have "trace m' = trace m0 @ (evs0 @ evs)" using e0 e by simp
  with old new have "covered m0 m'" unfolding covered_def by (metis created_append list_all_append)
  with rm show ?thesis by simp
qed

lemma covered_remap_all:
  "covered m0 m \<Longrightarrow> covered m0 (snd (remap_all D containerID pb plan m))"
proof (induction plan arbitrary: m)
  case Nil
  then show ?case by simp
next
  case (Cons e plan)
  obtain k newHostPort where e: "e = (k, newHostPort)" by (cases e)
  show ?case
  proof (cases "old_host_port pb k")
    case (Returned oldHostPort)
    let ?parts = "Split k (CHR ''/'')"
    obtain r m' where rm: "remapContainerPort D m containerID oldHostPort newHostPort (?parts ! 0) (?parts ! 1) = (r, m')"
      by (metis prod.exhaust)
    from covered_remap [OF Cons.prems, of D containerID oldHostPort newHostPort "?parts ! 0" "?parts ! 1"] rm
    have c: "covered m0 m'" by simp
    from Cons.IH [OF c] have "covered m0 (snd (remap_all D containerID pb plan m'))" .
    with e Returned rm c show ?thesis by (cases r) (simp_all add: Let_def)
  next
    case Panicked
    with e Cons.prems show ?thesis by (simp add: Let_def)
  next
    case (Failed x)
    with e Cons.prems show ?thesis by (simp add: Let_def)
  qed
qed

lemma checkPortCollision_keeps:
  assumes "checkPortCollision D m containerID hostPort q = (r, m')"
  shows "store m' = store m \<and> trace m' = trace m"
proof -
  obtain ar am where a: "allocateRandomPort D m = (ar, am)" by (metis prod.exhaust)
  with allocate_attempts_keeps [of D 100 m ar am] have k: "store am = store m \<and> trace am = trace m"
    by (simp add: allocateRandomPort_def)
  from assms a k show ?thesis
    by (auto simp: checkPortCollision_def allocate_string_def split: prod.splits if_splits result.splits)
qed

lemma collect_remaps_keeps:
  "collect_remaps D containerID pb acc m = (r, m') \<Longrightarrow> store m' = store m \<and> trace m' = trace m"
proof (induction pb arbitrary: acc m)
  case Nil
  then show ?case by simp
next
  case (Cons e pb)
  obtain k b where e: "e = (k, b)" by (cases e)
  show ?case
  proof (cases "first_host_port b")
    case Panicked
    with Cons.prems e show ?thesis by simp
  next
    case (Failed x)
    with Cons.prems e show ?thesis by simp
  next
    case (Returned h)
    show ?thesis
    proof (cases h)
      case None
      with Cons.prems e Returned have "collect_remaps D containerID pb acc m = (r, m')" by simp
      from Cons.IH [OF this] show ?thesis .
    next
      case (Some hp)
      show ?thesis
      proof (cases "length (Split k (CHR ''/'')) = 2")
        case False
        with Cons.prems e Returned Some have "collect_remaps D containerID pb acc m = (r, m')"
          by (simp add: Let_def)
        from Cons.IH [OF this] show ?thesis .
      next
        case True
        obtain cr cm where c: "checkPortCollision D m containerID hp (Split k (CHR ''/'') ! 1) = (cr, cm)"
          by (metis prod.exhaust)
        from checkPortCollision_keeps [OF c] have k: "store cm = store m \<and> trace cm = trace m" .
        show ?thesis
        proof (cases cr)
          case Panicked
          with Cons.prems e Returned Some True c k show ?thesis by (simp add: Let_def)
        next
          case (Failed x)
          with Cons.prems e Returned Some True c k show ?thesis by (simp add: Let_def)
        next
          case (Returned res)
          obtain needs newPort where res: "res = (needs, newPort)" by (cases res)
          with Cons.prems e \<open>first_host_port b = Returned h\<close> Some True c Returned
          have "collect_remaps D containerID pb
                  (if needs then AList.update k newPort acc else acc) cm = (r, m')"
            by (simp add: Let_def)
          from Cons.IH [OF this] k show ?thesis by simp
        qed
      qed
    qed
  qed
qed

lemma sticky_refresh_line:
  assumes "sticky proc (fst acc)"
  shows "sticky proc (fst (refresh_line D cur proc line acc))"
proof -
  obtain ns m where a: "acc = (ns, m)" by (cases acc)
  show ?thesis
  proof (cases line)
    case BadLine
    with a assms show ?thesis by (simp add: refresh_line_def)
  next
    case (Line dc)
    obtain pms dyn m1 where p: "parsePortsWithoutRemapping D m (dc_ID dc) (dc_Ports dc) cur = ((pms, dyn), m1)"
      by (metis prod.exhaust)
    from assms a have s: "sticky proc ns" by simp
    show ?thesis
    proof (cases "docker_inspect_id D (world m) (dc_ID dc)")
      case False
      with a Line s show ?thesis by (simp add: refresh_line_def)
    next
      case True
      with a Line p s show ?thesis
        by (auto simp: refresh_line_def Let_def sticky_def update_conv')
    qed
  qed
qed

lemma sticky_foldl:
  "sticky proc (fst acc) \<Longrightarrow> sticky proc (fst (foldl (\<lambda>a line. refresh_line D cur proc line a) acc lines))"
  by (induction lines arbitrary: acc) (simp_all add: sticky_refresh_line)

lemma refresh_sticky:
  assumes "tracked (store (snd (refreshContainers D m))) containerID"
      and "in_memory_processed (store m) containerID"
  shows "in_memory_processed (store (snd (refreshContainers D m))) containerID"
proof (cases "docker_ps D (world m)")
  case None
  with assms show ?thesis by (simp add: refreshContainers_def)
next
  case (Some lines)
  obtain ns m1 where b: "refresh_build D lines m = (ns, m1)" by (metis prod.exhaust)
  have "sticky (processedContainers (store m)) (fst (refresh_build D lines m))"
    unfolding refresh_build_def by (rule sticky_foldl) (simp add: sticky_def)
  with b have s: "sticky (processedContainers (store m)) ns" by simp
  from Some b have st: "store (snd (refreshContainers D m)) = swap_in ns (store m1)"
    by (simp add: refreshContainers_def locked_def Let_def)
  from assms st s show ?thesis
    by (auto simp: tracked_def in_memory_processed_def swap_in_def sticky_def)
qed

lemma covered_settled: "covered m0 m \<Longrightarrow> settled m0 m"
  by (auto simp: covered_def settled_def list_all_iff)

lemma calm_settled: "calm m0 m \<Longrightarrow> settled m0 m"
  by (auto simp: calm_def settled_def created_harmless)

lemma settled_refresh_after:
  assumes "covered m0 m"
  shows "settled m0 (snd (refresh_after D m))"
proof -
  let ?m' = "snd (refreshContainers D m)"
  from assms obtain evs0 where e0: "trace m = trace m0 @ evs0"
    "list_all (in_memory_processed (store m)) (created evs0)"
    by (auto simp: covered_def)
  from calm_refreshContainers [where D = D, OF calm_refl [of m]] obtain evs where
    e: "trace ?m' = trace m @ evs" "created evs = []"
    by (auto simp: calm_def created_harmless)
  have "trace ?m' = trace m0 @ (evs0 @ evs)" using e0 e by simp
  moreover have "list_all (\<lambda>nid. tracked (store ?m') nid \<longrightarrow> in_memory_processed (store ?m') nid)
                   (created (evs0 @ evs))"
    using e0(2) e(2) refresh_sticky [where D = D and m = m] by (auto simp: list_all_iff)
  ultimately show ?thesis unfolding settled_def refresh_after_def by (metis snd_conv)
qed

lemma covered_calm: "calm m0 m \<Longrightarrow> covered m0 m"
  by (auto simp: calm_def covered_def created_harmless)

lemma covered_same_trace:
  "covered m0 m \<Longrightarrow> store m2 = store m \<Longrightarrow> trace m2 = trace m \<Longrightarrow> covered m0 m2"
  by (simp add: covered_def)

lemma settled_handle_bindings: "settled m (snd (handle_bindings D m containerID pb))"
proof (cases "all_in_dynamic_range (store m) pb")
  case Panicked
  then show ?thesis by (simp add: handle_bindings_def calm_settled calm_refl)
next
  case (Failed x)
  then show ?thesis by (simp add: handle_bindings_def calm_settled calm_refl)
next
  case (Returned allIn)
  show ?thesis
  proof (cases allIn)
    case True
    have "covered m (addDynamicPortLabel D m containerID)"
      by (intro covered_calm calm_addDynamicPortLabel calm_refl)
    from settled_refresh_after [OF this] Returned True show ?thesis
      by (simp add: handle_bindings_def)
  next
    case False
    obtain cr m2 where c: "collect_remaps D containerID pb [] m = (cr, m2)" by (metis prod.exhaust)
    from collect_remaps_keeps [OF c] have k: "store m2 = store m" "trace m2 = trace m" by simp_all
    from covered_same_trace [OF covered_refl k] have c2: "covered m m2" .
    show ?thesis
    proof (cases cr)
      case Panicked
      with Returned False c c2 show ?thesis by (simp add: handle_bindings_def covered_settled)
    next
      case (Failed x)
      with Returned False c c2 show ?thesis by (simp add: handle_bindings_def covered_settled)
    next
      case (Returned plan)
      show ?thesis
      proof (cases "plan = []")
        case True
        have c3: "covered m (addDynamicPortLabel D m2 containerID)"
        proof -
          have "calm m2 (addDynamicPortLabel D m2 containerID)"
            by (intro calm_addDynamicPortLabel calm_refl)
          then have "calm m (addDynamicPortLabel D m2 containerID)"
            using k by (simp add: calm_def)
          then show ?thesis by (rule covered_calm)
        qed
        from settled_refresh_after [OF c3] \<open>all_in_dynamic_range (store m) pb = Returned allIn\<close>
          False c Returned True show ?thesis
          by (simp add: handle_bindings_def)
      next
        case nonempty: False
        obtain rr m3 where ra: "remap_all D containerID pb plan m2 = (rr, m3)" by (metis prod.exhaust)
        from covered_remap_all [where D = D and containerID = containerID and pb = pb and plan = plan, OF c2] ra have c3: "covered m m3" by simp
        from settled_refresh_after [where D = D, OF c3] covered_settled [OF c3]
          \<open>all_in_dynamic_range (store m) pb = Returned allIn\<close> False c Returned nonempty ra
        show ?thesis
          by (cases rr) (simp_all add: handle_bindings_def)
      qed
    qed
  qed
qed

lemma settled_handleContainerStart: "settled m (snd (handleContainerStart D m containerID))"
proof (cases "fst (isContainerProcessed D m containerID)")
  case True
  obtain m1 where i: "isContainerProcessed D m containerID = (True, m1)"
    using True by (metis prod.collapse)
  from calm_isContainerProcessed [where D = D and containerID = containerID, OF calm_refl [of m]] i have "calm m m1" by simp
  from settled_refresh_after [OF covered_calm [OF this]] i show ?thesis
    by (simp add: handleContainerStart_def)
next
  case False
  then have i: "isContainerProcessed D m containerID = (False, m)" by (simp add: unprocessed_unchanged)
  have same: "settled m m" by (simp add: calm_settled calm_refl)
  show ?thesis
    using i same settled_handle_bindings [where m = m and D = D and containerID = containerID]
    by (auto simp: handleContainerStart_def split: option.splits json_text.splits json.splits)
qed

lemma since_self [simp]: "since m m = []"
  by (simp add: since_def)

lemma since_append: "trace m' = trace m @ evs \<Longrightarrow> since m m' = evs"
  by (simp add: since_def)

text \<open>
  Claim C1. (1) A start event for a container in the processed set only refreshes: the
  handler is \<^verbatim>\<open>refreshContainers\<close> and creates nothing. (2) The first thing a remap does is to
  mark the old container, which is processed in every outcome; when the remap returns
  normally it has created exactly one container, which is in the processed set on return;
  otherwise it has created none. (3) After a start event for \<open>X\<close>, a start event for a
  container \<open>Y\<close> that the first handler created and that the Store tracks finds \<open>Y\<close> processed,
  only refreshes, and leaves the containers created since the first event as they were: if
  the first event led to one recreation, the chain performs exactly one.
\<close>

theorem C1_processed_is_left_alone:
  assumes "remapContainerPort D a X oldHostPort newHostPort containerPort protocol = (r, mr)"
      and "handleContainerStart D m X = (h1, m1)"
      and "handleContainerStart D m1 Y = (h2, m2)"
  shows "(in_memory_processed (store m) X \<longrightarrow>
            handleContainerStart D m X = refresh_after D m \<and> created (since m m1) = [])
       \<and> (\<exists>evs. trace mr = trace a @ Unlock (mark_processed X (store a)) # evs)
       \<and> in_memory_processed (store mr) X
       \<and> (r = Returned () \<longrightarrow> (\<exists>nid. created (since a mr) = [nid] \<and> in_memory_processed (store mr) nid))
       \<and> (r \<noteq> Returned () \<longrightarrow> created (since a mr) = [])
       \<and> (Y \<in> set (created (since m m1)) \<and> tracked (store m1) Y \<longrightarrow>
            in_memory_processed (store m1) Y
            \<and> handleContainerStart D m1 Y = refresh_after D m1
            \<and> created (since m m2) = created (since m m1))"
proof -
  have known: "handleContainerStart D a Z = refresh_after D a \<and> calm a (snd (handleContainerStart D a Z))"
    if "in_memory_processed (store a) Z" for a :: "'a machine" and Z
  proof -
    from that have "handleContainerStart D a Z = refresh_after D a"
      by (simp add: handleContainerStart_def isContainerProcessed_def)
    moreover have "calm a (snd (refresh_after D a))" by (intro calm_refresh_after calm_refl)
    ultimately show ?thesis by simp
  qed
  have p1: "in_memory_processed (store m) X \<longrightarrow>
            handleContainerStart D m X = refresh_after D m \<and> created (since m m1) = []"
    using known [of m X] assms(2) calm_since [of m m1] by auto
  from addDynamicPortLabel_first [of D a X] remap_from_label [OF assms(1)]
  have p2: "\<exists>evs. trace mr = trace a @ Unlock (mark_processed X (store a)) # evs" by auto
  from remap_effect [OF assms(1)] obtain evs where e: "trace mr = trace a @ evs"
    and c: "case r of
                 Returned u \<Rightarrow>
                   (\<exists>nid. created evs = [nid]
                      \<and> store mr = mark_processed nid (mark_processed X (store a)))
               | _ \<Rightarrow> created evs = [] \<and> store mr = mark_processed X (store a)"
    by blast
  have sm: "since a mr = evs" using e by (rule since_append)
  have p3: "in_memory_processed (store mr) X"
    using c by (cases r) (auto simp: marked_is_processed processed_mark_mono)
  have p4: "r = Returned () \<longrightarrow> (\<exists>nid. created (since a mr) = [nid] \<and> in_memory_processed (store mr) nid)"
    using c sm by (cases r) (auto simp: marked_is_processed)
  have p5: "r \<noteq> Returned () \<longrightarrow> created (since a mr) = []"
    using c sm by (cases r) auto
  have p6: "Y \<in> set (created (since m m1)) \<and> tracked (store m1) Y \<longrightarrow>
            in_memory_processed (store m1) Y
            \<and> handleContainerStart D m1 Y = refresh_after D m1
            \<and> created (since m m2) = created (since m m1)"
  proof
    assume y: "Y \<in> set (created (since m m1)) \<and> tracked (store m1) Y"
    from settled_handleContainerStart [of m D X] assms(2) obtain evs1 where
      e1: "trace m1 = trace m @ evs1"
      and s1: "list_all (\<lambda>nid. tracked (store m1) nid \<longrightarrow> in_memory_processed (store m1) nid) (created evs1)"
      by (auto simp: settled_def)
    from e1 have "since m m1 = evs1" by (rule since_append)
    with y s1 have proc: "in_memory_processed (store m1) Y" by (auto simp: list_all_iff)
    from known [OF proc] assms(3) have k: "handleContainerStart D m1 Y = refresh_after D m1" "calm m1 m2"
      by auto
    from k(2) obtain evs2 where e2: "trace m2 = trace m1 @ evs2" "created evs2 = []"
      by (auto simp: calm_def created_harmless)
    from e1 e2 have "since m m2 = evs1 @ evs2" by (intro since_append) simp
    with e2 \<open>since m m1 = evs1\<close> have "created (since m m2) = created (since m m1)" by simp
    with proc k(1) show "in_memory_processed (store m1) Y
            \<and> handleContainerStart D m1 Y = refresh_after D m1
            \<and> created (since m m2) = created (since m m1)"
      by simp
  qed
  from p1 p2 p3 p4 p5 p6 show ?thesis by blast
qed

lemma allocate_newcomer:
  "allocateRandomPort scripted (boot newcomer) = (Returned 12345, (boot newcomer)\<lparr>world := drawn newcomer\<rparr>)"
proof -
  have r: "rand_Intn scripted (portRangeMax (store (boot newcomer)) - portRangeMin (store (boot newcomer))) (boot newcomer)
           = (Returned 2345, (boot newcomer)\<lparr>world := drawn newcomer\<rparr>)"
    by (simp add: rand_Intn_def scripted_def boot_def quiet_def newcomer_def empty_store_def drawn_def)
  have a: "isPortAvailable scripted ((boot newcomer)\<lparr>world := drawn newcomer\<rparr>) 12345"
    by (simp add: isPortAvailable_def port_tracked_def scripted_def boot_def quiet_def newcomer_def
        empty_store_def drawn_def)
  have p: "(2345 :: goint) + portRangeMin (store (boot newcomer)) = 12345"
    by (simp add: boot_def empty_store_def)
  have "allocate_attempts scripted (Suc 99) (boot newcomer)
        = (Returned 12345, (boot newcomer)\<lparr>world := drawn newcomer\<rparr>)"
    unfolding allocate_attempts.simps r using a p by (simp add: Let_def)
  then show ?thesis by (simp add: allocateRandomPort_def)
qed

lemma itoa_12345: "Itoa 12345 = ''12345''"
  by (simp add: Itoa_def decimal_def digit_char_def)

lemma collect_newcomer:
  "collect_remaps scripted ''bbb'' [(''80/tcp'', JArr [binding ''8080''])] [] (boot newcomer)
   = (Returned [(''80/tcp'', ''12345'')], (boot newcomer)\<lparr>world := drawn newcomer\<rparr>)"
  by (simp add: first_host_port_def binding_def and_then_def must_object_def checkPortCollision_def
      atoi_defs int_le_def boot_def empty_store_def allocate_string_def
      allocate_newcomer [unfolded boot_def empty_store_def] itoa_12345 Let_def)

lemma remap_newcomer:
  "remapContainerPort scripted ((boot newcomer)\<lparr>world := drawn newcomer\<rparr>) ''bbb'' ''8080'' ''12345'' ''80'' ''tcp''
   = (Returned (), after_remap)"
  by (simp add: remapContainerPort_def addDynamicPortLabel_def locked_def emit_def Let_def
      scripted_def boot_def newcomer_def quiet_def drawn_def web_def
      decode_inspect_def is_object_or_null_def and_then_def collect_attributes_def inspected_def
      one_binding_def must_string_def must_object_def must_array_def strip_slash_def
      port_bindings_of_def binding_field_def port_key_def restart_policy_of_def dynamic_label_def
      recreate_def stop_or_kill_def create_args_def port_args_def halt_def
      started_def published_def
      after_remap_def replaced_def run_b_def)

lemma find_12345:
  "portRegex_FindAll ''0.0.0.0:12345->80/tcp'' = [\<lparr>m_host = ''12345'', m_cport = ''80'', m_proto = ''tcp''\<rparr>]"
  by (simp add: regex_defs)

lemma refresh_after_remap:
  "refreshContainers scripted after_remap = (Returned (), after_start)"
  by (simp add: refresh_defs scripted_def after_remap_def replaced_def quiet_def empty_store_def
      find_12345 after_start_def relocated_def update_conv')

lemma start_newcomer:
  "handleContainerStart scripted (boot newcomer) ''bbb'' = (Returned (), after_start)"
proof -
  have i: "isContainerProcessed scripted (boot newcomer) ''bbb'' = (False, boot newcomer)"
    by (simp add: start_defs world_defs newcomer_def)
  have j: "docker_inspect_json scripted (world (boot newcomer)) ''bbb''
     = Some (JSON (JObj (inspected (JArr []) (one_binding ''8080''))))"
    by (simp add: scripted_def boot_def newcomer_def quiet_def)
  have a: "all_in_dynamic_range (store (boot newcomer)) [(''80/tcp'', JArr [binding ''8080''])] = Returned False"
    by (simp add: first_host_port_def binding_def and_then_def must_object_def host_in_range_def
        boot_def empty_store_def atoi_defs int_lt_def)
  have o: "old_host_port [(''80/tcp'', JArr [binding ''8080''])] ''80/tcp'' = Returned ''8080''"
    by (simp add: old_host_port_def binding_def and_then_def must_object_def must_array_def must_string_def)
  have r: "remap_all scripted ''bbb'' [(''80/tcp'', JArr [binding ''8080''])] [(''80/tcp'', ''12345'')]
             ((boot newcomer)\<lparr>world := drawn newcomer\<rparr>) = (Returned (), after_remap)"
    by (simp add: o remap_newcomer Let_def)
  have "handle_bindings scripted (boot newcomer) ''bbb'' [(''80/tcp'', JArr [binding ''8080''])]
        = (Returned (), after_start)"
    by (simp add: handle_bindings_def a collect_newcomer r refresh_after_def refresh_after_remap
        del: all_in_dynamic_range.simps collect_remaps.simps remap_all.simps)
  with i j show ?thesis
    by (simp add: handleContainerStart_def inspected_def one_binding_def binding_def)
qed

text \<open>
  C1 on the scenario S6: one recreation by the start event for \<open>bbb\<close>, none by the start
  event for its replacement.
\<close>

theorem C1_processed_is_left_alone_witness:
  "remapContainerPort scripted ((boot newcomer)\<lparr>world := drawn newcomer\<rparr>) ''bbb'' ''8080'' ''12345'' ''80'' ''tcp''
     = (Returned (), after_remap) \<and>
   handleContainerStart scripted (boot newcomer) ''bbb'' = (Returned (), after_start) \<and>
   created (since ((boot newcomer)\<lparr>world := drawn newcomer\<rparr>) after_remap) = [''new''] \<and>
   in_memory_processed (store after_remap) ''bbb'' \<and>
   in_memory_processed (store after_remap) ''new'' \<and>
   created (since (boot newcomer) after_start) = [''new''] \<and>
   tracked (store after_start) ''new'' \<and>
   in_memory_processed (store after_start) ''new'' \<and>
   handleContainerStart scripted after_start ''new'' = refresh_after scripted after_start \<and>
   created (since (boot newcomer) (snd (handleContainerStart scripted after_start ''new''))) = [''new'']"
proof -
  have h3: "handleContainerStart scripted after_start ''new''
            = (fst (handleContainerStart scripted after_start ''new''),
               snd (handleContainerStart scripted after_start ''new''))"
    by simp
  have c: "created (since (boot newcomer) after_start) = [''new'']"
    by (simp add: since_def created_def after_start_def after_remap_def boot_def)
  have t: "tracked (store after_start) ''new''"
    by (simp add: tracked_def after_start_def)
  have cr: "created (since ((boot newcomer)\<lparr>world := drawn newcomer\<rparr>) after_remap) = [''new'']"
    by (simp add: since_def created_def after_remap_def boot_def)
  have pn: "in_memory_processed (store after_remap) ''new''"
    by (simp add: after_remap_def marked_is_processed)
  note th = C1_processed_is_left_alone [OF remap_newcomer start_newcomer h3]
  from th have p3: "in_memory_processed (store after_remap) ''bbb''" by blast
  have mem: "''new'' \<in> set (created (since (boot newcomer) after_start))" by (simp add: c)
  from th mem t have q1: "in_memory_processed (store after_start) ''new''"
    and q2: "handleContainerStart scripted after_start ''new'' = refresh_after scripted after_start"
    and q3: "created (since (boot newcomer) (snd (handleContainerStart scripted after_start ''new'')))
             = created (since (boot newcomer) after_start)"
    by blast+
  from q3 c have q4: "created (since (boot newcomer) (snd (handleContainerStart scripted after_start ''new'')))
             = [''new'']"
    by (rule trans)
  show ?thesis
    by (intro conjI remap_newcomer start_newcomer cr p3 pn c t q1 q2 q4)
qed

lemma allocate_conflict:
  "allocateRandomPort scripted conflict = (Returned 12345, conflict\<lparr>world := drawn contested\<rparr>)"
proof -
  have r: "rand_Intn scripted (portRangeMax (store conflict) - portRangeMin (store conflict)) conflict
           = (Returned 2345, conflict\<lparr>world := drawn contested\<rparr>)"
    by (simp add: rand_Intn_def scripted_def conflict_def tracking_a_def contested_def quiet_def drawn_def)
  have a: "isPortAvailable scripted (conflict\<lparr>world := drawn contested\<rparr>) 12345"
    by (simp add: isPortAvailable_def port_tracked_def scripted_def conflict_def tracking_a_def
        holder_def contested_def quiet_def drawn_def atoi_defs)
  have p: "(2345 :: goint) + portRangeMin (store conflict) = 12345"
    by (simp add: conflict_def tracking_a_def)
  have "allocate_attempts scripted (Suc 99) conflict
        = (Returned 12345, conflict\<lparr>world := drawn contested\<rparr>)"
    unfolding allocate_attempts.simps r using a p by (simp add: Let_def)
  then show ?thesis by (simp add: allocateRandomPort_def)
qed

lemma collect_conflict:
  "collect_remaps scripted ''bbb'' [(''80/tcp'', JArr [binding ''8080''])] [] conflict
   = (Returned [(''80/tcp'', ''12345'')], conflict\<lparr>world := drawn contested\<rparr>)"
proof -
  have rng: "portRangeMin (store conflict) = 10000" "portRangeMax (store conflict) = 65000"
    by (simp_all add: conflict_def tracking_a_def)
  have "checkPortCollision scripted conflict ''bbb'' ''8080'' ''tcp''
        = (Returned (True, ''12345''), conflict\<lparr>world := drawn contested\<rparr>)"
    by (simp add: checkPortCollision_def atoi_defs int_le_def rng allocate_string_def allocate_conflict
        itoa_12345)
  then show ?thesis
    by (simp add: first_host_port_def binding_def and_then_def must_object_def Let_def)
qed

lemma remap_conflict:
  "remapContainerPort scripted (conflict\<lparr>world := drawn contested\<rparr>) ''bbb'' ''8080'' ''12345'' ''80'' ''tcp''
   = (Returned (), after_conflict_remap)"
  by (simp add: remapContainerPort_def addDynamicPortLabel_def locked_def emit_def Let_def
      scripted_def conflict_def contested_def quiet_def drawn_def web_def
      decode_inspect_def is_object_or_null_def and_then_def collect_attributes_def inspected_def
      one_binding_def must_string_def must_object_def must_array_def strip_slash_def
      port_bindings_of_def binding_field_def port_key_def restart_policy_of_def dynamic_label_def
      recreate_def stop_or_kill_def create_args_def port_args_def halt_def
      started_def published_def
      after_conflict_remap_def replaced_def run_b_def)

lemma find_8080:
  "portRegex_FindAll ''0.0.0.0:8080->80/tcp'' = [\<lparr>m_host = ''8080'', m_cport = ''80'', m_proto = ''tcp''\<rparr>]"
  by (simp add: regex_defs)

lemma resolved_store:
  "store (snd (refreshContainers scripted after_conflict_remap))
   = \<lparr>containers = [(''aaa'', holder), (''new'', relocated)],
      portMappings = [(''aaa'', [(''80/tcp'', ''8080'')]), (''new'', [(''80/tcp'', ''12345'')])],
      processedContainers = [(''new'', True)],
      portRangeMin = 10000, portRangeMax = 65000\<rparr>"
  by (simp add: refresh_defs scripted_def after_conflict_remap_def replaced_def quiet_def tracking_a_def
      web_def find_12345 find_8080 holder_def relocated_def update_conv')

lemma start_conflict:
  "handleContainerStart scripted conflict ''bbb''
   = (Returned (), snd (refreshContainers scripted after_conflict_remap))"
proof -
  have i: "isContainerProcessed scripted conflict ''bbb'' = (False, conflict)"
    by (simp add: start_defs scripted_def conflict_def tracking_a_def contested_def quiet_def)
  have j: "docker_inspect_json scripted (world conflict) ''bbb''
     = Some (JSON (JObj (inspected (JArr []) (one_binding ''8080''))))"
    by (simp add: scripted_def conflict_def contested_def quiet_def)
  have a: "all_in_dynamic_range (store conflict) [(''80/tcp'', JArr [binding ''8080''])] = Returned False"
    by (simp add: first_host_port_def binding_def and_then_def must_object_def host_in_range_def
        conflict_def tracking_a_def atoi_defs int_lt_def)
  have o: "old_host_port [(''80/tcp'', JArr [binding ''8080''])] ''80/tcp'' = Returned ''8080''"
    by (simp add: old_host_port_def binding_def and_then_def must_object_def must_array_def must_string_def)
  have r: "remap_all scripted ''bbb'' [(''80/tcp'', JArr [binding ''8080''])] [(''80/tcp'', ''12345'')]
             (conflict\<lparr>world := drawn contested\<rparr>) = (Returned (), after_conflict_remap)"
    by (simp add: o remap_conflict Let_def)
  have "handle_bindings scripted conflict ''bbb'' [(''80/tcp'', JArr [binding ''8080''])]
        = (Returned (), snd (refreshContainers scripted after_conflict_remap))"
    by (simp add: handle_bindings_def a collect_conflict r refresh_after_def
        del: all_in_dynamic_range.simps collect_remaps.simps remap_all.simps)
  with i j show ?thesis
    by (simp add: handleContainerStart_def inspected_def one_binding_def binding_def)
qed

text \<open>
  Claim C3 against the code, on the scenario S2. The start handler relocates \<open>bbb\<close>: the Store
  then holds \<open>aaa\<close> and the replacement \<open>new\<close>, not \<open>bbb\<close>, and the replacement's binding has the
  current host port 12345 within \<open>[10000, 65000]\<close>. Its \<open>original\<close> is 12345 as well, not
  8080: the refresh sees a container it has no stored mapping for.
\<close>

theorem C3_replacement_forgets_original:
  "tracked (store conflict) ''aaa'' \<and>
   isPortUsedByOtherContainer (store conflict) ''bbb'' 8080 ''tcp'' \<and>
   fst (handleContainerStart scripted conflict ''bbb'') = Returned () \<and>
   created (trace resolved) = [''new''] \<and>
   map fst (containers (store resolved)) = [''aaa'', ''new''] \<and>
   map PortMappings (map snd (containers (store resolved)))
     = [[\<lparr>ContainerPort = ''80'', HostPort = ''8080'', Protocol = ''tcp'', OriginalPort = ''8080''\<rparr>],
        [\<lparr>ContainerPort = ''80'', HostPort = ''12345'', Protocol = ''tcp'', OriginalPort = ''12345''\<rparr>]]"
proof -
  have a: "tracked (store conflict) ''aaa''"
    by (simp add: tracked_def conflict_def tracking_a_def)
  have b: "isPortUsedByOtherContainer (store conflict) ''bbb'' 8080 ''tcp''"
    by (simp add: isPortUsedByOtherContainer_def conflict_def tracking_a_def holder_def atoi_defs)
  have "calm after_conflict_remap (snd (refreshContainers scripted after_conflict_remap))"
    by (intro calm_refreshContainers calm_refl)
  then have "created (trace (snd (refreshContainers scripted after_conflict_remap)))
             = created (trace after_conflict_remap)"
    by (rule calm_created)
  then have c: "created (trace resolved) = [''new'']"
    by (simp add: resolved_def start_conflict created_def after_conflict_remap_def)
  show ?thesis
    using a b c by (simp add: resolved_def start_conflict resolved_store holder_def relocated_def)
qed

subsection \<open>Group pre-planner\<close>

text \<open>
  \<^verbatim>\<open>strings.Split\<close> on a one-character separator.
\<close>

lemma length_Split: "length (Split s sep) = Suc (count_list s sep)"
  by (induction s) (auto split: list.splits)

lemma Split_nonempty [simp]: "Split s sep \<noteq> []"
  using length_Split [of s sep] by auto

lemma Split_no_sep: "sep \<notin> set s \<Longrightarrow> Split s sep = [s]"
  by (induction s) auto

lemma Split_append: "sep \<notin> set a \<Longrightarrow> Split (a @ sep # b) sep = a # Split b sep"
  by (induction a) (auto split: list.splits)

lemma Split_key:
  "CHR '':'' \<notin> set a \<Longrightarrow> CHR '':'' \<notin> set b \<Longrightarrow> Split (a @ '':'' @ b) (CHR '':'') = [a, b]"
  by (simp add: Split_append Split_no_sep)

lemma prefix_of_two_parts:
  assumes "HasPrefix pm (oldPort @ '':'')" and "length (Split pm (CHR '':'')) = 2"
  shows "Split pm (CHR '':'') ! 0 = oldPort"
proof -
  from assms(1) have "take (length oldPort + 1) pm = oldPort @ '':''"
    by (simp add: HasPrefix_def)
  then have "pm = (oldPort @ '':'') @ drop (length oldPort + 1) pm"
    by (metis append_take_drop_id)
  then obtain rest where pm: "pm = oldPort @ CHR '':'' # rest" by auto
  from assms(2) have "count_list pm (CHR '':'') = 1" by (simp add: length_Split)
  then have "count_list oldPort (CHR '':'') = 0" unfolding pm by simp
  then have "CHR '':'' \<notin> set oldPort" by (simp add: count_list_0_iff)
  from Split_append [OF this, of rest]
  show ?thesis unfolding pm by simp
qed

text \<open>
  The rewrite of one port entry.
\<close>

lemma remap_entry_same_form: "same_form e (remap_entry oldPort newPort e)"
  by (cases e) (auto simp: same_form_def remap_entry_def Let_def split: option.splits yaml.splits)

lemma remap_entry_other_host:
  assumes "entry_host e \<noteq> oldPort"
  shows "remap_entry oldPort newPort e = e"
proof (cases e)
  case (YStr pm)
  show ?thesis
  proof (cases "HasPrefix pm (oldPort @ '':'') \<and> length (Split pm (CHR '':'')) = 2")
    case True
    with prefix_of_two_parts have "Split pm (CHR '':'') ! 0 = oldPort" by blast
    with True assms YStr show ?thesis
      by (simp add: entry_host_def parse_port_entry_def Let_def)
  next
    case False
    with YStr show ?thesis by (auto simp: remap_entry_def Let_def)
  qed
next
  case (YMap pm)
  with assms show ?thesis
    by (auto simp: remap_entry_def entry_host_def parse_port_entry_def Let_def
        split: option.splits yaml.splits)
qed (simp_all add: remap_entry_def)

lemma remap_entry_string:
  "CHR '':'' \<notin> set oldPort \<Longrightarrow> CHR '':'' \<notin> set rest \<Longrightarrow>
   remap_entry oldPort newPort (YStr (oldPort @ '':'' @ rest)) = YStr (newPort @ '':'' @ rest)"
  by (simp add: remap_entry_def HasPrefix_def Split_append Split_no_sep Let_def)

lemma remap_entry_table:
  "map_of pm ''published'' = Some (YStr oldPort) \<Longrightarrow>
   remap_entry oldPort newPort (YMap pm) = YMap (AList.update ''published'' (YStr newPort) pm)"
  by (simp add: remap_entry_def Let_def update_conv')

lemma remap_entry_table_int:
  "map_of pm ''published'' = Some (YInt publishedInt) \<Longrightarrow> Itoa publishedInt = oldPort \<Longrightarrow>
   remap_entry oldPort newPort (YMap pm)
   = YMap (AList.update ''published'' (YInt (fst (Atoi newPort))) pm)"
  by (simp add: remap_entry_def Let_def)

text \<open>
  The conflict test of one port entry. The loop over the tracked bindings compares the
  protocol, but \<^verbatim>\<open>isPortAvailable\<close>, called when the loop finds nothing, looks at the tracked
  bindings again without the protocol before it listens: what decides is the host port alone.
\<close>

lemma tracked_any_protocol: "binding_tracked s p q \<Longrightarrow> port_tracked s p"
  by (auto simp: binding_tracked_def port_tracked_def list_ex_iff)

lemma port_in_use_iff:
  "port_in_use D m p q \<longleftrightarrow> port_tracked (store m) p \<or> \<not> net_listen D (world m) p"
  using tracked_any_protocol [of "store m" p q]
  by (auto simp: port_in_use_def isPortAvailable_def Let_def)

lemma check_entry_decides:
  assumes "parse_port_entry e = (hostPort, containerPort, protocol)"
      and "hostPort \<noteq> []" and "containerPort \<noteq> []" and "Atoi hostPort = (p, True)"
      and "0 < sint (portRangeMax (store m) - portRangeMin (store m))"
  shows "\<exists>newPort m'. check_entry D serviceName e acc m
           = (Returned (if port_tracked (store m) p \<or> \<not> net_listen D (world m) p
                        then AList.update (serviceName @ '':'' @ hostPort) newPort acc else acc), m')
         \<and> store m' = store m \<and> trace m' = trace m"
proof -
  from allocate_attempts_returns [OF assms(5), of D 100]
  obtain port m1 where a: "allocateRandomPort D m = (Returned port, m1)"
    by (auto simp: allocateRandomPort_def)
  with allocate_attempts_keeps [of D 100 m "Returned port" m1]
  have k: "store m1 = store m" "trace m1 = trace m" by (simp_all add: allocateRandomPort_def)
  show ?thesis
    using assms(1-4) a k by (auto simp: check_entry_def port_in_use_iff)
qed

lemma check_entry_skips:
  assumes "parse_port_entry e = (hostPort, containerPort, protocol)"
      and "hostPort = [] \<or> containerPort = [] \<or> \<not> snd (Atoi hostPort)"
  shows "check_entry D serviceName e acc m = (Returned acc, m)"
  using assms by (auto simp: check_entry_def split: prod.splits)

lemma apply_remapping_service:
  assumes "CHR '':'' \<notin> set serviceName" and "CHR '':'' \<notin> set oldPort"
      and "map_of services serviceName = Some (YMap serviceConfig)"
      and "map_of serviceConfig ''ports'' = Some (YSeq ports)"
  shows "apply_remapping services (serviceName @ '':'' @ oldPort, newPort)
         = AList.update serviceName
             (YMap (AList.update ''ports'' (YSeq (map (remap_entry oldPort newPort) ports)) serviceConfig))
             services"
  using assms by (simp add: apply_remapping_def Split_append Split_no_sep Let_def)

text \<open>
  Claim C7 against the code. For a port entry that yields a host port \<open>p\<close> and a container port,
  \<^verbatim>\<open>CheckComposePortConflicts\<close> records \<open>"<service>:<host>"\<close> with a new port exactly when some tracked
  binding holds \<open>p\<close> under any protocol, or the local TCP listen on \<open>p\<close> fails: the protocol of the
  entry does not count, where the claim asks for a tracked binding that holds \<open>(host, proto)\<close>. The
  rest of the claim holds: otherwise nothing is recorded, and \<^verbatim>\<open>GenerateRemappedComposeFile\<close>
  rewrites the port list of the named service entry by entry, where a string entry
  \<open>"<host>:<rest>"\<close> becomes \<open>"<new>:<rest>"\<close>, a table entry gets a new \<open>published\<close> of the type it had,
  every entry keeps its form, and an entry of another host port is returned unchanged.
\<close>

theorem C7_preplan_detects_and_rewrites:
  assumes "parse_port_entry e = (hostPort, containerPort, protocol)"
      and "hostPort \<noteq> []" and "containerPort \<noteq> []" and "Atoi hostPort = (p, True)"
      and "0 < sint (portRangeMax (store m) - portRangeMin (store m))"
  shows "(\<exists>newPort m'. check_entry D serviceName e acc m
            = (Returned (if port_tracked (store m) p \<or> \<not> net_listen D (world m) p
                         then AList.update (serviceName @ '':'' @ hostPort) newPort acc else acc), m')
          \<and> store m' = store m)
       \<and> same_form x (remap_entry oldPort newPort x)
       \<and> (entry_host x \<noteq> oldPort \<longrightarrow> remap_entry oldPort newPort x = x)
       \<and> (CHR '':'' \<notin> set oldPort \<and> CHR '':'' \<notin> set rest \<longrightarrow>
            remap_entry oldPort newPort (YStr (oldPort @ '':'' @ rest)) = YStr (newPort @ '':'' @ rest))
       \<and> (map_of pm ''published'' = Some (YStr oldPort) \<longrightarrow>
            remap_entry oldPort newPort (YMap pm) = YMap (AList.update ''published'' (YStr newPort) pm))
       \<and> (map_of pn ''published'' = Some (YInt publishedInt) \<and> Itoa publishedInt = oldPort \<longrightarrow>
            remap_entry oldPort newPort (YMap pn)
            = YMap (AList.update ''published'' (YInt (fst (Atoi newPort))) pn))
       \<and> (CHR '':'' \<notin> set service \<and> CHR '':'' \<notin> set oldPort
          \<and> map_of services service = Some (YMap serviceConfig)
          \<and> map_of serviceConfig ''ports'' = Some (YSeq ports) \<longrightarrow>
            apply_remapping services (service @ '':'' @ oldPort, newPort)
            = AList.update service
                (YMap (AList.update ''ports'' (YSeq (map (remap_entry oldPort newPort) ports)) serviceConfig))
                services)"
proof -
  from check_entry_decides [OF assms, of D serviceName acc]
  have "\<exists>newPort m'. check_entry D serviceName e acc m
            = (Returned (if port_tracked (store m) p \<or> \<not> net_listen D (world m) p
                         then AList.update (serviceName @ '':'' @ hostPort) newPort acc else acc), m')
          \<and> store m' = store m"
    by blast
  then show ?thesis
    using remap_entry_same_form [of x oldPort newPort] remap_entry_other_host [of x oldPort newPort]
      remap_entry_string [of oldPort rest newPort] remap_entry_table [of pm oldPort newPort]
      remap_entry_table_int [of pn publishedInt oldPort newPort]
      apply_remapping_service [of service oldPort services serviceConfig ports newPort]
    by blast
qed

text \<open>
  The scenarios, run on the scripted runtime: one draw leads to port 12345.
\<close>

lemma allocate_scripted:
  assumes "sc_draws (world m) = [2345]" and "portRangeMin (store m) = 10000"
      and "portRangeMax (store m) = 65000" and "\<not> port_tracked (store m) 12345"
      and "12345 \<notin> set (sc_busy (world m))"
  shows "allocateRandomPort scripted m = (Returned 12345, m\<lparr>world := drawn (world m)\<rparr>)"
proof -
  have r: "rand_Intn scripted (portRangeMax (store m) - portRangeMin (store m)) m
           = (Returned 2345, m\<lparr>world := drawn (world m)\<rparr>)"
    using assms(1-3) by (simp add: rand_Intn_def scripted_def drawn_def)
  have a: "isPortAvailable scripted (m\<lparr>world := drawn (world m)\<rparr>) 12345"
    using assms(4,5) by (simp add: isPortAvailable_def scripted_def drawn_def)
  have p: "(2345 :: goint) + portRangeMin (store m) = 12345"
    using assms(2) by simp
  have "allocate_attempts scripted (Suc 99) m = (Returned 12345, m\<lparr>world := drawn (world m)\<rparr>)"
    unfolding allocate_attempts.simps r using a p by (simp add: Let_def)
  then show ?thesis by (simp add: allocateRandomPort_def)
qed

lemma atoi_8080: "Atoi ''8080'' = (8080, True)"
  by (simp add: atoi_defs)

lemma atoi_5432: "Atoi ''5432'' = (5432, True)"
  by (simp add: atoi_defs)

lemma preflight_allocates:
  "allocateRandomPort scripted preflight = (Returned 12345, preflight\<lparr>world := drawn deploying\<rparr>)"
  using allocate_scripted [of preflight]
  by (simp add: preflight_def deploying_def quiet_def tracking_a_def holder_def port_tracked_def atoi_8080)

lemma preflight_check:
  "CheckComposePortConflicts scripted preflight ''app1.yml''
   = (Returned [(''web:8080'', ''12345'')], preflight\<lparr>world := drawn deploying\<rparr>)"
proof -
  have cfg: "compose_config scripted (world preflight) ''app1.yml'' = Some (YAML app1)"
    by (simp add: scripted_def preflight_def deploying_def quiet_def)
  have web: "check_entry scripted ''web'' (YStr ''8080:80'') [] preflight
             = (Returned [(''web:8080'', ''12345'')], preflight\<lparr>world := drawn deploying\<rparr>)"
    by (simp add: check_entry_def parse_port_entry_def Let_def atoi_8080 port_in_use_def
        preflight_allocates itoa_12345)
       (simp add: binding_tracked_def preflight_def tracking_a_def holder_def atoi_8080)
  have db: "check_entry scripted ''db'' (YStr ''5432:5432'') [(''web:8080'', ''12345'')]
               (preflight\<lparr>world := drawn deploying\<rparr>)
             = (Returned [(''web:8080'', ''12345'')], preflight\<lparr>world := drawn deploying\<rparr>)"
    by (simp add: check_entry_def parse_port_entry_def Let_def atoi_5432 port_in_use_def
        binding_tracked_def isPortAvailable_def port_tracked_def preflight_def tracking_a_def holder_def
        atoi_8080 scripted_def deploying_def quiet_def drawn_def)
  show ?thesis
    by (simp add: CheckComposePortConflicts_def cfg app1_def services_of_def service_ports_def web db)
qed

lemma preflight_generate:
  "GenerateRemappedComposeFile scripted preflight ''app1.yml'' [(''web:8080'', ''12345'')]
   = Returned app1_remapped"
  by (simp add: GenerateRemappedComposeFile_def scripted_def preflight_def deploying_def quiet_def
      app1_def app1_remapped_def services_of_def and_then_def apply_remapping_def Let_def
      remap_entry_def HasPrefix_def)

lemma preflight_udp_untracked: "\<not> binding_tracked (store preflight_udp) 8080 ''tcp''"
  by (simp add: binding_tracked_def preflight_udp_def tracking_a_def udp_holder_def holder_def)

lemma preflight_udp_check:
  "CheckComposePortConflicts scripted preflight_udp ''app1.yml''
   = (Returned [(''web:8080'', ''12345'')], preflight_udp\<lparr>world := drawn (world preflight_udp)\<rparr>)"
proof -
  have a: "parse_port_entry (YStr ''8080:80'') = (''8080'', ''80'', ''tcp'')"
    by (simp add: parse_port_entry_def Let_def)
  have al: "allocateRandomPort scripted preflight_udp
            = (Returned 12345, preflight_udp\<lparr>world := drawn (world preflight_udp)\<rparr>)"
    by (rule allocate_scripted)
       (simp_all add: preflight_udp_def deploying_def quiet_def tracking_a_def udp_holder_def holder_def
          port_tracked_def atoi_8080)
  have cfg: "compose_config scripted (world preflight_udp) ''app1.yml'' = Some (YAML app1)"
    by (simp add: scripted_def preflight_udp_def deploying_def quiet_def)
  have web: "check_entry scripted ''web'' (YStr ''8080:80'') [] preflight_udp
             = (Returned [(''web:8080'', ''12345'')], preflight_udp\<lparr>world := drawn (world preflight_udp)\<rparr>)"
    by (simp add: check_entry_def a atoi_8080 port_in_use_def preflight_udp_untracked al itoa_12345)
       (simp add: isPortAvailable_def port_tracked_def preflight_udp_def tracking_a_def udp_holder_def
          holder_def atoi_8080)
  have db: "check_entry scripted ''db'' (YStr ''5432:5432'') [(''web:8080'', ''12345'')]
               (preflight_udp\<lparr>world := drawn (world preflight_udp)\<rparr>)
             = (Returned [(''web:8080'', ''12345'')], preflight_udp\<lparr>world := drawn (world preflight_udp)\<rparr>)"
    by (simp add: check_entry_def parse_port_entry_def Let_def atoi_5432 port_in_use_def
        binding_tracked_def isPortAvailable_def port_tracked_def preflight_udp_def tracking_a_def
        udp_holder_def holder_def atoi_8080 scripted_def deploying_def quiet_def drawn_def)
  show ?thesis
    by (simp add: CheckComposePortConflicts_def cfg app1_def services_of_def service_ports_def web db)
qed

lemma itoa_8080: "Itoa 8080 = ''8080''"
  by (simp add: Itoa_def decimal_def digit_char_def)

lemma atoi_12345: "Atoi ''12345'' = (12345, True)"
  by (simp add: atoi_defs)

text \<open>
  On the descriptor of S5 with \<open>aaa\<close> tracked on 8080/udp: no tracked binding holds 8080/tcp and
  the listen on 8080 succeeds, yet \<open>web:8080\<close> is recorded as a conflict and moved to 12345.
\<close>

theorem C7_preplan_detects_and_rewrites_witness:
  "parse_port_entry (YStr ''8080:80'') = (''8080'', ''80'', ''tcp'') \<and>
   Atoi ''8080'' = (8080, True) \<and>
   0 < sint (portRangeMax (store preflight_udp) - portRangeMin (store preflight_udp)) \<and>
   \<not> binding_tracked (store preflight_udp) 8080 ''tcp'' \<and>
   net_listen scripted (world preflight_udp) 8080 \<and>
   port_tracked (store preflight_udp) 8080 \<and>
   (\<exists>newPort m'. check_entry scripted ''web'' (YStr ''8080:80'') [] preflight_udp
                  = (Returned [(''web:8080'', newPort)], m') \<and> store m' = store preflight_udp) \<and>
   fst (CheckComposePortConflicts scripted preflight_udp ''app1.yml'') = Returned [(''web:8080'', ''12345'')] \<and>
   same_form (YStr ''5432:5432'') (remap_entry ''8080'' ''12345'' (YStr ''5432:5432'')) \<and>
   remap_entry ''8080'' ''12345'' (YStr ''5432:5432'') = YStr ''5432:5432'' \<and>
   remap_entry ''8080'' ''12345'' (YStr ''8080:80'') = YStr ''12345:80'' \<and>
   remap_entry ''8080'' ''12345'' (YMap [(''target'', YInt 80), (''published'', YStr ''8080'')])
   = YMap [(''target'', YInt 80), (''published'', YStr ''12345'')] \<and>
   remap_entry ''8080'' ''12345'' (YMap [(''target'', YInt 80), (''published'', YInt 8080)])
   = YMap [(''target'', YInt 80), (''published'', YInt 12345)] \<and>
   apply_remapping
     [(''web'', YMap [(''image'', YStr ''nginx''), (''ports'', YSeq [YStr ''8080:80''])]),
      (''db'', YMap [(''image'', YStr ''postgres:13''), (''ports'', YSeq [YStr ''5432:5432''])])]
     (''web:8080'', ''12345'')
   = [(''web'', YMap [(''image'', YStr ''nginx''), (''ports'', YSeq [YStr ''12345:80''])]),
      (''db'', YMap [(''image'', YStr ''postgres:13''), (''ports'', YSeq [YStr ''5432:5432''])])]"
proof -
  have h1: "parse_port_entry (YStr ''8080:80'') = (''8080'', ''80'', ''tcp'')"
    by (simp add: parse_port_entry_def Let_def)
  have h2: "''8080'' \<noteq> []" and h3: "''80'' \<noteq> []"
    by simp_all
  have h5: "0 < sint (portRangeMax (store preflight_udp) - portRangeMin (store preflight_udp))"
    by (simp add: preflight_udp_def tracking_a_def)
  have ls: "net_listen scripted (world preflight_udp) 8080"
    by (simp add: scripted_def preflight_udp_def deploying_def quiet_def)
  have tr: "port_tracked (store preflight_udp) 8080"
    by (simp add: port_tracked_def preflight_udp_def tracking_a_def udp_holder_def holder_def atoi_8080)
  have run: "fst (CheckComposePortConflicts scripted preflight_udp ''app1.yml'')
             = Returned [(''web:8080'', ''12345'')]"
    by (simp add: preflight_udp_check)
  have other: "entry_host (YStr ''5432:5432'') \<noteq> ''8080''"
    by (simp add: entry_host_def parse_port_entry_def Let_def)
  have one: "remap_entry ''8080'' ''12345'' (YStr ''8080:80'') = YStr ''12345:80''"
    by (simp add: remap_entry_def HasPrefix_def)
  note inst = C7_preplan_detects_and_rewrites [OF h1 h2 h3 atoi_8080 h5,
      where D = scripted and serviceName = "''web''" and acc = "[]"
        and x = "YStr ''5432:5432''" and oldPort = "''8080''" and newPort = "''12345''"
        and rest = "''80''"
        and pm = "[(''target'', YInt 80), (''published'', YStr ''8080'')]"
        and pn = "[(''target'', YInt 80), (''published'', YInt 8080)]"
        and publishedInt = 8080
        and service = "''web''"
        and services = "[(''web'', YMap [(''image'', YStr ''nginx''), (''ports'', YSeq [YStr ''8080:80''])]),
                         (''db'', YMap [(''image'', YStr ''postgres:13''),
                                        (''ports'', YSeq [YStr ''5432:5432''])])]"
        and serviceConfig = "[(''image'', YStr ''nginx''), (''ports'', YSeq [YStr ''8080:80''])]"
        and ports = "[YStr ''8080:80'']"]
  from inst tr
  have c1: "\<exists>newPort m'. check_entry scripted ''web'' (YStr ''8080:80'') [] preflight_udp
                  = (Returned [(''web:8080'', newPort)], m') \<and> store m' = store preflight_udp"
    by simp
  from inst have c2: "same_form (YStr ''5432:5432'') (remap_entry ''8080'' ''12345'' (YStr ''5432:5432''))"
    by blast
  from inst other have c3: "remap_entry ''8080'' ''12345'' (YStr ''5432:5432'') = YStr ''5432:5432''"
    by blast
  from inst have c4: "remap_entry ''8080'' ''12345'' (YStr ''8080:80'') = YStr ''12345:80''"
    by simp
  from inst
  have c5: "remap_entry ''8080'' ''12345'' (YMap [(''target'', YInt 80), (''published'', YStr ''8080'')])
            = YMap [(''target'', YInt 80), (''published'', YStr ''12345'')]"
    by simp
  from inst
  have c6: "remap_entry ''8080'' ''12345'' (YMap [(''target'', YInt 80), (''published'', YInt 8080)])
            = YMap [(''target'', YInt 80), (''published'', YInt 12345)]"
    by (simp add: itoa_8080 atoi_12345)
  from inst
  have c7: "apply_remapping
     [(''web'', YMap [(''image'', YStr ''nginx''), (''ports'', YSeq [YStr ''8080:80''])]),
      (''db'', YMap [(''image'', YStr ''postgres:13''), (''ports'', YSeq [YStr ''5432:5432''])])]
     (''web:8080'', ''12345'')
   = [(''web'', YMap [(''image'', YStr ''nginx''), (''ports'', YSeq [YStr ''12345:80''])]),
      (''db'', YMap [(''image'', YStr ''postgres:13''), (''ports'', YSeq [YStr ''5432:5432''])])]"
    by (simp add: one)
  from h1 atoi_8080 h5 preflight_udp_untracked ls tr c1 run c2 c3 c4 c5 c6 c7 show ?thesis
    by (intro conjI)
qed

subsection \<open>The swap at the end of a refresh\<close>










end
